(* ===== verification/Prelim.thy ===== *)
theory Prelim
  imports Main
begin

text \<open>
  Shared vocabulary of the development: the JavaScript values that reach the
  handlers (a request-body field, a JSON response), the two string primitives the
  handlers call (\<open>String.prototype.split\<close> with a one-character separator and the
  out-of-range-is-undefined array read), and the collections of simplification
  rules that the component theories fill.
\<close>

named_theorems handler_defs \<open>definitions of the request handlers, unfolded by the handler proofs\<close>
named_theorems store_simps \<open>equations of the user-store operations\<close>

section \<open>JavaScript values\<close>

text \<open>
  A field of a parsed JSON request body, as the handlers read it with
  \<open>const { email, password } = req.body\<close>: absent (\<open>undefined\<close>), a string, or any
  other JSON value (number, boolean, null, array, object), which every string rule
  of the validators rejects.
\<close>

datatype body_value = Absent | Str string | NonString

text \<open>The JSON documents the handlers send with \<open>res.json\<close>.\<close>

datatype json =
    JStr string
  | JNum int
  | JBool bool
  | JObj "(string \<times> json) list"

text \<open>
  An object member whose value is \<open>undefined\<close> is dropped by \<open>JSON.stringify\<close>;
  \<open>opt_member\<close> builds such a member from an optional value.
\<close>

definition opt_member :: "string \<Rightarrow> string option \<Rightarrow> (string \<times> json) list" where
  "opt_member k v = (case v of None \<Rightarrow> [] | Some s \<Rightarrow> [(k, JStr s)])"

text \<open>\<open>j[k]\<close> for an object \<open>j\<close>.\<close>

definition json_get :: "string \<Rightarrow> json \<Rightarrow> json option" where
  "json_get k j = (case j of JObj ms \<Rightarrow> map_of ms k | _ \<Rightarrow> None)"

text \<open>All keys of a JSON document, at any depth.\<close>

fun json_keys :: "json \<Rightarrow> string list" where
  "json_keys (JObj ms) = concat (map (\<lambda>(k, v). k # json_keys v) ms)"
| "json_keys _ = []"

section \<open>Errors\<close>

text \<open>
  Everything a handler can throw or pass to \<open>next(error)\<close>: an \<open>HttpError(status,
  message)\<close> of the helpers module, a Mongoose validation error, a MongoDB duplicate-key
  error of the unique \<open>email\<close> index, a JavaScript \<open>TypeError\<close> (a property read on
  \<open>undefined\<close>), an upload-middleware error, a file-system error and an error of the
  password-hashing library.
\<close>

datatype app_error =
    HttpError nat string
  | ValidationError string
  | DuplicateKey string
  | TypeError string
  | MulterError string
  | FsError string
  | BcryptError string

section \<open>Strings and arrays\<close>

text \<open>
  \<open>s.split(c)\<close> for a one-character separator \<open>c\<close>: the pieces between the
  occurrences of \<open>c\<close>, in order; \<open>"".split(c)\<close> is \<open>[""]\<close>. The accumulator holds
  the current piece reversed.
\<close>

fun split_acc :: "char \<Rightarrow> string \<Rightarrow> string \<Rightarrow> string list" where
  "split_acc c acc [] = [rev acc]"
| "split_acc c acc (x # xs) =
     (if x = c then rev acc # split_acc c [] xs else split_acc c (x # acc) xs)"

definition js_split :: "char \<Rightarrow> string \<Rightarrow> string list" where
  "js_split c s = split_acc c [] s"

text \<open>\<open>xs.join(c)\<close>, the inverse of \<open>split\<close>.\<close>

fun js_join :: "char \<Rightarrow> string list \<Rightarrow> string" where
  "js_join c [] = []"
| "js_join c [x] = x"
| "js_join c (x # y # ys) = x @ c # js_join c (y # ys)"

text \<open>\<open>xs[i]\<close>: \<open>undefined\<close> (here \<open>None\<close>) out of range.\<close>

definition js_index :: "'a list \<Rightarrow> nat \<Rightarrow> 'a option" where
  "js_index xs i = (if i < length xs then Some (xs ! i) else None)"

text \<open>
  \<open>String.prototype.split\<close> as ECMA-262 specifies it for a one-character separator
  \<open>R\<close> and no limit: if \<open>S\<close> is empty the result is \<open>[S]\<close>; otherwise, with
  \<open>i = 0\<close> and \<open>j = StringIndexOf(S, R, 0)\<close>, while \<open>j \<noteq> -1\<close> the piece from \<open>i\<close>
  to \<open>j\<close> is appended, \<open>i\<close> becomes \<open>j + 1\<close> and \<open>j = StringIndexOf(S, R, i)\<close>;
  finally the rest from \<open>i\<close> is appended. \<open>StringIndexOf\<close> scans from its start
  position and returns the first match (\<open>None\<close> for \<open>-1\<close>). The outer loop is a
  \<open>partial_function\<close>: that it always returns is a theorem below.
\<close>

function index_of :: "char \<Rightarrow> string \<Rightarrow> nat \<Rightarrow> nat option" where
  "index_of c s k = (if k < length s then (if s ! k = c then Some k else index_of c s (Suc k)) else None)"
  by pat_completeness auto

termination by (relation "measure (\<lambda>(c, s, k). length s - k)") auto

declare index_of.simps [simp del]

partial_function (option) split_loop :: "char \<Rightarrow> string \<Rightarrow> nat \<Rightarrow> string list \<Rightarrow> string list option" where
  "split_loop c s i acc =
     (case index_of c s i of
        None \<Rightarrow> Some (acc @ [drop i s])
      | Some j \<Rightarrow> split_loop c s (Suc j) (acc @ [take (j - i) (drop i s)]))"

definition ecma_split :: "char \<Rightarrow> string \<Rightarrow> string list option" where
  "ecma_split c s = (if s = [] then Some [s] else split_loop c s 0 [])"

declare split_loop.simps [code]

lemma json_keys_JObj_Nil [simp]: "json_keys (JObj []) = []"
  by simp

lemma json_keys_JObj_Cons [simp]:
  "json_keys (JObj ((k, v) # ms)) = k # json_keys v @ json_keys (JObj ms)"
  by simp

lemma json_keys_append [simp]:
  "json_keys (JObj (ms @ ns)) = json_keys (JObj ms) @ json_keys (JObj ns)"
  by simp

lemma json_keys_opt_member [simp]:
  "json_keys (JObj (opt_member k v)) = (case v of None \<Rightarrow> [] | Some _ \<Rightarrow> [k])"
  by (simp add: opt_member_def split: option.splits)

declare json_keys.simps(1) [simp del]

lemma js_index_simps [simp]:
  "js_index [] i = None"
  "js_index (x # xs) 0 = Some x"
  "js_index (x # xs) (Suc i) = js_index xs i"
  by (simp_all add: js_index_def)

lemma split_acc_nonempty [simp]: "split_acc c acc s \<noteq> []"
  by (induction c acc s rule: split_acc.induct) auto

lemma split_acc_no_sep:
  "c \<notin> set s \<Longrightarrow> split_acc c acc s = [rev acc @ s]"
  by (induction c acc s rule: split_acc.induct) auto

lemma split_acc_append_sep:
  "c \<notin> set u \<Longrightarrow> split_acc c acc (u @ c # v) = (rev acc @ u) # split_acc c [] v"
  by (induction u arbitrary: acc) auto

lemma js_split_no_sep [simp]: "c \<notin> set s \<Longrightarrow> js_split c s = [s]"
  by (simp add: js_split_def split_acc_no_sep)

lemma js_split_append_sep:
  "c \<notin> set u \<Longrightarrow> js_split c (u @ c # v) = u # js_split c v"
  by (simp add: js_split_def split_acc_append_sep)

lemma js_join_Cons:
  "ys \<noteq> [] \<Longrightarrow> js_join c (x # ys) = x @ c # js_join c ys"
  by (cases ys) auto

lemma js_join_split_acc:
  "js_join c (split_acc c acc s) = rev acc @ s"
proof (induction c acc s rule: split_acc.induct)
  case (1 c acc)
  show ?case by simp
next
  case (2 c acc x xs)
  then show ?case by (auto simp: js_join_Cons)
qed

lemma split_acc_pieces: "p \<in> set (split_acc c acc s) \<Longrightarrow> c \<notin> set acc \<Longrightarrow> c \<notin> set p"
  by (induction c acc s rule: split_acc.induct) (auto split: if_splits)

text \<open>
  \<open>split\<close> and \<open>join\<close> with the same one-character separator are inverse:
  joining the pieces gives the string back, and no piece holds the separator.
\<close>

lemma js_split_roundtrip:
  "js_join c (js_split c s) = s \<and> list_all (\<lambda>p. c \<notin> set p) (js_split c s)"
  using js_join_split_acc [of c "[]" s] split_acc_pieces [of _ c "[]" s]
  by (simp add: js_split_def list_all_iff)

lemma drop_nth_Cons: "k < length s \<Longrightarrow> drop k s = s ! k # drop (Suc k) s"
  by (simp add: Cons_nth_drop_Suc)

lemma index_of_Some:
  "index_of c s k = Some j \<Longrightarrow> k \<le> j \<and> j < length s \<and> s ! j = c \<and> c \<notin> set (take (j - k) (drop k s))"
proof (induction c s k rule: index_of.induct)
  case (1 c s k)
  show ?case
  proof (cases "k < length s \<and> s ! k = c")
    case True
    with "1.prems" have "j = k" by (simp add: index_of.simps [of c s k])
    with True show ?thesis by simp
  next
    case False
    with "1.prems" have k: "k < length s" and ne: "s ! k \<noteq> c" and r: "index_of c s (Suc k) = Some j"
      by (auto simp: index_of.simps [of c s k] split: if_splits)
    have IH: "Suc k \<le> j \<and> j < length s \<and> s ! j = c \<and> c \<notin> set (take (j - Suc k) (drop (Suc k) s))"
      using "1.IH" [OF k ne r] .
    then have "j - k = Suc (j - Suc k)" by arith
    then have "take (j - k) (drop k s) = s ! k # take (j - Suc k) (drop (Suc k) s)"
      using drop_nth_Cons [OF k] by simp
    with IH ne show ?thesis by auto
  qed
qed

lemma index_of_None: "index_of c s k = None \<Longrightarrow> c \<notin> set (drop k s)"
proof (induction c s k rule: index_of.induct)
  case (1 c s k)
  show ?case
  proof (cases "k < length s")
    case True
    with "1.prems" have ne: "s ! k \<noteq> c" and r: "index_of c s (Suc k) = None"
      by (auto simp: index_of.simps [of c s k] split: if_splits)
    with "1.IH" [OF True ne r] drop_nth_Cons [OF True] show ?thesis by simp
  next
    case False
    then show ?thesis by simp
  qed
qed

lemma split_loop_js_split:
  "i \<le> length s \<Longrightarrow> split_loop c s i acc = Some (acc @ js_split c (drop i s))"
proof (induction "length s - i" arbitrary: i acc rule: less_induct)
  case less
  show ?case
  proof (cases "index_of c s i")
    case None
    then show ?thesis using index_of_None [OF None] by (simp add: split_loop.simps [of c s i])
  next
    case (Some j)
    note j = index_of_Some [OF Some]
    have d: "drop i s = take (j - i) (drop i s) @ c # drop (Suc j) s"
    proof -
      have "drop i s = take (j - i) (drop i s) @ drop (j - i) (drop i s)" by (rule append_take_drop_id [symmetric])
      moreover have "drop (j - i) (drop i s) = c # drop (Suc j) s"
        using j drop_nth_Cons [of j s] by simp
      ultimately show ?thesis by simp
    qed
    have "js_split c (drop i s) = take (j - i) (drop i s) # js_split c (drop (Suc j) s)"
      using js_split_append_sep [of c "take (j - i) (drop i s)" "drop (Suc j) s"] j d by simp
    moreover have "split_loop c s (Suc j) (acc @ [take (j - i) (drop i s)]) =
        Some ((acc @ [take (j - i) (drop i s)]) @ js_split c (drop (Suc j) s))"
    proof -
      have lt: "length s - Suc j < length s - i" using j by arith
      show ?thesis using less.hyps [of "Suc j"] lt j by simp
    qed
    ultimately show ?thesis using Some by (simp add: split_loop.simps [of c s i])
  qed
qed


text \<open>
  The ECMAScript split loop terminates: from any position and accumulated
  pieces, \<open>split_loop\<close> returns a result. Each round moves the position past the
  separator that \<open>StringIndexOf\<close> found, so \<open>length s - i\<close> decreases.
\<close>

lemma split_loop_terminates: "\<exists>r. split_loop c s i acc = Some r"
proof (induction "length s - i" arbitrary: i acc rule: less_induct)
  case less
  show ?case
  proof (cases "index_of c s i")
    case None
    then show ?thesis by (simp add: split_loop.simps [of c s i])
  next
    case (Some j)
    have "length s - Suc j < length s - i" using index_of_Some [OF Some] by arith
    with less Some show ?thesis by (simp add: split_loop.simps [of c s i])
  qed
qed

text \<open>
  The accumulator model \<open>js_split\<close> that the handlers use computes what the
  ECMA-262 algorithm computes, on every string.
\<close>

lemma ecma_split_eq: "ecma_split c s = Some (js_split c s)"
  using split_loop_js_split [of 0 s c "[]"] by (simp add: ecma_split_def js_split_def)

end
