(* ===== verification/Validation.thy ===== *)
theory Validation
  imports Prelim
begin

text \<open>
  The request-body validator \<open>validateUser\<close> of \<open>src/routes/api/users.js\<close>
  (lines 27--38): a Joi object schema with an \<open>email\<close> rule (a valid address with at
  least two domain segments and a top-level domain in \<open>{com, net}\<close>) and a
  \<open>password\<close> rule (\<open>pattern(/^[a-zA-Z0-9]{3,30}$/)\<close>, \<open>required()\<close>,
  \<open>min(7)\<close>). Joi reports the first violation, keys in schema order and, within a
  key, presence, type, emptiness and then the rules in the order they were added;
  \<open>validate_user\<close> returns that first error, or \<open>None\<close>.
  The address check follows the checks of Joi's \<open>string().email()\<close> on ASCII
  input; non-ASCII addresses are rejected by the model.
\<close>

section \<open>Character classes\<close>

definition is_digit :: "char \<Rightarrow> bool" where
  "is_digit c = (let n = (of_char c :: nat) in 48 \<le> n \<and> n \<le> 57)"

definition is_alpha :: "char \<Rightarrow> bool" where
  "is_alpha c = (let n = (of_char c :: nat) in (65 \<le> n \<and> n \<le> 90) \<or> (97 \<le> n \<and> n \<le> 122))"

text \<open>\<open>[a-zA-Z0-9]\<close>\<close>

definition is_alnum :: "char \<Rightarrow> bool" where
  "is_alnum c = (is_alpha c \<or> is_digit c)"

text \<open>The \<open>atext\<close> characters allowed in a local part: \<open>[\w!#$%&'*+\-/=?^`{|}~]\<close>.\<close>

definition is_atext :: "char \<Rightarrow> bool" where
  "is_atext c = (is_alnum c \<or> c \<in> set ''_!#$%&*+-/=?^`{|}~'' \<or> c = CHR 0x27)"

definition to_lower :: "char \<Rightarrow> char" where
  "to_lower c = (let n = (of_char c :: nat) in if 65 \<le> n \<and> n \<le> 90 then char_of (n + 32) else c)"

section \<open>The address rule\<close>

text \<open>A local part: dot-separated, non-empty atoms of \<open>atext\<close>.\<close>

definition local_ok :: "string \<Rightarrow> bool" where
  "local_ok l = list_all (\<lambda>seg. seg \<noteq> [] \<and> list_all is_atext seg) (js_split (CHR ''.'') l)"

text \<open>A domain label: \<open>/^[a-zA-Z\d](?:[a-zA-Z\d\-]*[a-zA-Z\d])?$/\<close>, at most 63 characters.\<close>

definition label_ok :: "string \<Rightarrow> bool" where
  "label_ok seg = (seg \<noteq> [] \<and> length seg \<le> 63 \<and> is_alnum (hd seg) \<and> is_alnum (last seg)
     \<and> list_all (\<lambda>c. is_alnum c \<or> c = CHR ''-'') seg)"

text \<open>The allowed top-level domains of line 30, compared in lower case.\<close>

definition allowed_tlds :: "string list" where
  "allowed_tlds = [''com'', ''net'']"

definition domain_ok :: "string \<Rightarrow> bool" where
  "domain_ok d = (let segs = js_split (CHR ''.'') d in
     d \<noteq> [] \<and> 2 \<le> length segs \<and> map to_lower (last segs) \<in> set allowed_tlds
     \<and> is_alpha (hd (last segs)) \<and> list_all label_ok segs)"

definition email_ok :: "string \<Rightarrow> bool" where
  "email_ok e = (case js_split (CHR ''@'') e of
      [l, d] \<Rightarrow> l \<noteq> [] \<and> length e \<le> 254 \<and> length l \<le> 64 \<and> local_ok l \<and> domain_ok d
    | _ \<Rightarrow> False)"

section \<open>The password rules\<close>

text \<open>\<open>/^[a-zA-Z0-9]{3,30}$/\<close>\<close>

definition password_pattern :: "string \<Rightarrow> bool" where
  "password_pattern p = (3 \<le> length p \<and> length p \<le> 30 \<and> list_all is_alnum p)"

section \<open>Joi errors\<close>

datatype joi_error =
    AnyRequired string
  | StringBase string
  | StringEmpty string
  | StringEmail string
  | StringPattern string string
  | StringMin string nat

definition quoted :: "string \<Rightarrow> string" where
  "quoted s = CHR 0x22 # s @ [CHR 0x22]"

text \<open>\<open>error.details[0].message\<close>, in Joi's wording.\<close>

fun joi_message :: "joi_error \<Rightarrow> string" where
  "joi_message (AnyRequired k) = quoted k @ '' is required''"
| "joi_message (StringBase k) = quoted k @ '' must be a string''"
| "joi_message (StringEmpty k) = quoted k @ '' is not allowed to be empty''"
| "joi_message (StringEmail k) = quoted k @ '' must be a valid email''"
| "joi_message (StringPattern k v) = quoted k @ '' with value '' @ quoted v @
     '' fails to match the required pattern: /^[a-zA-Z0-9]{3,30}$/''"
| "joi_message (StringMin k n) = quoted k @ '' length must be at least 7 characters long''"

text \<open>
  A required \<open>Joi.string()\<close> key: absence, type and emptiness are checked before the
  key's rules, which \<open>rules\<close> gives in order.
\<close>

definition check_string :: "string \<Rightarrow> (string \<Rightarrow> joi_error option) \<Rightarrow> body_value \<Rightarrow> joi_error option" where
  "check_string k rules v = (case v of
      Absent \<Rightarrow> Some (AnyRequired k)
    | NonString \<Rightarrow> Some (StringBase k)
    | Str s \<Rightarrow> if s = [] then Some (StringEmpty k) else rules s)"

definition email_rules :: "string \<Rightarrow> joi_error option" where
  "email_rules s = (if email_ok s then None else Some (StringEmail ''email''))"

text \<open>\<open>.pattern(...)\<close> was added before \<open>.min(7)\<close>, so it is checked first.\<close>

definition password_rules :: "string \<Rightarrow> joi_error option" where
  "password_rules s =
     (if \<not> password_pattern s then Some (StringPattern ''password'' s)
      else if length s < 7 then Some (StringMin ''password'' 7)
      else None)"

definition validate_user :: "body_value \<Rightarrow> body_value \<Rightarrow> joi_error option" where
  "validate_user email password =
     (case check_string ''email'' email_rules email of
        Some e \<Rightarrow> Some e
      | None \<Rightarrow> check_string ''password'' password_rules password)"

lemmas validation_defs = validate_user_def check_string_def email_rules_def password_rules_def

section \<open>Properties\<close>

text \<open>The accepted passwords: 7 to 30 characters of \<open>[a-zA-Z0-9]\<close>.\<close>

definition password_ok :: "string \<Rightarrow> bool" where
  "password_ok p = (7 \<le> length p \<and> length p \<le> 30 \<and> list_all is_alnum p)"

lemma password_rules_None_iff: "password_rules p = None \<longleftrightarrow> password_ok p"
  by (auto simp: password_rules_def password_pattern_def password_ok_def)

lemma validate_user_Str:
  "validate_user (Str e) (Str p) =
     (if e = [] then Some (StringEmpty ''email'')
      else if \<not> email_ok e then Some (StringEmail ''email'')
      else if p = [] then Some (StringEmpty ''password'')
      else password_rules p)"
  by (simp add: validation_defs)

lemma email_ok_nonempty: "email_ok e \<Longrightarrow> e \<noteq> []"
  by (auto simp: email_ok_def js_split_def)

lemma validate_user_NoneD:
  "validate_user email password = None \<Longrightarrow>
     \<exists>e p. email = Str e \<and> password = Str p \<and> e \<noteq> [] \<and> p \<noteq> [] \<and> email_ok e \<and> password_ok p"
  by (cases email; cases password)
     (auto simp: validate_user_def check_string_def email_rules_def password_rules_None_iff
        password_ok_def split: option.splits if_splits)

lemma validate_user_StrI:
  "email_ok e \<Longrightarrow> password_ok p \<Longrightarrow> validate_user (Str e) (Str p) = None"
  using email_ok_nonempty [of e]
  by (auto simp: validate_user_def check_string_def email_rules_def password_rules_None_iff
        password_ok_def)

text \<open>
  C18. The validator accepts exactly a string address that passes the address rule
  and a string password of 7 to 30 characters from \<open>[a-zA-Z0-9]\<close>: the pattern's
  bound of 3 is subsumed by \<open>min(7)\<close>.
\<close>

theorem validation_accepts_iff:
  "validate_user email password = None \<longleftrightarrow>
     (\<exists>e p. email = Str e \<and> password = Str p \<and> email_ok e
        \<and> 7 \<le> length p \<and> length p \<le> 30 \<and> list_all is_alnum p)"
  using validate_user_NoneD [of email password] validate_user_StrI
  by (auto simp: password_ok_def)

text \<open>
  C19. Which error a non-empty password gets behind a valid address: one that fails
  the pattern is reported with the pattern message; one that matches the pattern but
  is shorter than 7 characters is reported with the \<open>min\<close> message.
\<close>

theorem password_first_error:
  assumes "email_ok e" and "p \<noteq> []"
  shows "validate_user (Str e) (Str p) =
    (if \<not> password_pattern p then Some (StringPattern ''password'' p)
     else if length p < 7 then Some (StringMin ''password'' 7) else None)"
  using assms email_ok_nonempty [OF assms(1)] by (simp add: validate_user_Str password_rules_def)

theorem password_first_error_witness:
  "validate_user (Str ''ann@mail.com'') (Str ''abc12'') = Some (StringMin ''password'' 7)
   \<and> joi_message (StringMin ''password'' 7) = CHR 0x22 # ''password'' @ CHR 0x22 # '' length must be at least 7 characters long''"
proof -
  have e: "email_ok ''ann@mail.com''" by code_simp
  have p: "password_pattern ''abc12''" by code_simp
  show ?thesis using password_first_error [OF e, of "''abc12''"] p by (simp add: quoted_def)
qed

end
