(* ===== verification/Store.thy ===== *)
theory Store
  imports Prelim
begin

text \<open>
  The user store: the Mongoose model \<open>User\<close> of \<open>src/db/usersSchema.js\<close> over a
  MongoDB collection, with the three operations the handlers call
  (\<open>User.findOne\<close>, \<open>User.create\<close>, \<open>User.findByIdAndUpdate\<close>). A document is a
  record of the schema's paths; an unset path is \<open>None\<close>. The collection is a list in
  natural (insertion) order, so \<open>findOne\<close> returns the first match, and a counter
  stands for the generation of fresh \<open>_id\<close>s. \<open>create\<close> applies the schema defaults,
  runs the schema validators, then inserts under the unique index on \<open>email\<close>.
  The abstraction \<open>user_map\<close> views the collection as a map from ids to documents;
  the refinement lemmas show each operation acts on that map as a map operation.
\<close>

section \<open>Documents and the schema\<close>

record user_doc =
  doc_id :: nat
  doc_password :: "string option"
  doc_email :: "string option"
  doc_subscription :: "string option"
  doc_avatarURL :: "string option"
  doc_token :: "string option"
  doc_verify :: "bool option"
  doc_verificationToken :: "string option"

text \<open>The \<open>enum\<close> of the \<open>subscription\<close> path.\<close>

definition subscription_enum :: "string list" where
  "subscription_enum = [''starter'', ''pro'', ''business'']"

text \<open>
  Mongoose's \<open>required\<close> validator on a \<open>String\<close> path fails on \<open>undefined\<close> and on
  the empty string.
\<close>

definition required_error :: "string \<Rightarrow> string \<Rightarrow> string option \<Rightarrow> (string \<times> string) list" where
  "required_error path msg v = (case v of Some s \<Rightarrow> if s = [] then [(path, msg)] else [] | None \<Rightarrow> [(path, msg)])"

definition enum_error :: "string \<Rightarrow> string list \<Rightarrow> string option \<Rightarrow> (string \<times> string) list" where
  "enum_error path vals v = (case v of
      None \<Rightarrow> []
    | Some s \<Rightarrow> if s \<in> set vals then []
               else [(path, ''`'' @ s @ ''` is not a valid enum value for path `'' @ path @ ''`.'')])"

text \<open>The validators of the schema, in the order of its paths (lines 3--33).\<close>

definition schema_errors :: "user_doc \<Rightarrow> (string \<times> string) list" where
  "schema_errors d =
     required_error ''password'' ''Set a password for the user'' (doc_password d)
     @ required_error ''email'' ''Email is required'' (doc_email d)
     @ enum_error ''subscription'' subscription_enum (doc_subscription d)
     @ required_error ''verificationToken'' ''Verify token is required'' (doc_verificationToken d)"

definition doc_valid :: "user_doc \<Rightarrow> bool" where
  "doc_valid d = (schema_errors d = [])"

text \<open>The message of a Mongoose \<open>ValidationError\<close> for model \<open>User\<close>.\<close>

fun join_errors :: "(string \<times> string) list \<Rightarrow> string" where
  "join_errors [] = []"
| "join_errors [(p, m)] = p @ '': '' @ m"
| "join_errors ((p, m) # e # es) = p @ '': '' @ m @ '', '' @ join_errors (e # es)"

definition validation_message :: "(string \<times> string) list \<Rightarrow> string" where
  "validation_message es = ''User validation failed: '' @ join_errors es"

section \<open>The collection\<close>

record store =
  docs :: "user_doc list"
  next_id :: nat

definition empty_store :: store where
  "empty_store = \<lparr>docs = [], next_id = 0\<rparr>"

text \<open>\<open>User.findOne({ email })\<close>\<close>

definition find_by_email :: "store \<Rightarrow> string \<Rightarrow> user_doc option" where
  "find_by_email s e = find (\<lambda>d. doc_email d = Some e) (docs s)"

text \<open>\<open>User.findOne({ _id })\<close>, and the lookup of \<open>findByIdAndUpdate\<close>\<close>

definition find_by_id :: "store \<Rightarrow> nat \<Rightarrow> user_doc option" where
  "find_by_id s i = find (\<lambda>d. doc_id d = i) (docs s)"

text \<open>
  The fields a handler passes to \<open>User.create\<close>; the paths it leaves out are
  \<open>None\<close> and receive the schema default, if any.
\<close>

record create_input =
  ci_password :: "string option"
  ci_email :: "string option"
  ci_avatarURL :: "string option"
  ci_verificationToken :: "string option"

text \<open>The new document: the given fields, the defaults of lines 16, 23 and 27, a fresh id.\<close>

definition new_doc :: "nat \<Rightarrow> create_input \<Rightarrow> user_doc" where
  "new_doc i ci = \<lparr>doc_id = i, doc_password = ci_password ci, doc_email = ci_email ci,
     doc_subscription = Some ''starter'', doc_avatarURL = ci_avatarURL ci,
     doc_token = Some [], doc_verify = Some False,
     doc_verificationToken = ci_verificationToken ci\<rparr>"

text \<open>
  \<open>User.create(input)\<close>: validation first (a \<open>ValidationError\<close> listing every failing
  path), then the insert, which the unique index on \<open>email\<close> (line 11) refuses with a
  duplicate-key error when another document has the same address.
\<close>

definition user_create :: "store \<Rightarrow> create_input \<Rightarrow> app_error + (user_doc \<times> store)" where
  "user_create s ci =
     (let d = new_doc (next_id s) ci in
      if schema_errors d \<noteq> [] then Inl (ValidationError (validation_message (schema_errors d)))
      else if doc_email d \<in> set (map doc_email (docs s))
        then Inl (DuplicateKey (''E11000 duplicate key error, index: email_1''))
      else Inr (d, s\<lparr>docs := docs s @ [d], next_id := Suc (next_id s)\<rparr>))"

text \<open>Replace the first element that satisfies \<open>P\<close> (MongoDB updates one document).\<close>

fun update_first :: "('a \<Rightarrow> bool) \<Rightarrow> ('a \<Rightarrow> 'a) \<Rightarrow> 'a list \<Rightarrow> 'a list" where
  "update_first P f [] = []"
| "update_first P f (x # xs) = (if P x then f x # xs else x # update_first P f xs)"

text \<open>
  \<open>User.findByIdAndUpdate(id, update, { new: true })\<close>: the updated document, or
  \<open>null\<close> (\<open>None\<close>) when no document has that id. Update validators are off by
  default, so the update is applied without running the schema.
\<close>

definition find_by_id_and_update ::
  "store \<Rightarrow> nat \<Rightarrow> (user_doc \<Rightarrow> user_doc) \<Rightarrow> user_doc option \<times> store" where
  "find_by_id_and_update s i f =
     (case find_by_id s i of
        None \<Rightarrow> (None, s)
      | Some d \<Rightarrow> (Some (f d), s\<lparr>docs := update_first (\<lambda>x. doc_id x = i) f (docs s)\<rparr>))"

section \<open>Invariant and abstraction\<close>

text \<open>
  What the schema and the collection's indexes keep true: ids are distinct and below
  the counter, addresses are distinct (the unique index), every document passes the
  schema.
\<close>

definition store_inv :: "store \<Rightarrow> bool" where
  "store_inv s = (distinct (map doc_id (docs s)) \<and> list_all (\<lambda>d. doc_id d < next_id s) (docs s)
     \<and> distinct (map doc_email (docs s)) \<and> list_all doc_valid (docs s))"

text \<open>The collection as a map from ids to documents.\<close>

definition user_map :: "store \<Rightarrow> nat \<Rightarrow> user_doc option" where
  "user_map s = map_of (map (\<lambda>d. (doc_id d, d)) (docs s))"

lemmas store_defs [store_simps] = find_by_email_def find_by_id_def user_create_def
  find_by_id_and_update_def

text \<open>An update that keeps a document's id and address and its validity keeps the invariant.\<close>

definition update_ok :: "(user_doc \<Rightarrow> user_doc) \<Rightarrow> bool" where
  "update_ok f = (\<forall>x. doc_id (f x) = doc_id x \<and> doc_email (f x) = doc_email x
     \<and> (doc_valid x \<longrightarrow> doc_valid (f x)))"

text \<open>The size of the collection: its number of documents and its id counter.\<close>

definition store_size :: "store \<Rightarrow> nat \<times> nat" where
  "store_size s = (length (docs s), next_id s)"

section \<open>Lemmas\<close>

lemma store_inv_empty: "store_inv empty_store"
  by (simp add: store_inv_def empty_store_def)

lemma find_Some_in_set: "find P xs = Some x \<Longrightarrow> x \<in> set xs \<and> P x"
  by (induction xs) (auto split: if_splits)

lemma map_of_ids_find: "map_of (map (\<lambda>d. (doc_id d, d)) ds) i = find (\<lambda>d. doc_id d = i) ds"
  by (induction ds) auto

lemma find_by_id_user_map: "find_by_id s i = user_map s i"
  by (simp add: find_by_id_def user_map_def map_of_ids_find)

lemma find_by_id_Some: "find_by_id s i = Some d \<Longrightarrow> d \<in> set (docs s) \<and> doc_id d = i"
  by (auto simp: find_by_id_def dest: find_Some_in_set)

lemma find_by_email_Some:
  "find_by_email s e = Some d \<Longrightarrow> d \<in> set (docs s) \<and> doc_email d = Some e"
  by (auto simp: find_by_email_def dest: find_Some_in_set)

lemma find_by_email_None:
  "find_by_email s e = None \<longleftrightarrow> Some e \<notin> set (map doc_email (docs s))"
  by (force simp: find_by_email_def find_None_iff)

lemma map_update_first_same:
  "(\<And>x. P x \<Longrightarrow> g (f x) = g x) \<Longrightarrow> map g (update_first P f xs) = map g xs"
  by (induction xs) auto

lemma set_update_first: "set (update_first P f xs) \<subseteq> set xs \<union> f ` set xs"
  by (induction xs) auto

lemma list_all_update_first:
  "list_all Q xs \<Longrightarrow> (\<And>x. Q x \<Longrightarrow> P x \<Longrightarrow> Q (f x)) \<Longrightarrow> list_all Q (update_first P f xs)"
  by (induction xs) auto

lemma update_first_find_None:
  "find P xs = None \<Longrightarrow> update_first P f xs = xs"
  by (induction xs) (auto split: if_splits)

lemma map_of_update_first:
  assumes "find (\<lambda>x. doc_id x = i) ds = Some d" and "\<And>x. doc_id (f x) = doc_id x"
  shows "map_of (map (\<lambda>d. (doc_id d, d)) (update_first (\<lambda>x. doc_id x = i) f ds)) =
           (map_of (map (\<lambda>d. (doc_id d, d)) ds))(i \<mapsto> f d)"
  using assms by (induction ds) (auto simp: fun_upd_twist split: if_splits)

lemma user_create_Inr:
  "user_create s ci = Inr (d, s') \<longleftrightarrow>
     d = new_doc (next_id s) ci \<and> doc_valid d \<and> doc_email d \<notin> set (map doc_email (docs s))
     \<and> s' = s\<lparr>docs := docs s @ [d], next_id := Suc (next_id s)\<rparr>"
  by (auto simp: user_create_def doc_valid_def Let_def)

lemma store_inv_user_create:
  assumes "store_inv s" and "user_create s ci = Inr (d, s')"
  shows "store_inv s'"
proof -
  from assms(2) have d: "d = new_doc (next_id s) ci" "doc_valid d"
    "doc_email d \<notin> set (map doc_email (docs s))"
    and s': "s' = s\<lparr>docs := docs s @ [d], next_id := Suc (next_id s)\<rparr>"
    by (auto simp: user_create_Inr)
  have "doc_id d = next_id s" by (simp add: d(1) new_doc_def)
  with assms(1) have "doc_id d \<notin> set (map doc_id (docs s))"
    by (auto simp: store_inv_def list_all_iff)
  with assms(1) d s' \<open>doc_id d = next_id s\<close> show ?thesis
    by (auto simp: store_inv_def list_all_iff less_Suc_eq)
qed

lemma store_inv_find_by_id_and_update:
  assumes "store_inv s" and "update_ok f"
  shows "store_inv (snd (find_by_id_and_update s i f))"
proof (cases "find_by_id s i")
  case None
  with assms(1) show ?thesis by (simp add: find_by_id_and_update_def)
next
  case (Some d)
  from assms(2) have ids: "map doc_id (update_first (\<lambda>x. doc_id x = i) f (docs s)) = map doc_id (docs s)"
    and ems: "map doc_email (update_first (\<lambda>x. doc_id x = i) f (docs s)) = map doc_email (docs s)"
    by (auto simp: update_ok_def intro: map_update_first_same)
  from assms have "list_all doc_valid (update_first (\<lambda>x. doc_id x = i) f (docs s))"
    by (auto simp: store_inv_def update_ok_def intro: list_all_update_first)
  moreover have "list_all (\<lambda>d. doc_id d < next_id s) (update_first (\<lambda>x. doc_id x = i) f (docs s))"
  proof (rule list_all_update_first)
    from assms(1) show "list_all (\<lambda>d. doc_id d < next_id s) (docs s)" by (simp add: store_inv_def)
  qed (use assms(2) in \<open>auto simp: update_ok_def\<close>)
  ultimately show ?thesis using assms(1) Some ids ems
    by (simp add: store_inv_def find_by_id_and_update_def)
qed

text \<open>Refinement: on the map view, \<open>create\<close> is an insertion at the fresh id.\<close>

lemma user_map_user_create:
  assumes "store_inv s" and "user_create s ci = Inr (d, s')"
  shows "user_map s' = (user_map s)(next_id s \<mapsto> d) \<and> doc_id d = next_id s"
proof -
  from assms(2) have d: "d = new_doc (next_id s) ci"
    and s': "s' = s\<lparr>docs := docs s @ [d], next_id := Suc (next_id s)\<rparr>"
    by (auto simp: user_create_Inr)
  from assms(1) have "next_id s \<notin> set (map doc_id (docs s))"
    by (auto simp: store_inv_def list_all_iff)
  then have "map_of (map (\<lambda>d. (doc_id d, d)) (docs s)) (next_id s) = None"
    by (force simp: map_of_ids_find find_None_iff)
  then show ?thesis using d s'
    by (auto simp: user_map_def map_add_def fun_eq_iff new_doc_def split: option.splits)
qed

text \<open>Refinement: on the map view, \<open>findByIdAndUpdate\<close> is a map update at the id.\<close>

lemma user_map_find_by_id_and_update:
  assumes "find_by_id s i = Some d" and "\<And>x. doc_id (f x) = doc_id x"
  shows "find_by_id_and_update s i f = (Some (f d), snd (find_by_id_and_update s i f))"
    and "user_map (snd (find_by_id_and_update s i f)) = (user_map s)(i \<mapsto> f d)"
  using assms
  by (simp_all add: find_by_id_and_update_def user_map_def map_of_update_first find_by_id_def)

lemma find_by_id_and_update_None:
  "find_by_id s i = None \<Longrightarrow> find_by_id_and_update s i f = (None, s)"
  by (simp add: find_by_id_and_update_def)

text \<open>A create without \<open>verificationToken\<close> always fails validation, listing that path.\<close>

lemma user_create_no_verification_token:
  "ci_verificationToken ci = None \<Longrightarrow>
     user_create s ci = Inl (ValidationError (validation_message (schema_errors (new_doc (next_id s) ci))))
     \<and> (''verificationToken'', ''Verify token is required'') \<in> set (schema_errors (new_doc (next_id s) ci))"
  by (simp add: user_create_def schema_errors_def new_doc_def required_error_def Let_def)

lemma schema_errors_new_doc:
  "schema_errors (new_doc i ci) =
     required_error ''password'' ''Set a password for the user'' (ci_password ci)
     @ required_error ''email'' ''Email is required'' (ci_email ci)
     @ required_error ''verificationToken'' ''Verify token is required'' (ci_verificationToken ci)"
  by (simp add: schema_errors_def new_doc_def enum_error_def subscription_enum_def)

lemma update_ok_subscription:
  "v \<in> set subscription_enum \<Longrightarrow> update_ok (\<lambda>u. u\<lparr>doc_subscription := Some v\<rparr>)"
  by (simp add: update_ok_def doc_valid_def schema_errors_def enum_error_def)

lemma update_ok_avatar: "update_ok (\<lambda>u. u\<lparr>doc_avatarURL := Some url\<rparr>)"
  by (simp add: update_ok_def doc_valid_def schema_errors_def)

lemma ran_map_of_ids:
  "distinct (map doc_id ds) \<Longrightarrow> ran (map_of (map (\<lambda>d. (doc_id d, d)) ds)) = set ds"
proof (induction ds)
  case (Cons a ds)
  from Cons.prems have "map_of (map (\<lambda>d. (doc_id d, d)) ds) (doc_id a) = None"
    by (auto simp: map_of_ids_find find_None_iff) (metis image_eqI)
  then have "ran ((map_of (map (\<lambda>d. (doc_id d, d)) ds))(doc_id a \<mapsto> a)) = insert a (set ds)"
    using Cons by (simp only: ran_map_upd) simp
  moreover have "map_of (map (\<lambda>d. (doc_id d, d)) (a # ds)) = (map_of (map (\<lambda>d. (doc_id d, d)) ds))(doc_id a \<mapsto> a)"
    by (simp add: fun_eq_iff)
  ultimately show ?case by (simp only: list.set(2))
qed simp

lemma find_distinct:
  "distinct (map g ds) \<Longrightarrow> find (\<lambda>d. g d = v) ds = Some d \<longleftrightarrow> d \<in> set ds \<and> g d = v"
  by (induction ds) (auto simp: image_iff)

lemma length_update_first [simp]: "length (update_first P f xs) = length xs"
  by (induction xs) auto

lemma store_size_find_by_id_and_update [simp]:
  "store_size (snd (find_by_id_and_update s i f)) = store_size s"
  by (simp add: find_by_id_and_update_def store_size_def split: option.splits)

lemma store_inv_password:
  "store_inv s \<Longrightarrow> d \<in> set (docs s) \<Longrightarrow> \<exists>h. doc_password d = Some h \<and> h \<noteq> []"
  by (cases "doc_password d")
     (auto simp: store_inv_def list_all_iff doc_valid_def schema_errors_def required_error_def
        split: if_splits)

lemma ids_find_by_id_and_update:
  "(\<And>w. doc_id (f w) = doc_id w) \<Longrightarrow>
     map doc_id (docs (snd (find_by_id_and_update s i f))) = map doc_id (docs s)"
  by (simp add: find_by_id_and_update_def map_update_first_same split: option.splits)

lemma ids_set_subscription [simp]:
  "map doc_id (docs (snd (find_by_id_and_update s i (\<lambda>u. u\<lparr>doc_subscription := v\<rparr>)))) = map doc_id (docs s)"
  by (rule ids_find_by_id_and_update) simp

lemma ids_set_avatar [simp]:
  "map doc_id (docs (snd (find_by_id_and_update s i (\<lambda>u. u\<lparr>doc_avatarURL := v\<rparr>)))) = map doc_id (docs s)"
  by (rule ids_find_by_id_and_update) simp

lemma find_by_id_None_iff: "find_by_id s i = None \<longleftrightarrow> i \<notin> set (map doc_id (docs s))"
  by (force simp: find_by_id_def find_None_iff)

lemma find_by_id_member:
  "store_inv s \<Longrightarrow> d \<in> set (docs s) \<Longrightarrow> find_by_id s (doc_id d) = Some d"
  using find_distinct [of doc_id "docs s" "doc_id d" d] by (simp add: store_inv_def find_by_id_def)

text \<open>
  Refinement of the collection by a map from ids to documents: under the
  invariant, lookup by id is map lookup, lookup by address finds the document of the
  map's range with that address, \<open>create\<close> inserts at the fresh id, and an update
  that keeps ids and addresses updates the map at its id; both keep the invariant.
\<close>

lemma store_refinement:
  assumes inv: "store_inv s"
  shows "find_by_id s i = user_map s i
    \<and> (find_by_email s e = Some d \<longleftrightarrow> d \<in> ran (user_map s) \<and> doc_email d = Some e)
    \<and> (user_create s ci = Inr (d, s') \<longrightarrow> user_map s' = (user_map s)(next_id s \<mapsto> d) \<and> store_inv s')
    \<and> (update_ok f \<longrightarrow>
         user_map (snd (find_by_id_and_update s i f)) =
           (case user_map s i of None \<Rightarrow> user_map s | Some d' \<Rightarrow> (user_map s)(i \<mapsto> f d'))
         \<and> store_inv (snd (find_by_id_and_update s i f)))"
proof -
  have ids: "distinct (map doc_id (docs s))" and ems: "distinct (map doc_email (docs s))"
    using inv by (simp_all add: store_inv_def)
  have email: "find_by_email s e = Some d \<longleftrightarrow> d \<in> ran (user_map s) \<and> doc_email d = Some e"
    using find_distinct [OF ems] ran_map_of_ids [OF ids] by (simp add: find_by_email_def user_map_def)
  have create: "user_create s ci = Inr (d, s') \<longrightarrow> user_map s' = (user_map s)(next_id s \<mapsto> d) \<and> store_inv s'"
    using user_map_user_create [OF inv] store_inv_user_create [OF inv] by blast
  have upd: "user_map (snd (find_by_id_and_update s i f)) =
      (case user_map s i of None \<Rightarrow> user_map s | Some d' \<Rightarrow> (user_map s)(i \<mapsto> f d'))"
    if ok: "update_ok f"
  proof (cases "find_by_id s i")
    case None
    then show ?thesis by (simp add: find_by_id_and_update_None find_by_id_user_map)
  next
    case (Some d')
    have "\<And>w. doc_id (f w) = doc_id w" using ok by (simp add: update_ok_def)
    with Some show ?thesis
      using user_map_find_by_id_and_update(2) [OF Some] by (simp add: find_by_id_user_map)
  qed
  show ?thesis
    using email create upd store_inv_find_by_id_and_update [OF inv] by (simp add: find_by_id_user_map)
qed

end
