(* ===== verification/Auth.thy ===== *)
theory Auth
  imports Store
begin

text \<open>
  The collaborators the handlers call but the repository does not contain, as an
  interface: a record of their functions and the contract the handlers rely on.
  \<open>bcrypt.hash\<close>/\<open>bcrypt.compare\<close>, \<open>generateToken\<close>/\<open>verifyToken\<close> of the
  \<open>./auth\<close> module (a signed token embedding the user's \<open>_id\<close>), and
  \<open>gravatar.url\<close>. The handler theorems hold for every implementation that meets
  \<open>ext_ok\<close>; the witnesses use the concrete instance \<open>demo_ext\<close>.
  This theory also holds the two readings of the \<open>Authorization\<close> header: the
  handlers' own \<open>req.headers.authorization.split(" ")[1]\<close> and the bearer extraction of
  the \<open>passportAuthenticate\<close> middleware, and that middleware itself.
\<close>

section \<open>The interface\<close>

record ext =
  bcrypt_hash :: "string \<Rightarrow> string"
  bcrypt_compare :: "string \<Rightarrow> string \<Rightarrow> bool"
  sign_token :: "nat \<Rightarrow> string"
  verify_token :: "string \<Rightarrow> nat option"
  gravatar_url :: "string \<Rightarrow> string"

text \<open>
  The contract: a password matches its own hash, which is a non-empty string (a bcrypt
  hash has 60 characters); a token verifies to the id it was
  issued for; a token is a non-empty string without spaces (a JWT is three base64url
  parts joined by dots).
\<close>

definition ext_ok :: "ext \<Rightarrow> bool" where
  "ext_ok x = ((\<forall>p. bcrypt_compare x p (bcrypt_hash x p) \<and> bcrypt_hash x p \<noteq> [])
     \<and> (\<forall>u. verify_token x (sign_token x u) = Some u)
     \<and> (\<forall>u. sign_token x u \<noteq> [] \<and> CHR '' '' \<notin> set (sign_token x u)))"

text \<open>A concrete instance, for the witnesses: tokens are \<open>t\<close> followed by \<open>u\<close> letters \<open>x\<close>.\<close>

definition demo_verify :: "string \<Rightarrow> nat option" where
  "demo_verify t = (case t of
      c # r \<Rightarrow> if c = CHR ''t'' \<and> list_all (\<lambda>x. x = CHR ''x'') r then Some (length r) else None
    | [] \<Rightarrow> None)"

definition demo_ext :: ext where
  "demo_ext = \<lparr>bcrypt_hash = (\<lambda>p. ''$2b$10$'' @ p),
     bcrypt_compare = (\<lambda>p h. h = ''$2b$10$'' @ p),
     sign_token = (\<lambda>u. CHR ''t'' # replicate u (CHR ''x'')),
     verify_token = demo_verify,
     gravatar_url = (\<lambda>e. ''https://s.gravatar.com/avatar/'' @ e @ ''?s=100'')\<rparr>"

section \<open>The Authorization header\<close>

text \<open>
  \<open>req.headers.authorization.split(" ")[1]\<close> (lines 113 and 132): a \<open>TypeError\<close> when
  the header is missing, \<open>undefined\<close> (\<open>None\<close>) when it has no space.
\<close>

definition header_token :: "string option \<Rightarrow> app_error + string option" where
  "header_token h = (case h of
      None \<Rightarrow> Inl (TypeError ''Cannot read properties of undefined (reading 'split')'')
    | Some s \<Rightarrow> Inr (js_index (js_split (CHR '' '') s) 1))"

text \<open>
  The bearer extraction of the middleware: the header is \<open>Bearer <token>\<close> with a
  non-empty token; anything else yields no token.
\<close>

definition bearer_token :: "string option \<Rightarrow> string option" where
  "bearer_token h = (case h of
      None \<Rightarrow> None
    | Some s \<Rightarrow> (case js_split (CHR '' '') s of
        [scheme, t] \<Rightarrow> if scheme = ''Bearer'' \<and> t \<noteq> [] then Some t else None
      | _ \<Rightarrow> None))"

definition bearer :: "string \<Rightarrow> string option" where
  "bearer t = Some (''Bearer '' @ t)"

section \<open>The middleware\<close>

text \<open>
  \<open>passportAuthenticate\<close>: extract the bearer token, verify it, load the user it names;
  any failure answers 401 before the handler runs.
\<close>

definition unauthorized :: app_error where
  "unauthorized = HttpError 401 ''Unauthorized''"

definition passport_authenticate :: "ext \<Rightarrow> store \<Rightarrow> string option \<Rightarrow> app_error + user_doc" where
  "passport_authenticate x s h = (case bearer_token h of
      None \<Rightarrow> Inl unauthorized
    | Some t \<Rightarrow> (case verify_token x t of
        None \<Rightarrow> Inl unauthorized
      | Some u \<Rightarrow> (case find_by_id s u of
          None \<Rightarrow> Inl unauthorized
        | Some d \<Rightarrow> Inr d)))"

section \<open>Lemmas\<close>

lemma demo_ext_ok: "ext_ok demo_ext"
  by (simp add: ext_ok_def demo_ext_def demo_verify_def list_all_iff)

lemma ext_ok_compare: "ext_ok x \<Longrightarrow> bcrypt_compare x p (bcrypt_hash x p) \<and> bcrypt_hash x p \<noteq> []"
  by (simp add: ext_ok_def)

lemma ext_ok_verify [simp]: "ext_ok x \<Longrightarrow> verify_token x (sign_token x u) = Some u"
  by (simp add: ext_ok_def)

lemma ext_ok_token_shape: "ext_ok x \<Longrightarrow> sign_token x u \<noteq> [] \<and> CHR '' '' \<notin> set (sign_token x u)"
  by (simp add: ext_ok_def)

lemma js_split_bearer:
  "CHR '' '' \<notin> set t \<Longrightarrow> js_split (CHR '' '') (''Bearer '' @ t) = [''Bearer'', t]"
  using js_split_append_sep [of "CHR '' ''" "''Bearer''" t] by simp

lemma header_token_bearer:
  "CHR '' '' \<notin> set t \<Longrightarrow> header_token (bearer t) = Inr (Some t)"
  using js_split_bearer [of t] by (simp add: header_token_def bearer_def)

lemma bearer_token_bearer:
  "t \<noteq> [] \<Longrightarrow> CHR '' '' \<notin> set t \<Longrightarrow> bearer_token (bearer t) = Some t"
  using js_split_bearer [of t] by (simp add: bearer_token_def bearer_def)

lemma js_split_scheme:
  "CHR '' '' \<notin> set scheme \<Longrightarrow> CHR '' '' \<notin> set t \<Longrightarrow>
     js_split (CHR '' '') (scheme @ CHR '' '' # t) = [scheme, t]"
  using js_split_append_sep [of "CHR '' ''" scheme t] by simp

lemma header_token_scheme:
  "CHR '' '' \<notin> set scheme \<Longrightarrow> CHR '' '' \<notin> set t \<Longrightarrow>
     header_token (Some (scheme @ CHR '' '' # t)) = Inr (Some t)"
  by (simp add: header_token_def js_split_scheme)

lemma bearer_token_scheme:
  "CHR '' '' \<notin> set scheme \<Longrightarrow> CHR '' '' \<notin> set t \<Longrightarrow> scheme \<noteq> ''Bearer'' \<Longrightarrow>
     bearer_token (Some (scheme @ CHR '' '' # t)) = None"
  by (simp add: bearer_token_def js_split_scheme)

lemma passport_authenticate_Inr:
  "passport_authenticate x s h = Inr d \<Longrightarrow>
     \<exists>t u. bearer_token h = Some t \<and> verify_token x t = Some u \<and> find_by_id s u = Some d"
  by (auto simp: passport_authenticate_def split: option.splits)

lemma passport_authenticate_Inl:
  "passport_authenticate x s h = Inl e \<Longrightarrow> e = unauthorized"
  by (auto simp: passport_authenticate_def split: option.splits)

lemma passport_authenticate_signed:
  assumes "ext_ok x"
  shows "passport_authenticate x s (bearer (sign_token x u)) =
           (case find_by_id s u of None \<Rightarrow> Inl unauthorized | Some d \<Rightarrow> Inr d)"
  using assms ext_ok_token_shape [OF assms, of u]
  by (simp add: passport_authenticate_def bearer_token_bearer split: option.splits)

end
