(* ===== verification/Paths.thy ===== *)
theory Paths
  imports Prelim
begin

text \<open>
  File locations of the avatar upload. The handlers compute every location with
  Node's \<open>path.join\<close>: the two directories (\<open>tempDir\<close>, \<open>avatrsDir\<close>, lines 13--14),
  the upload's temporary file (the disk storage of lines 16--21 joins \<open>tempDir\<close> and
  the client's \<open>originalname\<close>), its final location (line 196) and the stored
  \<open>avatarURL\<close> (line 199). \<open>path_join\<close> is POSIX \<open>path.join\<close>: drop empty arguments,
  join with \<open>/\<close>, normalise. Normalisation resolves the segments left to right on a
  stack: empty and \<open>.\<close> segments vanish, \<open>..\<close> pops a segment that is not itself
  \<open>..\<close>, and above the root of a relative path \<open>..\<close> is kept while above \<open>/\<close> it is
  dropped. The lemmas compute the join of an absolute directory of plain segments
  with a plain name (it stays inside) and with arbitrary relative arguments
  (\<open>path_join_abs\<close>: the result is the stack the arguments' segments leave).
\<close>

section \<open>Normalisation\<close>

fun norm_segs :: "bool \<Rightarrow> string list \<Rightarrow> string list \<Rightarrow> string list" where
  "norm_segs up st [] = st"
| "norm_segs up st (g # gs) =
     (if g = [] \<or> g = ''.'' then norm_segs up st gs
      else if g = ''..'' then
        (case st of
           x # st' \<Rightarrow> if x \<noteq> ''..'' then norm_segs up st' gs
                      else norm_segs up (if up then ''..'' # st else st) gs
         | [] \<Rightarrow> norm_segs up (if up then [''..''] else []) gs)
      else norm_segs up (g # st) gs)"

text \<open>\<open>path.normalize\<close>\<close>

definition path_normalize :: "string \<Rightarrow> string" where
  "path_normalize p =
     (if p = [] then ''.'' else
      let absolute = (hd p = CHR ''/''); trailing = (last p = CHR ''/'');
          body = js_join (CHR ''/'') (rev (norm_segs (\<not> absolute) [] (js_split (CHR ''/'') p)))
      in if body = [] then (if absolute then ''/'' else if trailing then ''./'' else ''.'')
         else (if absolute then CHR ''/'' # body else body) @ (if trailing then ''/'' else []))"

text \<open>\<open>path.join(...args)\<close>\<close>

definition path_join :: "string list \<Rightarrow> string" where
  "path_join args =
     (let xs = filter (\<lambda>a. a \<noteq> []) args in
      if xs = [] then ''.'' else path_normalize (js_join (CHR ''/'') xs))"

section \<open>Plain file names\<close>

text \<open>
  A single path segment, which normalisation leaves alone: non-empty, no \<open>/\<close>, not
  \<open>.\<close> or \<open>..\<close>; and without a backslash, so that the upload parser passes it through
  unchanged as a file name (\<open>Avatar.busboy_basename\<close>).
\<close>

definition plain_name :: "string \<Rightarrow> bool" where
  "plain_name g = (g \<noteq> [] \<and> CHR ''/'' \<notin> set g \<and> CHR 0x5C \<notin> set g \<and> g \<noteq> ''.'' \<and> g \<noteq> ''..'')"

lemma norm_segs_plain:
  "list_all plain_name gs \<Longrightarrow> norm_segs a st gs = rev gs @ st"
  by (induction gs arbitrary: st) (auto simp: plain_name_def)

lemma norm_segs_append:
  "norm_segs a st (xs @ ys) = norm_segs a (norm_segs a st xs) ys"
  by (induction a st xs rule: norm_segs.induct) (auto split: list.splits)

lemma js_split_join:
  "xs \<noteq> [] \<Longrightarrow> list_all (\<lambda>x. c \<notin> set x) xs \<Longrightarrow> js_split c (js_join c xs) = xs"
proof (induction xs rule: js_join.induct)
  case (3 c x y ys)
  then show ?case by (simp add: js_split_append_sep)
qed auto

lemma js_join_nonempty: "xs \<noteq> [] \<Longrightarrow> list_all (\<lambda>x. x \<noteq> []) xs \<Longrightarrow> js_join c xs \<noteq> []"
  by (induction c xs rule: js_join.induct) auto

lemma hd_js_join: "xs \<noteq> [] \<Longrightarrow> hd xs \<noteq> [] \<Longrightarrow> hd (js_join c xs) = hd (hd xs)"
  by (induction c xs rule: js_join.induct) auto

lemma js_join_last_nonempty: "xs \<noteq> [] \<Longrightarrow> last xs \<noteq> [] \<Longrightarrow> js_join c xs \<noteq> []"
  by (induction c xs rule: js_join.induct) auto

lemma last_js_join:
  "xs \<noteq> [] \<Longrightarrow> last xs \<noteq> [] \<Longrightarrow> last (js_join c xs) = last (last xs)"
proof (induction c xs rule: js_join.induct)
  case (3 c x y ys)
  then have "js_join c (y # ys) \<noteq> []" by (intro js_join_last_nonempty) auto
  with 3 show ?case by simp
qed auto

lemma js_join_append:
  "xs \<noteq> [] \<Longrightarrow> ys \<noteq> [] \<Longrightarrow> js_join c (xs @ ys) = js_join c xs @ c # js_join c ys"
  by (induction c xs rule: js_join.induct) (auto simp: js_join_Cons)

text \<open>
  Joining an absolute directory given by plain segments with a plain file name
  appends the name: the file stays in the directory.
\<close>

lemma path_join_plain:
  assumes ds: "ds \<noteq> []" "list_all plain_name ds" and f: "plain_name f"
  shows "path_join [CHR ''/'' # js_join (CHR ''/'') ds, f] = CHR ''/'' # js_join (CHR ''/'') (ds @ [f])"
proof -
  let ?p = "js_join (CHR ''/'') ([] # ds @ [f])"
  have pl: "list_all plain_name (ds @ [f])" using ds f by simp
  have ne: "list_all (\<lambda>x. x \<noteq> []) (ds @ [f])" and nosl: "list_all (\<lambda>x. CHR ''/'' \<notin> set x) (ds @ [f])"
    using pl by (auto simp: plain_name_def list_all_iff)
  have p: "js_join (CHR ''/'') [CHR ''/'' # js_join (CHR ''/'') ds, f] = ?p"
    using ds(1) by (simp add: js_join_append js_join_Cons)
  have split: "js_split (CHR ''/'') ?p = [] # ds @ [f]"
    using nosl by (simp add: js_split_join)
  have norm: "norm_segs a [] ([] # ds @ [f]) = rev (ds @ [f])" for a
    using pl by (simp add: norm_segs_plain)
  have body: "js_join (CHR ''/'') (ds @ [f]) \<noteq> []"
    using ne by (simp add: js_join_nonempty)
  have last: "last ?p \<noteq> CHR ''/''"
  proof -
    have lf: "last f \<noteq> CHR ''/''" using f last_in_set unfolding plain_name_def by metis
    have "last ?p = last f" using f by (simp add: last_js_join plain_name_def)
    with lf show ?thesis by simp
  qed
  have hd: "hd ?p = CHR ''/''" and nonempty: "?p \<noteq> []"
    by (simp_all add: js_join_Cons)
  have filt: "filter (\<lambda>a. a \<noteq> []) [CHR ''/'' # js_join (CHR ''/'') ds, f] =
      [CHR ''/'' # js_join (CHR ''/'') ds, f]"
    using f by (simp add: plain_name_def)
  have "path_join [CHR ''/'' # js_join (CHR ''/'') ds, f] = path_normalize ?p"
    unfolding path_join_def Let_def filt p by simp
  also have "\<dots> = CHR ''/'' # js_join (CHR ''/'') (ds @ [f])"
    unfolding path_normalize_def Let_def using nonempty hd last split norm [of False] body
    by simp
  finally show ?thesis .
qed

lemma path_join_child:
  assumes "d = CHR ''/'' # js_join (CHR ''/'') ds" and "ds \<noteq> []" and "list_all plain_name ds"
    and "plain_name f"
  shows "path_join [d, f] = d @ CHR ''/'' # f"
  using path_join_plain [OF assms(2-4)] assms(1,2) by (simp add: js_join_append)

lemma path_join_plain_relative:
  assumes ds: "ds \<noteq> []" "list_all plain_name ds" and f: "plain_name f"
  shows "path_join [js_join (CHR ''/'') ds, f] = js_join (CHR ''/'') (ds @ [f])"
proof -
  let ?p = "js_join (CHR ''/'') (ds @ [f])"
  have pl: "list_all plain_name (ds @ [f])" using ds f by simp
  have ne: "list_all (\<lambda>x. x \<noteq> []) (ds @ [f])" and nosl: "list_all (\<lambda>x. CHR ''/'' \<notin> set x) (ds @ [f])"
    using pl by (auto simp: plain_name_def list_all_iff)
  have p: "js_join (CHR ''/'') [js_join (CHR ''/'') ds, f] = ?p"
    using ds(1) by (simp add: js_join_append)
  have split: "js_split (CHR ''/'') ?p = ds @ [f]"
    using nosl by (simp add: js_split_join)
  have body: "?p \<noteq> []" using ne by (simp add: js_join_nonempty)
  have hd: "hd ?p \<noteq> CHR ''/''"
  proof -
    have h: "hd ds \<noteq> [] \<and> CHR ''/'' \<notin> set (hd ds)"
      using ds by (cases ds) (auto simp: plain_name_def)
    then have "hd ?p = hd (hd ds)" using ds(1) by (simp add: hd_js_join)
    with h show ?thesis by (metis list.set_sel(1))
  qed
  have last: "last ?p \<noteq> CHR ''/''"
  proof -
    have lf: "last f \<noteq> CHR ''/''" using f last_in_set unfolding plain_name_def by metis
    have "last ?p = last f" using f by (simp add: last_js_join plain_name_def)
    with lf show ?thesis by simp
  qed
  have filt: "filter (\<lambda>a. a \<noteq> []) [js_join (CHR ''/'') ds, f] = [js_join (CHR ''/'') ds, f]"
    using f ds ne by (simp add: plain_name_def js_join_nonempty)
  have "path_join [js_join (CHR ''/'') ds, f] = path_normalize ?p"
    unfolding path_join_def Let_def filt p by simp
  also have "\<dots> = ?p"
    unfolding path_normalize_def Let_def using body hd last split norm_segs_plain [OF pl, of True "[]"]
    by simp
  finally show ?thesis .
qed

lemma split_acc_append_sep_gen:
  "split_acc c acc (u @ c # v) = split_acc c acc u @ split_acc c [] v"
  by (induction u arbitrary: acc) auto

lemma js_split_append_gen: "js_split c (u @ c # v) = js_split c u @ js_split c v"
  by (simp add: js_split_def split_acc_append_sep_gen)

text \<open>
  An absolute plain directory joined with relative arguments that may hold \<open>..\<close>:
  the result is read off the stack \<open>norm_segs\<close> leaves after the arguments' segments.
\<close>

lemma path_join_abs:
  assumes ps: "ps \<noteq> []" "list_all plain_name ps"
    and ts: "ts \<noteq> []" "list_all (\<lambda>a. a \<noteq> []) ts"
    and t: "t = js_join (CHR ''/'') ts" "hd t \<noteq> CHR ''/''" "last t \<noteq> CHR ''/''"
    and q: "norm_segs False (rev ps) (js_split (CHR ''/'') t) = rev qs" "qs \<noteq> []" "list_all plain_name qs"
  shows "path_join ((CHR ''/'' # js_join (CHR ''/'') ps) # ts) = CHR ''/'' # js_join (CHR ''/'') qs"
proof -
  let ?d = "CHR ''/'' # js_join (CHR ''/'') ps"
  have tne: "t \<noteq> []" using t(1) ts by (simp add: js_join_nonempty)
  have filt: "filter (\<lambda>a. a \<noteq> []) (?d # ts) = ?d # ts"
    using ts(2) by (simp add: list_all_iff)
  have j: "js_join (CHR ''/'') (?d # ts) = CHR ''/'' # js_join (CHR ''/'') ps @ CHR ''/'' # t"
    using ts(1) t(1) by (simp add: js_join_Cons)
  have nosl: "list_all (\<lambda>x. CHR ''/'' \<notin> set x) ps" and ne: "list_all (\<lambda>x. x \<noteq> []) ps"
    using ps(2) by (auto simp: plain_name_def list_all_iff)
  have sp: "js_split (CHR ''/'') (CHR ''/'' # js_join (CHR ''/'') ps @ CHR ''/'' # t) =
      [] # ps @ js_split (CHR ''/'') t"
  proof -
    have "js_split (CHR ''/'') ([] @ CHR ''/'' # (js_join (CHR ''/'') ps @ CHR ''/'' # t)) =
        js_split (CHR ''/'') [] @ js_split (CHR ''/'') (js_join (CHR ''/'') ps @ CHR ''/'' # t)"
      by (rule js_split_append_gen)
    also have "\<dots> = [[]] @ (ps @ js_split (CHR ''/'') t)"
      using js_split_append_gen [of "CHR ''/''" "js_join (CHR ''/'') ps" t] js_split_join [OF ps(1) nosl]
      by (simp add: js_split_def)
    finally show ?thesis by simp
  qed
  have norm: "norm_segs False [] ([] # ps @ js_split (CHR ''/'') t) = rev qs"
    using q(1) ps(2) by (simp add: norm_segs_append norm_segs_plain)
  have body: "js_join (CHR ''/'') qs \<noteq> []"
    using q(2,3) by (simp add: js_join_nonempty plain_name_def list_all_iff)
  have last: "last (CHR ''/'' # js_join (CHR ''/'') ps @ CHR ''/'' # t) \<noteq> CHR ''/''"
    using t(3) tne by simp
  show ?thesis
    unfolding path_join_def Let_def filt j path_normalize_def
    using sp norm body last by simp
qed

end
