(* ===== verification/Handlers.thy ===== *)
theory Handlers
  imports Validation Auth Paths
begin

text \<open>
  The JSON routes of \<open>src/routes/api/users.js\<close>: one definition per route handler,
  each the whole \<open>try\<close> block with its guards and early \<open>throw\<close>s as branches, and
  the central error responder the handlers reach through \<open>next(error)\<close>. A handler
  takes the user collection and returns its outcome (an error or a response) with the
  new collection. The avatar route, which also touches the file system, is in
  \<open>Avatar\<close>; the dispatcher over all routes is in \<open>Service\<close>.
\<close>

section \<open>Responses\<close>

text \<open>A response: the status and the JSON body, none for a 204.\<close>

datatype response = Response nat "json option"

fun response_status :: "response \<Rightarrow> nat" where
  "response_status (Response st _) = st"

fun response_body :: "response \<Rightarrow> json option" where
  "response_body (Response _ b) = b"

text \<open>
  The central error responder (in the application module, outside \<open>src/\<close>): the
  error's \<open>status\<close>, 500 when it has none, and \<open>{ message }\<close>.
\<close>

fun error_status :: "app_error \<Rightarrow> nat" where
  "error_status (HttpError st _) = st"
| "error_status _ = 500"

fun error_message :: "app_error \<Rightarrow> string" where
  "error_message (HttpError _ m) = m"
| "error_message (ValidationError m) = m"
| "error_message (DuplicateKey m) = m"
| "error_message (TypeError m) = m"
| "error_message (MulterError m) = m"
| "error_message (FsError m) = m"
| "error_message (BcryptError m) = m"

definition error_response :: "app_error \<Rightarrow> response" where
  "error_response e = Response (error_status e) (Some (JObj [(''message'', JStr (error_message e))]))"

definition respond :: "app_error + response \<Rightarrow> response" where
  "respond r = (case r of Inl e \<Rightarrow> error_response e | Inr resp \<Rightarrow> resp)"

text \<open>The projection \<open>{ email, subscription, avatarURL }\<close> of a user document.\<close>

definition user_view :: "user_doc \<Rightarrow> json" where
  "user_view d = JObj (opt_member ''email'' (doc_email d) @ opt_member ''subscription'' (doc_subscription d)
     @ opt_member ''avatarURL'' (doc_avatarURL d))"

text \<open>\<open>{ status: "success", code: 200, data }\<close> of the two PATCH routes.\<close>

definition status_envelope :: "user_doc \<Rightarrow> json" where
  "status_envelope d = JObj [(''status'', JStr ''success''), (''code'', JNum 200), (''data'', user_view d)]"

text \<open>A body field already accepted by \<open>validateUser\<close> is a string.\<close>

fun str_of :: "body_value \<Rightarrow> string" where
  "str_of (Str s) = s"
| "str_of _ = []"

section \<open>POST /register (lines 41--76)\<close>

text \<open>
  The handler awaits twice before it writes: \<open>findOne\<close> (line 51) and then the hash and
  \<open>create\<close> (lines 57--62). \<open>register_check\<close> is the part up to the existence check,
  ending either with the handler's outcome or with the validated address and password;
  \<open>register_finish\<close> is the rest, run on the collection as it is when it resumes.
\<close>

definition register_check ::
  "store \<Rightarrow> body_value \<Rightarrow> body_value \<Rightarrow> (app_error + response) + (string \<times> string)" where
  "register_check s email password =
     (case validate_user email password of
        Some err \<Rightarrow> Inl (Inl (HttpError 400 (joi_message err)))
      | None \<Rightarrow>
          (let e = str_of email; p = str_of password in
           if find_by_email s e \<noteq> None then Inl (Inl (HttpError 409 ''Email in use''))
           else Inr (e, p)))"

definition register_finish :: "ext \<Rightarrow> store \<Rightarrow> string \<Rightarrow> string \<Rightarrow> (app_error + response) \<times> store" where
  "register_finish x s e p =
     (let avatar = gravatar_url x e; hashed = bcrypt_hash x p in
      case user_create s \<lparr>ci_password = Some hashed, ci_email = Some e,
                          ci_avatarURL = Some avatar, ci_verificationToken = None\<rparr> of
        Inl err \<Rightarrow> (Inl err, s)
      | Inr (d, s') \<Rightarrow>
          (Inr (Response 201 (Some (JObj
             [(''token'', JStr (sign_token x (doc_id d))),
              (''user'', JObj (opt_member ''email'' (doc_email d)
                 @ [(''subscription'', JStr ''starter''), (''avatarURL'', JStr avatar)]))]))),
           s'))"

definition register :: "ext \<Rightarrow> store \<Rightarrow> body_value \<Rightarrow> body_value \<Rightarrow> (app_error + response) \<times> store" where
  "register x s email password =
     (case register_check s email password of
        Inl r \<Rightarrow> (r, s)
      | Inr (e, p) \<Rightarrow> register_finish x s e p)"

lemmas register_defs = register_def register_check_def register_finish_def

section \<open>POST /login (lines 79--108)\<close>

definition invalid_credentials :: app_error where
  "invalid_credentials = HttpError 401 ''Invalid credentials''"

definition login :: "ext \<Rightarrow> store \<Rightarrow> body_value \<Rightarrow> body_value \<Rightarrow> (app_error + response) \<times> store" where
  "login x s email password =
     (case validate_user email password of
        Some err \<Rightarrow> (Inl (HttpError 400 (joi_message err)), s)
      | None \<Rightarrow>
          (let e = str_of email; p = str_of password in
           case find_by_email s e of
             None \<Rightarrow> (Inl invalid_credentials, s)
           | Some d \<Rightarrow>
               (case doc_password d of
                  None \<Rightarrow> (Inl (BcryptError ''data and hash arguments required''), s)
                | Some h \<Rightarrow>
                    if \<not> bcrypt_compare x p h then (Inl invalid_credentials, s)
                    else (Inr (Response 200 (Some (JObj
                       [(''token'', JStr (sign_token x (doc_id d))),
                        (''user'', JObj (opt_member ''email'' (doc_email d)
                           @ [(''subscription'', JStr ''starter'')]
                           @ opt_member ''avatarURL'' (doc_avatarURL d)))]))), s))))"

section \<open>POST /logout (lines 111--126)\<close>

text \<open>\<open>verifyToken(undefined)\<close> is a failed verification.\<close>

definition verify_opt :: "ext \<Rightarrow> string option \<Rightarrow> nat option" where
  "verify_opt x t = (case t of None \<Rightarrow> None | Some tok \<Rightarrow> verify_token x tok)"

definition logout :: "ext \<Rightarrow> store \<Rightarrow> string option \<Rightarrow> (app_error + response) \<times> store" where
  "logout x s h =
     (case header_token h of
        Inl err \<Rightarrow> (Inl err, s)
      | Inr tok \<Rightarrow>
          (case verify_opt x tok of
             None \<Rightarrow> (Inl (HttpError 401 ''Token is invalid''), s)
           | Some u \<Rightarrow>
               (case find_by_id s u of
                  None \<Rightarrow> (Inl (HttpError 401 ''Not authorized''), s)
                | Some _ \<Rightarrow> (Inr (Response 204 None), s))))"

section \<open>GET /current (lines 129--149)\<close>

text \<open>
  Behind \<open>passportAuthenticate\<close>; the handler's \<open>if (!user)\<close> cannot fire, since the
  middleware only continues with a user attached.
\<close>

definition current :: "ext \<Rightarrow> store \<Rightarrow> string option \<Rightarrow> (app_error + response) \<times> store" where
  "current x s h =
     (case passport_authenticate x s h of
        Inl err \<Rightarrow> (Inl err, s)
      | Inr d \<Rightarrow>
          (case header_token h of
             Inl err \<Rightarrow> (Inl err, s)
           | Inr tok \<Rightarrow> (Inr (Response 200 (Some (JObj (opt_member ''token'' tok
                           @ [(''user'', user_view d)])))), s)))"

section \<open>PATCH / (lines 152--184)\<close>

definition allowed_subscriptions :: "string list" where
  "allowed_subscriptions = [''starter'', ''pro'', ''business'']"

text \<open>\<open>allowedSubscriptions.includes(subscription)\<close>: only a string can be included.\<close>

definition js_includes :: "string list \<Rightarrow> body_value \<Rightarrow> bool" where
  "js_includes xs v = (case v of Str s \<Rightarrow> s \<in> set xs | _ \<Rightarrow> False)"

definition update_subscription ::
  "ext \<Rightarrow> store \<Rightarrow> string option \<Rightarrow> body_value \<Rightarrow> (app_error + response) \<times> store" where
  "update_subscription x s h subscription =
     (case passport_authenticate x s h of
        Inl err \<Rightarrow> (Inl err, s)
      | Inr d \<Rightarrow>
          (if \<not> js_includes allowed_subscriptions subscription
           then (Inl (HttpError 400 ''Invalid subscription value''), s)
           else
             (case find_by_id_and_update s (doc_id d)
                     (\<lambda>u. u\<lparr>doc_subscription := Some (str_of subscription)\<rparr>) of
                (None, s') \<Rightarrow> (Inl (HttpError 404 ''User not found''), s')
              | (Some d', s') \<Rightarrow> (Inr (Response 200 (Some (status_envelope d'))), s'))))"

text \<open>Every key any response carries.\<close>

definition response_keys :: "string list" where
  "response_keys = [''message'', ''token'', ''user'', ''email'', ''subscription'', ''avatarURL'',
     ''status'', ''code'', ''data'']"

definition keys_ok :: "response \<Rightarrow> bool" where
  "keys_ok r = (case response_body r of
      None \<Rightarrow> True
    | Some b \<Rightarrow> list_all (\<lambda>k. k \<in> set response_keys) (json_keys b))"

section \<open>A concrete collection for the witnesses\<close>

text \<open>
  One stored user, as a database seeded outside the registration route would hold it,
  with the password hashed by \<open>demo_ext\<close> and subscription \<open>pro\<close>.
\<close>

definition demo_doc :: user_doc where
  "demo_doc = \<lparr>doc_id = 0, doc_password = Some ''$2b$10$secret12'', doc_email = Some ''ann@mail.com'',
     doc_subscription = Some ''pro'', doc_avatarURL = Some ''avatars/ann.png'', doc_token = Some [],
     doc_verify = Some False, doc_verificationToken = Some ''vt-1''\<rparr>"

definition demo_store :: store where
  "demo_store = \<lparr>docs = [demo_doc], next_id = 1\<rparr>"

definition demo_doc2 :: user_doc where
  "demo_doc2 = demo_doc\<lparr>doc_id := 1, doc_email := Some ''bob@mail.com'', doc_subscription := Some ''starter''\<rparr>"

lemma demo_bearer: "bearer_token (bearer ''t'') = Some ''t''" "header_token (bearer ''t'') = Inr (Some ''t'')"
  by (simp_all add: bearer_token_def header_token_def bearer_def js_split_def)

lemma demo_passport: "passport_authenticate demo_ext demo_store (bearer ''t'') = Inr demo_doc"
  by (simp add: passport_authenticate_def demo_bearer demo_ext_def demo_verify_def find_by_id_def
      demo_store_def demo_doc_def)

lemma demo_store_inv: "store_inv demo_store"
  by (simp add: store_inv_def demo_store_def demo_doc_def doc_valid_def
      schema_errors_def required_error_def enum_error_def subscription_enum_def)

lemma demo_login:
  "login demo_ext demo_store (Str ''ann@mail.com'') (Str ''secret12'') =
      (Inr (Response 200 (Some (JObj
         [(''token'', JStr ''t''),
          (''user'', JObj [(''email'', JStr ''ann@mail.com''), (''subscription'', JStr ''starter''),
                          (''avatarURL'', JStr ''avatars/ann.png'')])]))), demo_store)"
proof -
  have v: "validate_user (Str ''ann@mail.com'') (Str ''secret12'') = None" by code_simp
  show ?thesis
    by (simp add: login_def v demo_store_def demo_doc_def demo_ext_def find_by_email_def opt_member_def
        Let_def)
qed

section \<open>Frame lemmas\<close>

text \<open>Which handlers leave the collection as it was.\<close>

lemma register_keeps_store: "snd (register x s email password) = s"
  by (auto simp: register_defs Let_def user_create_no_verification_token split: option.splits)

lemma login_keeps_store: "snd (login x s email password) = s"
  by (auto simp: login_def Let_def split: option.splits)

lemma logout_keeps_store: "snd (logout x s h) = s"
  by (auto simp: logout_def split: option.splits sum.splits)

lemma current_keeps_store: "snd (current x s h) = s"
  by (auto simp: current_def split: sum.splits)

lemma passport_authenticate_no_docs:
  "docs s = [] \<Longrightarrow> passport_authenticate x s h = Inl unauthorized"
  by (simp add: passport_authenticate_def find_by_id_def split: option.splits)

lemma update_subscription_no_docs:
  "docs s = [] \<Longrightarrow> update_subscription x s h v = (Inl unauthorized, s)"
  by (simp add: update_subscription_def passport_authenticate_no_docs)

lemma login_status_no_docs:
  "docs s = [] \<Longrightarrow> error_status (projl (fst (login x s email password))) \<in> {400, 401}
     \<and> isl (fst (login x s email password))"
  by (auto simp: login_def find_by_email_def invalid_credentials_def Let_def split: option.splits)

section \<open>The store invariant across the handlers\<close>

lemma js_includes_allowed:
  "js_includes allowed_subscriptions v \<Longrightarrow> str_of v \<in> set subscription_enum"
  by (cases v) (simp_all add: js_includes_def allowed_subscriptions_def subscription_enum_def)

lemma update_subscription_inv:
  "store_inv s \<Longrightarrow> store_inv (snd (update_subscription x s h v))"
  using store_inv_find_by_id_and_update [OF _ update_ok_subscription [OF js_includes_allowed]]
  by (auto simp: update_subscription_def split: sum.splits prod.splits option.splits;
      metis snd_conv)

lemma update_subscription_size:
  "store_size (snd (update_subscription x s h v)) = store_size s"
  using store_size_find_by_id_and_update
  by (auto simp: update_subscription_def split: sum.splits prod.splits option.splits; metis snd_conv)

lemma update_subscription_ids:
  "map doc_id (docs (snd (update_subscription x s h v))) = map doc_id (docs s)"
  by (auto simp: update_subscription_def split: sum.splits prod.splits option.splits; metis ids_set_subscription snd_conv)

section \<open>Whose document a request changes\<close>

text \<open>
  An update by the id of the user \<open>passportAuthenticate\<close> loaded changes the map of
  users at the id the bearer token names, and only there.
\<close>

lemma caller_update:
  assumes "passport_authenticate x s h = Inr d" and "\<And>w. doc_id (f w) = doc_id w"
  shows "\<exists>t. bearer_token h = Some t \<and> verify_token x t = Some (doc_id d) \<and> user_map s (doc_id d) = Some d
     \<and> user_map (snd (find_by_id_and_update s (doc_id d) f)) = (user_map s)(doc_id d \<mapsto> f d)"
proof -
  obtain t u where t: "bearer_token h = Some t" "verify_token x t = Some u" and d: "find_by_id s u = Some d"
    using passport_authenticate_Inr [OF assms(1)] by blast
  have u: "doc_id d = u" using find_by_id_Some [OF d] by simp
  show ?thesis
    using t d u user_map_find_by_id_and_update(2) [OF d, of f] assms(2) by (auto simp: find_by_id_user_map)
qed

lemma update_subscription_user_map:
  "user_map (snd (update_subscription x s h v)) = user_map s \<or>
   (\<exists>t d sub. bearer_token h = Some t \<and> verify_token x t = Some (doc_id d) \<and> user_map s (doc_id d) = Some d
      \<and> user_map (snd (update_subscription x s h v)) = (user_map s)(doc_id d \<mapsto> d\<lparr>doc_subscription := sub\<rparr>))"
proof (cases "passport_authenticate x s h")
  case (Inr d)
  let ?f = "\<lambda>w. w\<lparr>doc_subscription := Some (str_of v)\<rparr>"
  obtain t where c: "bearer_token h = Some t" "verify_token x t = Some (doc_id d)" "user_map s (doc_id d) = Some d"
      "user_map (snd (find_by_id_and_update s (doc_id d) ?f)) = (user_map s)(doc_id d \<mapsto> ?f d)"
    using caller_update [OF Inr, of ?f] by auto
  have "user_map (snd (update_subscription x s h v)) = user_map s \<or>
      user_map (snd (update_subscription x s h v)) = (user_map s)(doc_id d \<mapsto> ?f d)"
    using Inr c(4) by (auto simp: update_subscription_def split: prod.splits option.splits)
  then show ?thesis using c(1-3) by blast
qed (simp add: update_subscription_def)

section \<open>Rejected tokens\<close>

lemma passport_bad_token:
  "bearer_token h = None \<or> (\<exists>t. bearer_token h = Some t \<and> verify_token x t = None) \<Longrightarrow>
     passport_authenticate x s h = Inl unauthorized"
  by (auto simp: passport_authenticate_def)

lemma logout_signed:
  assumes "ext_ok x" and "find_by_id s u = Some d"
  shows "logout x s (bearer (sign_token x u)) = (Inr (Response 204 None), s)"
  using assms ext_ok_token_shape [OF assms(1), of u]
  by (simp add: logout_def header_token_bearer verify_opt_def)

lemma current_signed:
  assumes x: "ext_ok x" and d: "user_map s u = Some d"
  shows "current x s (bearer (sign_token x u)) =
           (Inr (Response 200 (Some (JObj [(''token'', JStr (sign_token x u)), (''user'', user_view d)]))), s)"
proof -
  have "passport_authenticate x s (bearer (sign_token x u)) = Inr d"
    using passport_authenticate_signed [OF x] d by (simp add: find_by_id_user_map)
  moreover have "header_token (bearer (sign_token x u)) = Inr (Some (sign_token x u))"
    using ext_ok_token_shape [OF x] by (simp add: header_token_bearer)
  ultimately show ?thesis by (simp add: current_def opt_member_def)
qed

lemma register_finish_inv: "store_inv s \<Longrightarrow> store_inv (snd (register_finish x s e p))"
  using store_inv_user_create
  by (auto simp: register_finish_def Let_def split: sum.splits prod.splits)

section \<open>The keys of the responses\<close>

lemma user_view_keys:
  "list_all (\<lambda>k. k \<in> set response_keys) (json_keys (user_view d))"
  by (simp add: user_view_def response_keys_def split: option.splits)

lemma status_envelope_keys: "keys_ok (Response st (Some (status_envelope d)))"
  using user_view_keys [of d] by (simp add: keys_ok_def status_envelope_def response_keys_def)

lemma error_response_keys: "keys_ok (error_response e)"
  by (simp add: keys_ok_def error_response_def response_keys_def)

lemma respond_keys:
  "(\<And>resp. r = Inr resp \<Longrightarrow> keys_ok resp) \<Longrightarrow> keys_ok (respond r)"
  by (cases r) (simp_all add: respond_def error_response_keys)

lemma register_keys: "fst (register x s email password) = Inr resp \<Longrightarrow> keys_ok resp"
  by (auto simp: register_defs Let_def user_create_no_verification_token split: option.splits if_splits)

lemma login_keys: "fst (login x s email password) = Inr resp \<Longrightarrow> keys_ok resp"
  by (simp add: login_def Let_def keys_ok_def response_keys_def split: option.splits if_splits)
     (auto split: option.splits)

lemma logout_keys: "fst (logout x s h) = Inr resp \<Longrightarrow> keys_ok resp"
  by (auto simp: logout_def keys_ok_def split: option.splits sum.splits)

lemma current_keys: "fst (current x s h) = Inr resp \<Longrightarrow> keys_ok resp"
  using user_view_keys
  by (simp add: current_def keys_ok_def response_keys_def split: option.splits sum.splits)
     (auto split: option.splits)

lemma update_subscription_keys: "fst (update_subscription x s h v) = Inr resp \<Longrightarrow> keys_ok resp"
  by (auto simp: update_subscription_def status_envelope_keys
      split: option.splits sum.splits if_splits prod.splits)

section \<open>The statuses of the responses\<close>

text \<open>
  The user the middleware loaded is found again by \<open>findByIdAndUpdate\<close> on the same
  collection, so the not-found branch of the subscription route cannot be taken.
\<close>

lemma passport_update_found:
  assumes "passport_authenticate x s h = Inr d" and "\<And>w. doc_id (f w) = doc_id w"
  shows "\<exists>s'. find_by_id_and_update s (doc_id d) f = (Some (f d), s')"
proof -
  obtain t u where "find_by_id s u = Some d"
    using passport_authenticate_Inr [OF assms(1)] by blast
  moreover from this have "doc_id d = u" using find_by_id_Some by blast
  ultimately show ?thesis using user_map_find_by_id_and_update(1) assms(2) by blast
qed

lemma error_status_unauthorized [simp]: "error_status unauthorized = 401"
  by (simp add: unauthorized_def)

lemma register_status:
  "response_status (respond (fst (register x s email password))) \<in> {400, 409, 500}"
  by (auto simp: register_defs respond_def error_response_def user_create_no_verification_token Let_def
      split: option.splits)

lemma login_status:
  "response_status (respond (fst (login x s email password))) \<in> {200, 400, 401, 500}"
  by (auto simp: login_def respond_def error_response_def invalid_credentials_def Let_def
      split: option.splits)

lemma logout_status:
  "response_status (respond (fst (logout x s h))) \<in> {204, 401, 500}"
  by (auto simp: logout_def respond_def error_response_def header_token_def split: option.splits sum.splits)

lemma passport_header_present: "passport_authenticate x s h = Inr d \<Longrightarrow> h \<noteq> None"
  by (auto simp: passport_authenticate_def bearer_token_def split: option.splits)

lemma current_status:
  "response_status (respond (fst (current x s h))) \<in> {200, 401}"
  by (auto simp: current_def respond_def error_response_def header_token_def
      dest: passport_authenticate_Inl passport_header_present split: sum.splits option.splits)

lemma update_subscription_status:
  "response_status (respond (fst (update_subscription x s h v))) \<in> {200, 400, 401}"
proof (cases "passport_authenticate x s h")
  case (Inl e)
  then show ?thesis
    by (auto simp: update_subscription_def respond_def error_response_def dest: passport_authenticate_Inl)
next
  case (Inr d)
  obtain s' where "find_by_id_and_update s (doc_id d) (\<lambda>u. u\<lparr>doc_subscription := Some (str_of v)\<rparr>) =
      (Some (d\<lparr>doc_subscription := Some (str_of v)\<rparr>), s')"
    using passport_update_found [OF Inr, of "\<lambda>u. u\<lparr>doc_subscription := Some (str_of v)\<rparr>"] by auto
  with Inr show ?thesis by (simp add: update_subscription_def respond_def error_response_def)
qed

text \<open>On an empty collection only 400, 401 and 500 can be answered.\<close>

lemma register_status_no_docs:
  "docs s = [] \<Longrightarrow> response_status (respond (fst (register x s email password))) \<in> {400, 500}"
  by (auto simp: register_defs respond_def error_response_def user_create_no_verification_token
      find_by_email_def Let_def split: option.splits)

lemma logout_status_no_docs:
  "docs s = [] \<Longrightarrow> response_status (respond (fst (logout x s h))) \<in> {401, 500}"
  by (auto simp: logout_def respond_def error_response_def header_token_def find_by_id_def
      split: option.splits sum.splits)

section \<open>Properties of the handlers\<close>

subsection \<open>Registration\<close>

text \<open>
  C1. Registration never succeeds: whatever the input and the collection, the handler
  ends in an error and leaves the collection as it was. \<open>User.create\<close> is called
  without \<open>verificationToken\<close>, which the schema requires (line 31 of \<open>usersSchema.js\<close>), so the create
  always fails validation; the 201 branch is dead code.
\<close>

theorem register_never_succeeds:
  "isl (fst (register x s email password)) \<and> snd (register x s email password) = s"
  by (auto simp: register_defs Let_def user_create_no_verification_token split: option.splits)

text \<open>
  C2. The outcome of registration on each branch: the first validation message with
  400, 409 for an address already in use, and otherwise the Mongoose validation error
  for the missing verification token (answered with 500 by the error responder).
\<close>

theorem register_outcome:
  assumes "ext_ok x"
  shows "register x s email password =
    (case validate_user email password of
       Some err \<Rightarrow> (Inl (HttpError 400 (joi_message err)), s)
     | None \<Rightarrow> if find_by_email s (str_of email) \<noteq> None then (Inl (HttpError 409 ''Email in use''), s)
             else (Inl (ValidationError ''User validation failed: verificationToken: Verify token is required''), s))"
proof (cases "validate_user email password")
  case None
  then obtain e p where ep: "email = Str e" "password = Str p" "e \<noteq> []"
    by (auto dest: validate_user_NoneD)
  have "bcrypt_hash x p \<noteq> []" using ext_ok_compare [OF assms] by blast
  with ep None show ?thesis
    by (simp add: register_defs user_create_def schema_errors_new_doc required_error_def
        validation_message_def)
qed (simp add: register_defs)

theorem register_outcome_witness:
  "register demo_ext empty_store (Str ''ann@mail.com'') (Str ''secret12'') =
     (Inl (ValidationError ''User validation failed: verificationToken: Verify token is required''),
      empty_store)"
proof -
  have v: "validate_user (Str ''ann@mail.com'') (Str ''secret12'') = None" by code_simp
  have f: "find_by_email empty_store ''ann@mail.com'' = None"
    by (simp add: find_by_email_def empty_store_def)
  show ?thesis
    using register_outcome [OF demo_ext_ok, of empty_store "Str ''ann@mail.com''" "Str ''secret12''"] v f
    by simp
qed

subsection \<open>Login\<close>

text \<open>
  C5. Login with a valid address and password that match a stored user answers 200
  with a token that verifies to that user's id and the user's projection, and leaves
  the collection unchanged.
\<close>

theorem login_success:
  assumes "ext_ok x" "email_ok e" "password_ok p"
    and "find_by_email s e = Some d" and "doc_password d = Some (bcrypt_hash x p)"
  shows "login x s (Str e) (Str p) =
      (Inr (Response 200 (Some (JObj
         [(''token'', JStr (sign_token x (doc_id d))),
          (''user'', JObj (opt_member ''email'' (doc_email d) @ [(''subscription'', JStr ''starter'')]
             @ opt_member ''avatarURL'' (doc_avatarURL d)))]))), s)
    \<and> verify_token x (sign_token x (doc_id d)) = Some (doc_id d)"
  using assms ext_ok_compare [OF assms(1), of p]
  by (simp add: login_def validate_user_StrI)

theorem login_success_witness:
  "login demo_ext demo_store (Str ''ann@mail.com'') (Str ''secret12'') =
      (Inr (Response 200 (Some (JObj
         [(''token'', JStr ''t''),
          (''user'', JObj [(''email'', JStr ''ann@mail.com''), (''subscription'', JStr ''starter''),
                          (''avatarURL'', JStr ''avatars/ann.png'')])]))), demo_store)
   \<and> verify_token demo_ext ''t'' = Some 0"
proof -
  have e: "email_ok ''ann@mail.com''" by code_simp
  have p: "password_ok ''secret12''" by code_simp
  have f: "find_by_email demo_store ''ann@mail.com'' = Some demo_doc"
    by (simp add: find_by_email_def demo_store_def demo_doc_def)
  have h: "doc_password demo_doc = Some (bcrypt_hash demo_ext ''secret12'')"
    by (simp add: demo_doc_def demo_ext_def)
  show ?thesis
    using login_success [OF demo_ext_ok e p f h]
    by (simp add: demo_doc_def demo_ext_def opt_member_def)
qed

text \<open>
  C6. Login does not tell an unknown address from a wrong password: for valid input,
  both give the same 401 error and leave the collection unchanged.
\<close>

theorem login_uniform_401:
  assumes "email_ok e" "password_ok p"
    and "find_by_email s e = None \<or>
         (\<exists>d h. find_by_email s e = Some d \<and> doc_password d = Some h \<and> \<not> bcrypt_compare x p h)"
  shows "login x s (Str e) (Str p) = (Inl invalid_credentials, s)"
  using assms by (auto simp: login_def validate_user_StrI)

theorem login_uniform_401_witness:
  "login demo_ext demo_store (Str ''bob@mail.com'') (Str ''secret12'') = (Inl invalid_credentials, demo_store)
   \<and> login demo_ext demo_store (Str ''ann@mail.com'') (Str ''wrongpass1'') = (Inl invalid_credentials, demo_store)"
proof -
  have e1: "email_ok ''bob@mail.com''" and e2: "email_ok ''ann@mail.com''" by code_simp+
  have p1: "password_ok ''secret12''" and p2: "password_ok ''wrongpass1''" by code_simp+
  have f1: "find_by_email demo_store ''bob@mail.com'' = None"
    by (simp add: find_by_email_def demo_store_def demo_doc_def)
  have f2: "find_by_email demo_store ''ann@mail.com'' = Some demo_doc
      \<and> doc_password demo_doc = Some ''$2b$10$secret12''
      \<and> \<not> bcrypt_compare demo_ext ''wrongpass1'' ''$2b$10$secret12''"
    by (simp add: find_by_email_def demo_store_def demo_doc_def demo_ext_def)
  show ?thesis
    using login_uniform_401 [OF e1 p1, of demo_store demo_ext] f1
      login_uniform_401 [OF e2 p2, of demo_store demo_ext] f2
    by blast
qed

text \<open>
  C7. A successful login reports the subscription \<open>starter\<close> whatever the stored
  subscription is (line 101 writes the literal), unlike \<open>/current\<close> and the PATCH
  routes, which report the stored value.
\<close>

theorem login_reports_starter:
  assumes "fst (login x s email password) = Inr r"
  shows "Option.bind (Option.bind (response_body r) (json_get ''user'')) (json_get ''subscription'')
           = Some (JStr ''starter'')"
  using assms
  by (auto simp: login_def json_get_def opt_member_def Let_def split: option.splits if_splits)

theorem login_reports_starter_witness:
  "doc_subscription demo_doc = Some ''pro''
   \<and> Option.bind (Option.bind (response_body (projr (fst (login demo_ext demo_store
         (Str ''ann@mail.com'') (Str ''secret12''))))) (json_get ''user'')) (json_get ''subscription'')
       = Some (JStr ''starter'')"
  using login_reports_starter [of demo_ext demo_store "Str ''ann@mail.com''" "Str ''secret12''"] demo_login
  by (simp add: demo_doc_def)

text \<open>
  C21. Login and \<open>/current\<close> compose as the specification requires: under the store
  invariant, the token of a successful login names the stored user of the address
  that logged in, and \<open>/current\<close> with that token answers 200 with that user.
\<close>

theorem login_token_opens_current:
  assumes x: "ext_ok x" and inv: "store_inv s" and l: "fst (login x s email password) = Inr r"
  shows "\<exists>d. doc_email d = Some (str_of email)
    \<and> Option.bind (response_body r) (json_get ''token'') = Some (JStr (sign_token x (doc_id d)))
    \<and> fst (current x s (bearer (sign_token x (doc_id d)))) =
        Inr (Response 200 (Some (JObj [(''token'', JStr (sign_token x (doc_id d))), (''user'', user_view d)])))"
proof -
  have "\<exists>d. find_by_email s (str_of email) = Some d
      \<and> Option.bind (response_body r) (json_get ''token'') = Some (JStr (sign_token x (doc_id d)))"
    using l by (auto simp: login_def Let_def json_get_def split: option.splits if_splits)
  then obtain d where f: "find_by_email s (str_of email) = Some d"
    and t: "Option.bind (response_body r) (json_get ''token'') = Some (JStr (sign_token x (doc_id d)))"
    by blast
  have m: "d \<in> set (docs s)" and e: "doc_email d = Some (str_of email)"
    using find_by_email_Some [OF f] by simp_all
  have "user_map s (doc_id d) = Some d"
    using find_by_id_member [OF inv m] by (simp add: find_by_id_user_map)
  from current_signed [OF x this] e t show ?thesis by auto
qed

theorem login_token_opens_current_witness:
  "\<exists>d. doc_email d = Some ''ann@mail.com''
    \<and> Option.bind (response_body (Response 200 (Some (JObj
         [(''token'', JStr ''t''),
          (''user'', JObj [(''email'', JStr ''ann@mail.com''), (''subscription'', JStr ''starter''),
                          (''avatarURL'', JStr ''avatars/ann.png'')])])))) (json_get ''token'')
        = Some (JStr (sign_token demo_ext (doc_id d)))
    \<and> fst (current demo_ext demo_store (bearer (sign_token demo_ext (doc_id d)))) =
        Inr (Response 200 (Some (JObj [(''token'', JStr (sign_token demo_ext (doc_id d))), (''user'', user_view d)])))"
proof -
  have l: "fst (login demo_ext demo_store (Str ''ann@mail.com'') (Str ''secret12'')) =
      Inr (Response 200 (Some (JObj
         [(''token'', JStr ''t''),
          (''user'', JObj [(''email'', JStr ''ann@mail.com''), (''subscription'', JStr ''starter''),
                          (''avatarURL'', JStr ''avatars/ann.png'')])])))"
    by (simp add: demo_login)
  show ?thesis using login_token_opens_current [OF demo_ext_ok demo_store_inv l] by simp
qed

text \<open>
  C27. On a collection that satisfies the invariant, login answers only 200, 400 or
  401: the schema requires a password, so the branch where \<open>bcrypt.compare\<close> is
  given no hash and throws (answered with 500) cannot be taken.
\<close>

theorem login_status_valid_store:
  assumes "store_inv s"
  shows "response_status (respond (fst (login x s email password))) \<in> {200, 400, 401}"
proof (cases "validate_user email password = None \<and> find_by_email s (str_of email) \<noteq> None")
  case True
  then obtain d where f: "find_by_email s (str_of email) = Some d" by blast
  obtain h where "doc_password d = Some h"
    using store_inv_password [OF assms] find_by_email_Some [OF f] by blast
  with True f show ?thesis
    by (simp add: login_def respond_def error_response_def invalid_credentials_def Let_def)
next
  case False
  then show ?thesis
    by (auto simp: login_def respond_def error_response_def invalid_credentials_def Let_def
        split: option.splits)
qed

theorem login_status_valid_store_witness:
  "response_status (respond (fst (login demo_ext demo_store (Str ''ann@mail.com'') (Str ''secret12''))))
     \<in> {200, 400, 401}"
  using login_status_valid_store [OF demo_store_inv] .

subsection \<open>Subscription\<close>

text \<open>
  C10. A user holding a token issued for their id who sets an allowed subscription gets
  200 with the updated projection, and a following \<open>/current\<close> with the same token
  reports the new subscription.
\<close>

theorem subscription_persists:
  assumes x: "ext_ok x" and d: "find_by_id s u = Some d" and v: "v \<in> set allowed_subscriptions"
  shows "fst (update_subscription x s (bearer (sign_token x u)) (Str v)) =
           Inr (Response 200 (Some (status_envelope (d\<lparr>doc_subscription := Some v\<rparr>))))
    \<and> fst (current x (snd (update_subscription x s (bearer (sign_token x u)) (Str v))) (bearer (sign_token x u))) =
           Inr (Response 200 (Some (JObj [(''token'', JStr (sign_token x u)),
                                         (''user'', user_view (d\<lparr>doc_subscription := Some v\<rparr>))])))"
proof -
  let ?f = "\<lambda>w. w\<lparr>doc_subscription := Some v\<rparr>"
  have id: "doc_id d = u" using find_by_id_Some [OF d] by simp
  have pa: "passport_authenticate x s (bearer (sign_token x u)) = Inr d"
    using passport_authenticate_signed [OF x, of s u] d by simp
  define s' where "s' = snd (find_by_id_and_update s u ?f)"
  have upd: "find_by_id_and_update s u ?f = (Some (?f d), s')"
    and m: "user_map s' = (user_map s)(u \<mapsto> ?f d)"
    using user_map_find_by_id_and_update [OF d, of ?f] unfolding s'_def by simp_all
  have r: "update_subscription x s (bearer (sign_token x u)) (Str v) =
      (Inr (Response 200 (Some (status_envelope (?f d)))), s')"
    using pa v id upd by (simp add: update_subscription_def js_includes_def)
  have pa': "passport_authenticate x s' (bearer (sign_token x u)) = Inr (?f d)"
    using passport_authenticate_signed [OF x] m by (simp add: find_by_id_user_map)
  have ht: "header_token (bearer (sign_token x u)) = Inr (Some (sign_token x u))"
    using ext_ok_token_shape [OF x] by (simp add: header_token_bearer)
  show ?thesis using r pa' ht by (simp add: current_def opt_member_def)
qed

theorem subscription_persists_witness:
  "fst (current demo_ext (snd (update_subscription demo_ext demo_store (bearer ''t'') (Str ''business'')))
      (bearer ''t'')) =
     Inr (Response 200 (Some (JObj [(''token'', JStr ''t''),
                                   (''user'', user_view (demo_doc\<lparr>doc_subscription := Some ''business''\<rparr>))])))"
proof -
  have d: "find_by_id demo_store 0 = Some demo_doc" by (simp add: find_by_id_def demo_store_def demo_doc_def)
  have v: "''business'' \<in> set allowed_subscriptions" by (simp add: allowed_subscriptions_def)
  have t: "sign_token demo_ext 0 = ''t''" by (simp add: demo_ext_def)
  show ?thesis using subscription_persists [OF demo_ext_ok d v] t by simp
qed

text \<open>
  C11. An authenticated request with a subscription outside \<open>starter\<close>, \<open>pro\<close>,
  \<open>business\<close> (or not a string at all) is refused with 400 and changes nothing.
\<close>

theorem subscription_invalid_rejected:
  assumes "passport_authenticate x s h = Inr d" and "\<not> js_includes allowed_subscriptions v"
  shows "update_subscription x s h v = (Inl (HttpError 400 ''Invalid subscription value''), s)"
  using assms by (simp add: update_subscription_def)

theorem subscription_invalid_rejected_witness:
  "update_subscription demo_ext demo_store (bearer ''t'') (Str ''gold'') =
     (Inl (HttpError 400 ''Invalid subscription value''), demo_store)"
proof -
  have v: "\<not> js_includes allowed_subscriptions (Str ''gold'')"
    by (simp add: js_includes_def allowed_subscriptions_def)
  show ?thesis using subscription_invalid_rejected [OF demo_passport v] .
qed

subsection \<open>The scheme of the Authorization header\<close>

text \<open>
  C25. \<open>/logout\<close> reads the token as the second space-separated word of the header,
  whatever the first word is: \<open>Basic <token>\<close> or any other scheme logs out exactly
  as \<open>Bearer <token>\<close> does, while \<open>/current\<close>, behind the bearer middleware,
  refuses the same header with 401.
\<close>

theorem logout_any_scheme:
  assumes "CHR '' '' \<notin> set scheme" and "CHR '' '' \<notin> set t" and "scheme \<noteq> ''Bearer''"
  shows "logout x s (Some (scheme @ CHR '' '' # t)) = logout x s (bearer t)
    \<and> current x s (Some (scheme @ CHR '' '' # t)) = (Inl unauthorized, s)"
  using assms
  by (simp add: logout_def current_def passport_authenticate_def header_token_scheme
      header_token_bearer bearer_token_scheme)

theorem logout_any_scheme_witness:
  "logout demo_ext demo_store (Some ''Basic t'') = (Inr (Response 204 None), demo_store)
   \<and> current demo_ext demo_store (Some ''Basic t'') = (Inl unauthorized, demo_store)"
proof -
  have d: "find_by_id demo_store 0 = Some demo_doc" by (simp add: find_by_id_def demo_store_def demo_doc_def)
  have t: "sign_token demo_ext 0 = ''t''" by (simp add: demo_ext_def)
  have l: "logout demo_ext demo_store (bearer ''t'') = (Inr (Response 204 None), demo_store)"
    using logout_signed [OF demo_ext_ok d] unfolding t .
  have h: "''Basic t'' = ''Basic'' @ CHR '' '' # ''t''" by simp
  show ?thesis
    using logout_any_scheme [of "''Basic''" "''t''" demo_ext demo_store] l unfolding h by simp
qed

end
