(* ===== verification/Avatar.thy ===== *)
theory Avatar
  imports Handlers
begin

text \<open>
  The avatar route \<open>PATCH /avatars\<close> of \<open>src/routes/api/users.js\<close> (lines
  187--224) with the state it touches besides the collection: the file system and the
  module's directory \<open>__dirname\<close>. It holds the name busboy hands to multer
  (\<open>busboy_basename\<close>), the multer disk storage of lines 16--25
  (\<open>multer_single\<close>), \<open>fs.rename\<close> (\<open>fs_rename\<close>), the handler body after the
  two middlewares (\<open>avatar_body\<close>) and the whole route (\<open>update_avatar\<close>), with
  the lemmas on a successful upload and the properties of the stored files.
\<close>

section \<open>PATCH /avatars (lines 187--224)\<close>

text \<open>The system state: the collection, the file system (path to content), \<open>__dirname\<close>.\<close>

record sys =
  db :: store
  fs :: "string \<Rightarrow> string option"
  dirname :: string

text \<open>The two directories of lines 13--14.\<close>

definition temp_dir :: "string \<Rightarrow> string" where
  "temp_dir dn = path_join [dn, ''../'', ''../'', ''temp'']"

definition avatrs_dir :: "string \<Rightarrow> string" where
  "avatrs_dir dn = path_join [dn, ''../'', ''../'', ''public'', ''avatars'']"

text \<open>A file part of a multipart request: its field name, its client file name, its bytes.\<close>

record upload =
  up_field :: string
  up_name :: string
  up_content :: string

text \<open>
  The file name multer reports as \<open>file.originalname\<close>. Multer parses the body with
  busboy, whose default (\<open>preservePath: false\<close>) keeps only the part of the client's
  file name after its last \<open>/\<close> or a backslash and turns \<open>.\<close> and \<open>..\<close> into the empty
  name (busboy's \<open>basename\<close>, a loop from the end of the string).
\<close>

definition busboy_basename :: "string \<Rightarrow> string" where
  "busboy_basename n =
     (let b = rev (takeWhile (\<lambda>c. c \<noteq> CHR ''/'' \<and> c \<noteq> CHR 0x5C) (rev n)) in
      if b = ''.'' \<or> b = ''..'' then [] else b)"

definition up_originalname :: "upload \<Rightarrow> string" where
  "up_originalname u = busboy_basename (up_name u)"

text \<open>
  \<open>upload.single("avatar")\<close> with the disk storage of lines 16--25. Multer ignores a
  file part whose name is empty (\<open>if (!filename) return fileStream.resume()\<close>), before
  its field check; a file under another field is a \<open>MulterError\<close>; the \<open>avatar\<close> file
  is written to \<open>path.join(tempDir, originalname)\<close> (the \<open>filename\<close> callback of
  line 19), and \<open>req.file.path\<close> is that location. Without a file part \<open>req.file\<close>
  stays \<open>undefined\<close> (\<open>None\<close>).
\<close>

definition multer_single ::
  "string \<Rightarrow> (string \<Rightarrow> string option) \<Rightarrow> upload option
     \<Rightarrow> app_error + ((string \<times> string) option \<times> (string \<Rightarrow> string option))" where
  "multer_single dn files up = (case up of
      None \<Rightarrow> Inr (None, files)
    | Some u \<Rightarrow>
        (let n = up_originalname u in
         if n = [] then Inr (None, files)
         else if up_field u \<noteq> ''avatar'' then Inl (MulterError ''Unexpected field'')
         else (let p = path_join [temp_dir dn, n] in
               Inr (Some (p, n), files(p \<mapsto> up_content u)))))"

text \<open>\<open>fs.rename(src, dst)\<close>: moves the file, replacing any file at \<open>dst\<close>.\<close>

definition fs_rename ::
  "(string \<Rightarrow> string option) \<Rightarrow> string \<Rightarrow> string \<Rightarrow> app_error + (string \<Rightarrow> string option)" where
  "fs_rename files src dst = (case files src of
      None \<Rightarrow> Inl (FsError ''ENOENT: no such file or directory, rename'')
    | Some c \<Rightarrow> Inr ((files(src := None))(dst \<mapsto> c)))"

text \<open>The handler body, after the two middlewares: \<open>file\<close> is \<open>req.file\<close>.\<close>

definition avatar_body ::
  "sys \<Rightarrow> user_doc \<Rightarrow> (string \<times> string) option \<Rightarrow> (app_error + response) \<times> sys" where
  "avatar_body sy d file =
     (case file of
        None \<Rightarrow> (Inl (TypeError ''Cannot destructure property 'path' of 'req.file' as it is undefined.''), sy)
      | Some (temp_upload, originalname) \<Rightarrow>
          (let result_upload = path_join [avatrs_dir (dirname sy), originalname] in
           case fs_rename (fs sy) temp_upload result_upload of
             Inl err \<Rightarrow> (Inl err, sy)
           | Inr files \<Rightarrow>
               (let url = path_join [''avatars'', originalname] in
                case find_by_id_and_update (db sy) (doc_id d) (\<lambda>u. u\<lparr>doc_avatarURL := Some url\<rparr>) of
                  (None, st) \<Rightarrow> (Inl (HttpError 404 ''User not found''), sy\<lparr>db := st, fs := files\<rparr>)
                | (Some d', st) \<Rightarrow> (Inr (Response 200 (Some (status_envelope d'))),
                                   sy\<lparr>db := st, fs := files\<rparr>))))"

text \<open>
  The two middlewares: \<open>passportAuthenticate\<close> loads the user, then
  \<open>upload.single("avatar")\<close> writes the file part to the temp directory. They end
  either with the route's outcome or with the user, \<open>req.file\<close> and the state in
  which the handler body starts.
\<close>

definition avatar_start ::
  "ext \<Rightarrow> sys \<Rightarrow> string option \<Rightarrow> upload option
     \<Rightarrow> ((app_error + response) \<times> sys) + (user_doc \<times> (string \<times> string) option \<times> sys)" where
  "avatar_start x sy h up =
     (case passport_authenticate x (db sy) h of
        Inl err \<Rightarrow> Inl (Inl err, sy)
      | Inr d \<Rightarrow>
          (case multer_single (dirname sy) (fs sy) up of
             Inl err \<Rightarrow> Inl (Inl err, sy)
           | Inr (file, files) \<Rightarrow> Inr (d, file, sy\<lparr>fs := files\<rparr>)))"

text \<open>The route: the middlewares, then the handler body on the state they leave.\<close>

definition update_avatar ::
  "ext \<Rightarrow> sys \<Rightarrow> string option \<Rightarrow> upload option \<Rightarrow> (app_error + response) \<times> sys" where
  "update_avatar x sy h up =
     (case avatar_start x sy h up of
        Inl r \<Rightarrow> r
      | Inr (d, file, sy') \<Rightarrow> avatar_body sy' d file)"

lemmas update_avatar_defs = update_avatar_def avatar_start_def

text \<open>The file system after the upload of \<open>up\<close> and its move into the avatars directory.\<close>

definition upload_files :: "sys \<Rightarrow> upload \<Rightarrow> string \<Rightarrow> string option" where
  "upload_files sy up =
     (let tmp = path_join [temp_dir (dirname sy), up_originalname up] in
      (((fs sy)(tmp \<mapsto> up_content up))(tmp := None))
        (path_join [avatrs_dir (dirname sy), up_originalname up] \<mapsto> up_content up))"

definition set_avatar :: "upload \<Rightarrow> user_doc \<Rightarrow> user_doc" where
  "set_avatar up w = w\<lparr>doc_avatarURL := Some (path_join [''avatars'', up_originalname up])\<rparr>"

section \<open>A concrete system state for the witnesses\<close>

definition demo_sys :: sys where
  "demo_sys = \<lparr>db = demo_store, fs = Map.empty, dirname = ''/srv/app/routes/api''\<rparr>"

definition demo_sys2 :: sys where
  "demo_sys2 = demo_sys\<lparr>db := \<lparr>docs = [demo_doc, demo_doc2], next_id = 2\<rparr>\<rparr>"

section \<open>Lemmas\<close>

lemma avatar_start_Inl: "avatar_start x sy h up = Inl (r, sy') \<Longrightarrow> sy' = sy"
  by (auto simp: avatar_start_def split: sum.splits prod.splits)

lemma avatar_start_Inr:
  "avatar_start x sy h up = Inr (d, file, sy') \<Longrightarrow>
     db sy' = db sy \<and> dirname sy' = dirname sy \<and> find_by_id (db sy) (doc_id d) = Some d"
  by (auto simp: avatar_start_def split: sum.splits prod.splits
      dest!: passport_authenticate_Inr dest: find_by_id_Some)

lemma busboy_basename_plain: "busboy_basename n \<noteq> [] \<Longrightarrow> plain_name (busboy_basename n)"
  by (auto simp: busboy_basename_def plain_name_def Let_def dest: set_takeWhileD)

lemma busboy_basename_id:
  assumes "plain_name n"
  shows "busboy_basename n = n"
proof -
  have tw: "takeWhile (\<lambda>c. c \<noteq> CHR ''/'' \<and> c \<noteq> CHR 0x5C) (rev n) = rev n"
    using assms by (simp add: plain_name_def) blast
  show ?thesis
    unfolding busboy_basename_def Let_def tw rev_rev_ident using assms by (simp add: plain_name_def)
qed

lemma set_avatar_fun: "set_avatar up = (\<lambda>w. w\<lparr>doc_avatarURL := Some (path_join [''avatars'', up_originalname up])\<rparr>)"
  by (simp add: fun_eq_iff set_avatar_def)

lemma avatar_start_signed:
  assumes "ext_ok x" and "find_by_id (db sy) u = Some d" and "up_field up = ''avatar''"
    and "up_originalname up \<noteq> []"
  shows "avatar_start x sy (bearer (sign_token x u)) (Some up) =
    Inr (d, Some (path_join [temp_dir (dirname sy), up_originalname up], up_originalname up),
         sy\<lparr>fs := (fs sy)(path_join [temp_dir (dirname sy), up_originalname up] \<mapsto> up_content up)\<rparr>)"
  using passport_authenticate_signed [OF assms(1), of "db sy" u] assms(2-4)
  by (simp add: avatar_start_def multer_single_def Let_def)

lemma avatar_body_moved:
  assumes "fs sy tmp = Some c" and "find_by_id (db sy) (doc_id d) = Some d"
  shows "avatar_body sy d (Some (tmp, n)) =
    (Inr (Response 200 (Some (status_envelope (d\<lparr>doc_avatarURL := Some (path_join [''avatars'', n])\<rparr>)))),
     sy\<lparr>db := snd (find_by_id_and_update (db sy) (doc_id d) (\<lambda>u. u\<lparr>doc_avatarURL := Some (path_join [''avatars'', n])\<rparr>)),
         fs := ((fs sy)(tmp := None))(path_join [avatrs_dir (dirname sy), n] \<mapsto> c)\<rparr>)"
proof -
  obtain st where "find_by_id_and_update (db sy) (doc_id d) (\<lambda>u. u\<lparr>doc_avatarURL := Some (path_join [''avatars'', n])\<rparr>) =
      (Some (d\<lparr>doc_avatarURL := Some (path_join [''avatars'', n])\<rparr>), st)"
  proof -
    have "find_by_id_and_update (db sy) (doc_id d) (\<lambda>u. u\<lparr>doc_avatarURL := Some (path_join [''avatars'', n])\<rparr>) =
        (Some (d\<lparr>doc_avatarURL := Some (path_join [''avatars'', n])\<rparr>),
         snd (find_by_id_and_update (db sy) (doc_id d) (\<lambda>u. u\<lparr>doc_avatarURL := Some (path_join [''avatars'', n])\<rparr>)))"
      by (rule user_map_find_by_id_and_update(1) [OF assms(2)]) simp
    then show ?thesis by (rule that)
  qed
  with assms(1) show ?thesis by (simp add: avatar_body_def fs_rename_def Let_def)
qed

lemma avatar_body_inv: "store_inv (db sy) \<Longrightarrow> store_inv (db (snd (avatar_body sy d file)))"
  using store_inv_find_by_id_and_update [OF _ update_ok_avatar]
  by (auto simp: avatar_body_def Let_def split: sum.splits prod.splits option.splits; metis snd_conv)

lemma avatar_body_ids: "map doc_id (docs (db (snd (avatar_body sy d file)))) = map doc_id (docs (db sy))"
  by (auto simp: avatar_body_def Let_def split: sum.splits prod.splits option.splits; metis ids_set_avatar snd_conv)

lemma avatar_body_size: "store_size (db (snd (avatar_body sy d file))) = store_size (db sy)"
  by (auto simp: avatar_body_def Let_def split: sum.splits prod.splits option.splits; metis snd_conv
      store_size_find_by_id_and_update)

text \<open>
  The collection after the route is the one after the handler body, run on a state
  with the same collection, or the original one: a property of the collection that
  \<open>avatar_body\<close> keeps is kept by the whole route.
\<close>

lemma update_avatar_db:
  assumes "P (db sy)" and "\<And>sy' d fl. db sy' = db sy \<Longrightarrow> P (db (snd (avatar_body sy' d fl)))"
  shows "P (db (snd (update_avatar x sy h up)))"
proof (cases "avatar_start x sy h up")
  case (Inl r)
  then show ?thesis using assms(1) by (cases r) (auto simp: update_avatar_def dest: avatar_start_Inl)
next
  case (Inr r)
  then obtain d fl sy' where s: "avatar_start x sy h up = Inr (d, fl, sy')" by (metis prod_cases3)
  then show ?thesis using avatar_start_Inr [OF s] assms(2) by (simp add: update_avatar_def)
qed

lemma update_avatar_ids:
  "map doc_id (docs (db (snd (update_avatar x sy h up)))) = map doc_id (docs (db sy))"
  by (rule update_avatar_db [where P = "\<lambda>s. map doc_id (docs s) = map doc_id (docs (db sy))"])
    (simp_all add: avatar_body_ids)

lemma update_avatar_no_docs:
  "docs (db sy) = [] \<Longrightarrow> update_avatar x sy h up = (Inl unauthorized, sy)"
  by (simp add: update_avatar_defs passport_authenticate_no_docs)

lemma update_avatar_inv:
  "store_inv (db sy) \<Longrightarrow> store_inv (db (snd (update_avatar x sy h up)))"
  by (rule update_avatar_db [where P = store_inv]) (simp_all add: avatar_body_inv)

lemma update_avatar_size:
  "store_size (db (snd (update_avatar x sy h up))) = store_size (db sy)"
  by (rule update_avatar_db [where P = "\<lambda>s. store_size s = store_size (db sy)"])
    (simp_all add: avatar_body_size)

section \<open>The successful avatar upload\<close>

lemma update_avatar_ok:
  assumes x: "ext_ok x" and d: "find_by_id (db sy) u = Some d" and f: "up_field up = ''avatar''"
    and n: "up_originalname up \<noteq> []"
  shows "update_avatar x sy (bearer (sign_token x u)) (Some up) =
      (Inr (Response 200 (Some (status_envelope (set_avatar up d)))),
       sy\<lparr>db := snd (find_by_id_and_update (db sy) u (set_avatar up)), fs := upload_files sy up\<rparr>)"
    and "user_map (snd (find_by_id_and_update (db sy) u (set_avatar up))) = (user_map (db sy))(u \<mapsto> set_avatar up d)"
proof -
  have id: "doc_id d = u" using find_by_id_Some [OF d] by simp
  have pa: "passport_authenticate x (db sy) (bearer (sign_token x u)) = Inr d"
    using passport_authenticate_signed [OF x, of "db sy" u] d by simp
  define s' where "s' = snd (find_by_id_and_update (db sy) u (set_avatar up))"
  have upd: "find_by_id_and_update (db sy) u (set_avatar up) = (Some (set_avatar up d), s')"
    and m: "user_map s' = (user_map (db sy))(u \<mapsto> set_avatar up d)"
    using user_map_find_by_id_and_update [OF d, of "set_avatar up"] unfolding s'_def
    by (simp_all add: set_avatar_def)
  have sa: "(\<lambda>w. w\<lparr>doc_avatarURL := Some (path_join [''avatars'', up_originalname up])\<rparr>) = set_avatar up"
    by (simp add: set_avatar_fun)
  show "update_avatar x sy (bearer (sign_token x u)) (Some up) =
      (Inr (Response 200 (Some (status_envelope (set_avatar up d)))),
       sy\<lparr>db := snd (find_by_id_and_update (db sy) u (set_avatar up)), fs := upload_files sy up\<rparr>)"
    using pa f n id upd unfolding s'_def [symmetric]
    by (simp add: update_avatar_defs multer_single_def avatar_body_def fs_rename_def upload_files_def
        Let_def sa)
  show "user_map (snd (find_by_id_and_update (db sy) u (set_avatar up))) = (user_map (db sy))(u \<mapsto> set_avatar up d)"
    using m unfolding s'_def .
qed

lemma update_avatar_keys: "fst (update_avatar x sy h up) = Inr resp \<Longrightarrow> keys_ok resp"
  by (auto simp: update_avatar_defs avatar_body_def status_envelope_keys Let_def
      split: option.splits sum.splits if_splits prod.splits)

lemma update_avatar_status:
  "response_status (respond (fst (update_avatar x sy h up))) \<in> {200, 401, 500}"
proof (cases "passport_authenticate x (db sy) h")
  case (Inl e)
  then show ?thesis
    by (auto simp: update_avatar_defs respond_def error_response_def dest: passport_authenticate_Inl)
next
  case (Inr d)
  have upd: "\<And>url. \<exists>s'. find_by_id_and_update (db sy) (doc_id d) (\<lambda>u. u\<lparr>doc_avatarURL := Some url\<rparr>) =
      (Some (d\<lparr>doc_avatarURL := Some url\<rparr>), s')"
    using passport_update_found [OF Inr] by simp
  show ?thesis
  proof (cases "multer_single (dirname sy) (fs sy) up")
    case (Inl e)
    with Inr show ?thesis
      by (auto simp: update_avatar_defs respond_def error_response_def multer_single_def Let_def
          split: option.splits if_splits)
  next
    case (Inr r)
    obtain upf fls where r: "r = (upf, fls)" by fastforce
    show ?thesis
    proof (cases upf)
      case None
      with Inr r \<open>passport_authenticate x (db sy) h = Inr d\<close> show ?thesis
        by (simp add: update_avatar_defs avatar_body_def respond_def error_response_def)
    next
      case (Some f)
      then obtain tmp name where f: "upf = Some (tmp, name)" by fastforce
      let ?url = "path_join [''avatars'', name]"
      obtain s'' where u: "find_by_id_and_update (db sy) (doc_id d) (\<lambda>u. u\<lparr>doc_avatarURL := Some ?url\<rparr>) =
          (Some (d\<lparr>doc_avatarURL := Some ?url\<rparr>), s'')"
        using upd [of ?url] by blast
      from Inr r f u \<open>passport_authenticate x (db sy) h = Inr d\<close> show ?thesis
        by (auto simp: update_avatar_defs avatar_body_def respond_def error_response_def Let_def
            fs_rename_def split: sum.splits option.splits)
    qed
  qed
qed

lemma avatar_start_passport:
  "avatar_start x sy h up = Inr (d, fl, sy') \<Longrightarrow> passport_authenticate x (db sy) h = Inr d \<and> db sy' = db sy"
  by (auto simp: avatar_start_def split: sum.splits prod.splits)

text \<open>The handler body leaves the collection alone or sets the user's \<open>avatarURL\<close>.\<close>

lemma avatar_body_db:
  "db (snd (avatar_body sy d fl)) = db sy \<or>
   (\<exists>url. db (snd (avatar_body sy d fl)) =
      snd (find_by_id_and_update (db sy) (doc_id d) (\<lambda>u. u\<lparr>doc_avatarURL := Some url\<rparr>)))"
proof (cases fl)
  case None
  then show ?thesis by (simp add: avatar_body_def)
next
  case (Some f)
  obtain tmp n where f: "f = (tmp, n)" by fastforce
  show ?thesis
  proof (cases "fs_rename (fs sy) tmp (path_join [avatrs_dir (dirname sy), n])")
    case (Inl e)
    then show ?thesis using Some f by (simp add: avatar_body_def Let_def)
  next
    case (Inr files)
    have "db (snd (avatar_body sy d fl)) =
        snd (find_by_id_and_update (db sy) (doc_id d) (\<lambda>u. u\<lparr>doc_avatarURL := Some (path_join [''avatars'', n])\<rparr>))"
      using Some f Inr by (simp add: avatar_body_def Let_def split: prod.split option.split)
    then show ?thesis by blast
  qed
qed

lemma update_avatar_user_map:
  "user_map (db (snd (update_avatar x sy h up))) = user_map (db sy) \<or>
   (\<exists>t d url. bearer_token h = Some t \<and> verify_token x t = Some (doc_id d) \<and> user_map (db sy) (doc_id d) = Some d
      \<and> user_map (db (snd (update_avatar x sy h up))) = (user_map (db sy))(doc_id d \<mapsto> d\<lparr>doc_avatarURL := url\<rparr>))"
proof (cases "avatar_start x sy h up")
  case (Inl r)
  then show ?thesis by (cases r) (auto simp: update_avatar_def dest: avatar_start_Inl)
next
  case (Inr st)
  then obtain d fl sy' where s: "avatar_start x sy h up = Inr (d, fl, sy')" by (metis prod_cases3)
  note p = avatar_start_passport [OF s]
  have r: "db (snd (update_avatar x sy h up)) = db (snd (avatar_body sy' d fl))"
    using s by (simp add: update_avatar_def)
  show ?thesis
    using avatar_body_db [of sy' d fl]
  proof
    assume "db (snd (avatar_body sy' d fl)) = db sy'"
    then show ?thesis using r p by simp
  next
    assume "\<exists>url. db (snd (avatar_body sy' d fl)) =
        snd (find_by_id_and_update (db sy') (doc_id d) (\<lambda>u. u\<lparr>doc_avatarURL := Some url\<rparr>))"
    then obtain url where b: "db (snd (avatar_body sy' d fl)) =
        snd (find_by_id_and_update (db sy) (doc_id d) (\<lambda>u. u\<lparr>doc_avatarURL := Some url\<rparr>))"
      using p by auto
    show ?thesis
      using caller_update [OF conjunct1 [OF p], of "\<lambda>u. u\<lparr>doc_avatarURL := Some url\<rparr>"] r b by auto
  qed
qed

lemma originalname_me_png [simp]:
  "up_originalname \<lparr>up_field = f, up_name = ''me.png'', up_content = c\<rparr> = ''me.png''"
  by (simp add: up_originalname_def busboy_basename_def)

text \<open>
  The two directories of a deployment whose module directory \<open>__dirname\<close> is an
  absolute path of plain segments at least two deep (lines 13--14).
\<close>

lemma deployment_dirs:
  assumes pl: "list_all plain_name (ds @ [a, b])"
  shows "temp_dir (CHR ''/'' # js_join (CHR ''/'') (ds @ [a, b])) = CHR ''/'' # js_join (CHR ''/'') (ds @ [''temp''])"
    and "avatrs_dir (CHR ''/'' # js_join (CHR ''/'') (ds @ [a, b])) =
           CHR ''/'' # js_join (CHR ''/'') (ds @ [''public'', ''avatars''])"
proof -
  have ab: "a \<noteq> ''..''" "b \<noteq> ''..''" using pl by (simp_all add: plain_name_def)
  have t1: "js_join (CHR ''/'') [''../'', ''../'', ''temp''] = ''..//..//temp''"
    and h1: "hd ''..//..//temp'' \<noteq> CHR ''/'' \<and> last ''..//..//temp'' \<noteq> CHR ''/''"
    and sp1: "js_split (CHR ''/'') ''..//..//temp'' = [''..'', [], ''..'', [], ''temp'']"
    and t2: "js_join (CHR ''/'') [''../'', ''../'', ''public'', ''avatars''] = ''..//..//public/avatars''"
    and h2: "hd ''..//..//public/avatars'' \<noteq> CHR ''/'' \<and> last ''..//..//public/avatars'' \<noteq> CHR ''/''"
    and sp2: "js_split (CHR ''/'') ''..//..//public/avatars'' = [''..'', [], ''..'', [], ''public'', ''avatars'']"
    by code_simp+
  show "temp_dir (CHR ''/'' # js_join (CHR ''/'') (ds @ [a, b])) = CHR ''/'' # js_join (CHR ''/'') (ds @ [''temp''])"
    unfolding temp_dir_def
    using path_join_abs [of "ds @ [a, b]" "[''../'', ''../'', ''temp'']" "''..//..//temp''" "ds @ [''temp'']"]
      pl t1 h1 sp1 ab
    by (simp add: plain_name_def list_all_iff)
  show "avatrs_dir (CHR ''/'' # js_join (CHR ''/'') (ds @ [a, b])) =
      CHR ''/'' # js_join (CHR ''/'') (ds @ [''public'', ''avatars''])"
    unfolding avatrs_dir_def
    using path_join_abs [of "ds @ [a, b]" "[''../'', ''../'', ''public'', ''avatars'']" "''..//..//public/avatars''"
        "ds @ [''public'', ''avatars'']"] pl t2 h2 sp2 ab
    by (simp add: plain_name_def list_all_iff)
qed

text \<open>
  The only files the route changes are the temporary file and the destination, both
  named by the name busboy reported, which is then non-empty.
\<close>

lemma update_avatar_fs_changed:
  assumes "fs (snd (update_avatar x sy h (Some up))) q \<noteq> fs sy q"
  shows "up_originalname up \<noteq> [] \<and>
    (q = path_join [temp_dir (dirname sy), up_originalname up] \<or> q = path_join [avatrs_dir (dirname sy), up_originalname up])"
  using assms
  by (auto simp: update_avatar_defs multer_single_def avatar_body_def fs_rename_def Let_def
      split: sum.splits option.splits prod.splits if_splits)

text \<open>A directory of plain segments joined with a name busboy reported.\<close>

lemma path_join_dir_name:
  assumes "list_all plain_name ds" and "up_originalname up \<noteq> []" and "es \<noteq> []" "list_all plain_name es"
  shows "path_join [CHR ''/'' # js_join (CHR ''/'') (ds @ es), up_originalname up] =
      CHR ''/'' # js_join (CHR ''/'') (ds @ es @ [up_originalname up])"
proof -
  have p: "plain_name (up_originalname up)"
    using busboy_basename_plain assms(2) by (simp add: up_originalname_def)
  have "path_join [CHR ''/'' # js_join (CHR ''/'') (ds @ es), up_originalname up] =
      (CHR ''/'' # js_join (CHR ''/'') (ds @ es)) @ CHR ''/'' # up_originalname up"
    by (rule path_join_child [OF refl]) (use assms p in simp_all)
  also have "\<dots> = CHR ''/'' # js_join (CHR ''/'') ((ds @ es) @ [up_originalname up])"
    using js_join_append [of "ds @ es" "[up_originalname up]" "CHR ''/''"] assms(3) by simp
  finally show ?thesis by simp
qed

section \<open>Properties of the avatar route\<close>

subsection \<open>Avatar\<close>

text \<open>
  C12. An authenticated upload under the field \<open>avatar\<close> whose file name busboy
  reports non-empty answers 200 with the projection whose \<open>avatarURL\<close> is
  \<open>path.join("avatars", originalname)\<close>, leaves the file's bytes at
  \<open>path.join(avatrsDir, originalname)\<close>, and a following \<open>/current\<close> with the same
  token reports the new \<open>avatarURL\<close>.
\<close>

theorem avatar_update_current:
  assumes x: "ext_ok x" and d: "find_by_id (db sy) u = Some d" and f: "up_field up = ''avatar''"
    and n: "up_originalname up \<noteq> []"
    and r: "update_avatar x sy (bearer (sign_token x u)) (Some up) = (r, sy')"
  shows "r = Inr (Response 200 (Some (status_envelope (set_avatar up d))))
    \<and> doc_avatarURL (set_avatar up d) = Some (path_join [''avatars'', up_originalname up])
    \<and> fs sy' (path_join [avatrs_dir (dirname sy), up_originalname up]) = Some (up_content up)
    \<and> fst (current x (db sy') (bearer (sign_token x u))) =
          Inr (Response 200 (Some (JObj [(''token'', JStr (sign_token x u)), (''user'', user_view (set_avatar up d))])))"
proof -
  note ok = update_avatar_ok [OF x d f n]
  have sy': "r = Inr (Response 200 (Some (status_envelope (set_avatar up d))))"
    "sy' = sy\<lparr>db := snd (find_by_id_and_update (db sy) u (set_avatar up)), fs := upload_files sy up\<rparr>"
    using ok(1) r by simp_all
  have "user_map (db sy') u = Some (set_avatar up d)" using ok(2) sy'(2) by simp
  then have "current x (db sy') (bearer (sign_token x u)) =
      (Inr (Response 200 (Some (JObj [(''token'', JStr (sign_token x u)), (''user'', user_view (set_avatar up d))]))), db sy')"
    by (rule current_signed [OF x])
  then show ?thesis using sy' by (simp add: upload_files_def set_avatar_def Let_def)
qed

theorem avatar_update_current_witness:
  "fst (current demo_ext (db (snd (update_avatar demo_ext demo_sys (bearer ''t'')
      (Some \<lparr>up_field = ''avatar'', up_name = ''me.png'', up_content = ''PNG''\<rparr>)))) (bearer ''t'')) =
     Inr (Response 200 (Some (JObj [(''token'', JStr ''t''),
       (''user'', user_view (demo_doc\<lparr>doc_avatarURL := Some ''avatars/me.png''\<rparr>))])))"
proof -
  let ?up = "\<lparr>up_field = ''avatar'', up_name = ''me.png'', up_content = ''PNG''\<rparr>"
  have d: "find_by_id (db demo_sys) 0 = Some demo_doc"
    by (simp add: find_by_id_def demo_sys_def demo_store_def demo_doc_def)
  have f: "up_field ?up = ''avatar''" and n: "up_originalname ?up \<noteq> []" by simp_all
  have t: "sign_token demo_ext 0 = ''t''" by (simp add: demo_ext_def)
  have p: "path_join [''avatars'', ''me.png''] = ''avatars/me.png''" by code_simp
  have eq: "update_avatar demo_ext demo_sys (bearer (sign_token demo_ext 0)) (Some ?up) =
      (fst (update_avatar demo_ext demo_sys (bearer ''t'') (Some ?up)),
       snd (update_avatar demo_ext demo_sys (bearer ''t'') (Some ?up)))"
    by (simp add: t)
  show ?thesis using avatar_update_current [OF demo_ext_ok d f n eq] t p
    by (simp add: set_avatar_def)
qed

text \<open>
  C13. The route writes only inside its two directories, whatever file name the
  client sends. \<open>path.join(avatrsDir, originalname)\<close> (line 196) and the disk
  storage's \<open>path.join(tempDir, originalname)\<close> join the name unchecked, but busboy
  has already cut it to its last segment and emptied \<open>.\<close> and \<open>..\<close>, so in every
  deployment (\<open>__dirname\<close> an absolute path of plain segments at least two deep) the
  files the route changes are \<open>temp/<name>\<close> and \<open>public/avatars/<name>\<close> for that
  single segment: a name like \<open>../../routes/api/users.js\<close> cannot climb out.
\<close>

theorem avatar_upload_confined:
  assumes dn: "dirname sy = CHR ''/'' # js_join (CHR ''/'') (ds @ [a, b])"
    and pl: "list_all plain_name (ds @ [a, b])"
  shows "{q. fs (snd (update_avatar x sy h (Some up))) q \<noteq> fs sy q} \<subseteq>
           {CHR ''/'' # js_join (CHR ''/'') (ds @ [''temp'', up_originalname up]),
            CHR ''/'' # js_join (CHR ''/'') (ds @ [''public'', ''avatars'', up_originalname up])}"
proof
  fix q assume "q \<in> {q. fs (snd (update_avatar x sy h (Some up))) q \<noteq> fs sy q}"
  then have c: "up_originalname up \<noteq> []"
    "q = path_join [temp_dir (dirname sy), up_originalname up] \<or> q = path_join [avatrs_dir (dirname sy), up_originalname up]"
    using update_avatar_fs_changed by blast+
  have ds: "list_all plain_name ds" using pl by simp
  have "path_join [temp_dir (dirname sy), up_originalname up] = CHR ''/'' # js_join (CHR ''/'') (ds @ [''temp'', up_originalname up])"
    using deployment_dirs(1) [OF pl] path_join_dir_name [OF ds c(1), of "[''temp'']"] dn by (simp add: plain_name_def)
  moreover have "path_join [avatrs_dir (dirname sy), up_originalname up] =
      CHR ''/'' # js_join (CHR ''/'') (ds @ [''public'', ''avatars'', up_originalname up])"
    using deployment_dirs(2) [OF pl] path_join_dir_name [OF ds c(1), of "[''public'', ''avatars'']"] dn
    by (simp add: plain_name_def)
  ultimately show "q \<in> {CHR ''/'' # js_join (CHR ''/'') (ds @ [''temp'', up_originalname up]),
      CHR ''/'' # js_join (CHR ''/'') (ds @ [''public'', ''avatars'', up_originalname up])}"
    using c(2) by auto
qed

theorem avatar_upload_confined_witness:
  "{q. fs (snd (update_avatar demo_ext demo_sys (bearer ''t'')
      (Some \<lparr>up_field = ''avatar'', up_name = ''../../routes/api/users.js'', up_content = ''evil''\<rparr>))) q
       \<noteq> fs demo_sys q}
     \<subseteq> {''/srv/app/temp/users.js'', ''/srv/app/public/avatars/users.js''}
   \<and> fs (snd (update_avatar demo_ext demo_sys (bearer ''t'')
      (Some \<lparr>up_field = ''avatar'', up_name = ''../../routes/api/users.js'', up_content = ''evil''\<rparr>)))
      ''/srv/app/public/avatars/users.js'' = Some ''evil''"
proof -
  let ?up = "\<lparr>up_field = ''avatar'', up_name = ''../../routes/api/users.js'', up_content = ''evil''\<rparr>"
  have o: "up_originalname ?up = ''users.js''" by (simp add: up_originalname_def busboy_basename_def)
  have dn: "dirname demo_sys = CHR ''/'' # js_join (CHR ''/'') ([''srv'', ''app''] @ [''routes'', ''api''])"
    by (simp add: demo_sys_def)
  have pl: "list_all plain_name ([''srv'', ''app''] @ [''routes'', ''api''])" by (simp add: plain_name_def)
  have d: "find_by_id (db demo_sys) 0 = Some demo_doc"
    by (simp add: find_by_id_def demo_sys_def demo_store_def demo_doc_def)
  have t: "sign_token demo_ext 0 = ''t''" by (simp add: demo_ext_def)
  have dst: "path_join [avatrs_dir (dirname demo_sys), ''users.js''] = ''/srv/app/public/avatars/users.js''"
    by (simp add: demo_sys_def avatrs_dir_def) code_simp
  have w: "fs (snd (update_avatar demo_ext demo_sys (bearer ''t'') (Some ?up))) ''/srv/app/public/avatars/users.js'' = Some ''evil''"
    using update_avatar_ok(1) [OF demo_ext_ok d, of ?up] t o dst by (simp add: upload_files_def Let_def)
  show ?thesis
    using avatar_upload_confined [OF dn pl, of demo_ext "bearer ''t''" ?up] o w by simp
qed

text \<open>
  C14. Avatar files are named by the client's file name only: when a second user
  uploads a file that busboy reports under the same name, the first user's record
  still points at \<open>avatars/<name>\<close> but the file there now holds the second user's
  bytes.
\<close>

theorem avatar_overwrite:
  assumes x: "ext_ok x" and d1: "find_by_id (db sy) u1 = Some d1" and d2: "find_by_id (db sy) u2 = Some d2"
    and ne: "u1 \<noteq> u2" and f1: "up_field up1 = ''avatar''" and f2: "up_field up2 = ''avatar''"
    and n: "up_originalname up2 = up_originalname up1" and n1: "up_originalname up1 \<noteq> []"
    and sy1: "sy1 = snd (update_avatar x sy (bearer (sign_token x u1)) (Some up1))"
    and sy2: "sy2 = snd (update_avatar x sy1 (bearer (sign_token x u2)) (Some up2))"
  shows "user_map (db sy2) u1 = Some (set_avatar up1 d1)
    \<and> fs sy2 (path_join [avatrs_dir (dirname sy), up_originalname up1]) = Some (up_content up2)"
proof -
  note ok1 = update_avatar_ok [OF x d1 f1 n1]
  have s1: "db sy1 = snd (find_by_id_and_update (db sy) u1 (set_avatar up1))" "dirname sy1 = dirname sy"
    using ok1(1) sy1 by simp_all
  have m1: "user_map (db sy1) = (user_map (db sy))(u1 \<mapsto> set_avatar up1 d1)"
    using ok1(2) s1(1) by simp
  have d2': "find_by_id (db sy1) u2 = Some d2"
    using m1 d2 ne by (simp add: find_by_id_user_map)
  have n2: "up_originalname up2 \<noteq> []" using n n1 by simp
  note ok2 = update_avatar_ok [OF x d2' f2 n2]
  have "user_map (db sy2) = (user_map (db sy1))(u2 \<mapsto> set_avatar up2 d2)"
    using ok2 sy2 by simp
  moreover have "fs sy2 = upload_files sy1 up2" using ok2(1) sy2 by simp
  ultimately show ?thesis using m1 ne s1(2) n by (simp add: upload_files_def Let_def)
qed

theorem avatar_overwrite_witness:
  "user_map (db (snd (update_avatar demo_ext (snd (update_avatar demo_ext demo_sys2 (bearer ''t'')
        (Some \<lparr>up_field = ''avatar'', up_name = ''me.png'', up_content = ''ANN''\<rparr>))) (bearer ''tx'')
        (Some \<lparr>up_field = ''avatar'', up_name = ''photos/me.png'', up_content = ''BOB''\<rparr>)))) 0
     = Some (set_avatar \<lparr>up_field = ''avatar'', up_name = ''me.png'', up_content = ''ANN''\<rparr> demo_doc)
   \<and> fs (snd (update_avatar demo_ext (snd (update_avatar demo_ext demo_sys2 (bearer ''t'')
        (Some \<lparr>up_field = ''avatar'', up_name = ''me.png'', up_content = ''ANN''\<rparr>))) (bearer ''tx'')
        (Some \<lparr>up_field = ''avatar'', up_name = ''photos/me.png'', up_content = ''BOB''\<rparr>)))
        (path_join [avatrs_dir (dirname demo_sys2), ''me.png'']) = Some ''BOB''"
proof -
  have d1: "find_by_id (db demo_sys2) 0 = Some demo_doc"
    by (simp add: find_by_id_def demo_sys2_def demo_doc_def)
  have d2: "find_by_id (db demo_sys2) 1 = Some demo_doc2"
    by (simp add: find_by_id_def demo_sys2_def demo_doc_def demo_doc2_def)
  have t: "sign_token demo_ext 0 = ''t''" "sign_token demo_ext 1 = ''tx''" by (simp_all add: demo_ext_def)
  have o: "up_originalname \<lparr>up_field = ''avatar'', up_name = ''photos/me.png'', up_content = ''BOB''\<rparr> = ''me.png''"
    by (simp add: up_originalname_def busboy_basename_def)
  show ?thesis
    using avatar_overwrite [OF demo_ext_ok d1 d2, of "\<lparr>up_field = ''avatar'', up_name = ''me.png'', up_content = ''ANN''\<rparr>"
        "\<lparr>up_field = ''avatar'', up_name = ''photos/me.png'', up_content = ''BOB''\<rparr>"] t o
    by simp
qed

text \<open>
  C22. The error paths of the upload middleware and the handler: for an authenticated
  request without a file part, destructuring \<open>req.file\<close> throws a \<open>TypeError\<close>, and
  a named file under another field than \<open>avatar\<close> is refused by multer; in both
  cases nothing is written, the collection is unchanged, and the responder answers 500.
\<close>

theorem avatar_upload_errors:
  assumes "passport_authenticate x (db sy) h = Inr d"
  shows "update_avatar x sy h None =
      (Inl (TypeError ''Cannot destructure property 'path' of 'req.file' as it is undefined.''), sy)
    \<and> (up_field u \<noteq> ''avatar'' \<and> up_originalname u \<noteq> [] \<longrightarrow>
         update_avatar x sy h (Some u) = (Inl (MulterError ''Unexpected field''), sy))"
  using assms by (simp add: update_avatar_defs multer_single_def avatar_body_def)

theorem avatar_upload_errors_witness:
  "update_avatar demo_ext demo_sys (bearer ''t'') None =
      (Inl (TypeError ''Cannot destructure property 'path' of 'req.file' as it is undefined.''), demo_sys)
   \<and> update_avatar demo_ext demo_sys (bearer ''t'')
       (Some \<lparr>up_field = ''photo'', up_name = ''me.png'', up_content = ''PNG''\<rparr>) =
      (Inl (MulterError ''Unexpected field''), demo_sys)"
proof -
  have p: "passport_authenticate demo_ext (db demo_sys) (bearer ''t'') = Inr demo_doc"
    by (simp add: demo_sys_def demo_passport)
  show ?thesis
    using avatar_upload_errors [OF p, of "\<lparr>up_field = ''photo'', up_name = ''me.png'', up_content = ''PNG''\<rparr>"]
    by simp
qed

text \<open>
  C30. A file part whose name busboy empties (\<open>..\<close>, \<open>.\<close>, or a name ending in
  \<open>/\<close>) is dropped by multer whatever its field, so an authenticated upload of it
  behaves as one without a file: \<open>req.file\<close> is \<open>undefined\<close>, the handler throws the
  destructuring \<open>TypeError\<close>, and nothing is written.
\<close>

theorem avatar_empty_name_dropped:
  assumes "passport_authenticate x (db sy) h = Inr d" and "up_originalname u = []"
  shows "update_avatar x sy h (Some u) =
      (Inl (TypeError ''Cannot destructure property 'path' of 'req.file' as it is undefined.''), sy)"
  using assms by (simp add: update_avatar_defs multer_single_def avatar_body_def)

theorem avatar_empty_name_dropped_witness:
  "update_avatar demo_ext demo_sys (bearer ''t'')
       (Some \<lparr>up_field = ''avatar'', up_name = ''..'', up_content = ''PNG''\<rparr>) =
      (Inl (TypeError ''Cannot destructure property 'path' of 'req.file' as it is undefined.''), demo_sys)
   \<and> update_avatar demo_ext demo_sys (bearer ''t'')
       (Some \<lparr>up_field = ''photo'', up_name = ''pics/'', up_content = ''PNG''\<rparr>) =
      (Inl (TypeError ''Cannot destructure property 'path' of 'req.file' as it is undefined.''), demo_sys)"
proof -
  have p: "passport_authenticate demo_ext (db demo_sys) (bearer ''t'') = Inr demo_doc"
    by (simp add: demo_sys_def demo_passport)
  have o: "up_originalname \<lparr>up_field = ''avatar'', up_name = ''..'', up_content = ''PNG''\<rparr> = []"
    "up_originalname \<lparr>up_field = ''photo'', up_name = ''pics/'', up_content = ''PNG''\<rparr> = []"
    by (simp_all add: up_originalname_def busboy_basename_def)
  show ?thesis
    using avatar_empty_name_dropped [OF p o(1)] avatar_empty_name_dropped [OF p o(2)] by simp
qed

text \<open>
  C24. With a plain client file name (a single segment, which busboy passes through)
  and an avatars directory given by plain segments, an authenticated upload changes
  the file system only at the temporary file, which it removes, and at
  \<open><avatrsDir>/<name>\<close> directly inside the avatars directory, which it writes.
\<close>

theorem avatar_plain_name_contained:
  assumes x: "ext_ok x" and d: "find_by_id (db sy) u = Some d" and f: "up_field up = ''avatar''"
    and n: "plain_name (up_name up)"
    and dir: "avatrs_dir (dirname sy) = CHR ''/'' # js_join (CHR ''/'') ds" "ds \<noteq> []" "list_all plain_name ds"
  shows "fs (snd (update_avatar x sy (bearer (sign_token x u)) (Some up)))
           (avatrs_dir (dirname sy) @ CHR ''/'' # up_name up) = Some (up_content up)
    \<and> (\<forall>q. fs (snd (update_avatar x sy (bearer (sign_token x u)) (Some up))) q \<noteq> fs sy q \<longrightarrow>
           q = path_join [temp_dir (dirname sy), up_name up] \<or> q = avatrs_dir (dirname sy) @ CHR ''/'' # up_name up)"
proof -
  have o: "up_originalname up = up_name up"
    using busboy_basename_id [OF n] by (simp add: up_originalname_def)
  have ne: "up_originalname up \<noteq> []" using n o by (simp add: plain_name_def)
  have dst: "path_join [avatrs_dir (dirname sy), up_name up] = avatrs_dir (dirname sy) @ CHR ''/'' # up_name up"
    using path_join_child [OF dir n] .
  have "fs (snd (update_avatar x sy (bearer (sign_token x u)) (Some up))) = upload_files sy up"
    using update_avatar_ok(1) [OF x d f ne] by simp
  then show ?thesis using dst o by (auto simp: upload_files_def Let_def)
qed

theorem avatar_plain_name_contained_witness:
  "fs (snd (update_avatar demo_ext demo_sys (bearer ''t'')
       (Some \<lparr>up_field = ''avatar'', up_name = ''me.png'', up_content = ''PNG''\<rparr>)))
       ''/srv/app/public/avatars/me.png'' = Some ''PNG''
   \<and> fs (snd (update_avatar demo_ext demo_sys (bearer ''t'')
       (Some \<lparr>up_field = ''avatar'', up_name = ''me.png'', up_content = ''PNG''\<rparr>)))
       ''/srv/app/routes/api/users.js'' = fs demo_sys ''/srv/app/routes/api/users.js''"
proof -
  let ?up = "\<lparr>up_field = ''avatar'', up_name = ''me.png'', up_content = ''PNG''\<rparr>"
  have d: "find_by_id (db demo_sys) 0 = Some demo_doc"
    by (simp add: find_by_id_def demo_sys_def demo_store_def demo_doc_def)
  have t: "sign_token demo_ext 0 = ''t''" by (simp add: demo_ext_def)
  have n: "plain_name (up_name ?up)" by (simp add: plain_name_def)
  have dir: "avatrs_dir (dirname demo_sys) = CHR ''/'' # js_join (CHR ''/'') [''srv'', ''app'', ''public'', ''avatars'']"
    by (simp add: demo_sys_def avatrs_dir_def) code_simp
  have pl: "list_all plain_name [''srv'', ''app'', ''public'', ''avatars'']" by (simp add: plain_name_def)
  have tmp: "path_join [temp_dir (dirname demo_sys), up_name ?up] = ''/srv/app/temp/me.png''"
    by (simp add: demo_sys_def temp_dir_def) code_simp
  have a: "avatrs_dir (dirname demo_sys) @ CHR ''/'' # up_name ?up = ''/srv/app/public/avatars/me.png''"
    using dir by simp
  show ?thesis
    using avatar_plain_name_contained [OF demo_ext_ok d _ n dir _ pl] t a tmp by auto
qed

end
