(* ===== verification/Service.thy ===== *)
theory Service
  imports Avatar
begin

text \<open>
  The service as a whole: a request is one of the routes of
  \<open>src/routes/api/users.js\<close> with its inputs, and \<open>step\<close> runs it on the system
  state, turning the handler's error into the error responder's answer. The lemmas
  lift the per-route facts (frame, invariant, response keys) to every request;
  \<open>request_auth\<close> is the \<open>Authorization\<close> header a request carries, by which
  C32 states whose document a request may change.
\<close>

section \<open>Dispatch\<close>

datatype request =
    Register body_value body_value
  | Login body_value body_value
  | Logout "string option"
  | Current "string option"
  | UpdateSubscription "string option" body_value
  | UpdateAvatar "string option" "upload option"

definition on_db :: "sys \<Rightarrow> (app_error + response) \<times> store \<Rightarrow> response \<times> sys" where
  "on_db sy r = (respond (fst r), sy\<lparr>db := snd r\<rparr>)"

fun step :: "ext \<Rightarrow> sys \<Rightarrow> request \<Rightarrow> response \<times> sys" where
  "step x sy (Register e p) = on_db sy (register x (db sy) e p)"
| "step x sy (Login e p) = on_db sy (login x (db sy) e p)"
| "step x sy (Logout h) = on_db sy (logout x (db sy) h)"
| "step x sy (Current h) = on_db sy (current x (db sy) h)"
| "step x sy (UpdateSubscription h v) = on_db sy (update_subscription x (db sy) h v)"
| "step x sy (UpdateAvatar h up) = (let r = update_avatar x sy h up in (respond (fst r), snd r))"

lemmas route_defs [handler_defs] = register_defs login_def logout_def current_def
  update_subscription_def update_avatar_defs avatar_body_def multer_single_def

text \<open>
  The statuses each route can answer with. Against the route table of the
  specification: registration has no 201 and can answer 500, \<open>/logout\<close> can answer
  500, and neither PATCH route can answer 404.
\<close>

fun route_statuses :: "request \<Rightarrow> nat list" where
  "route_statuses (Register _ _) = [400, 409, 500]"
| "route_statuses (Login _ _) = [200, 400, 401, 500]"
| "route_statuses (Logout _) = [204, 401, 500]"
| "route_statuses (Current _) = [200, 401]"
| "route_statuses (UpdateSubscription _ _) = [200, 400, 401]"
| "route_statuses (UpdateAvatar _ _) = [200, 401, 500]"

text \<open>
  The \<open>Authorization\<close> header a request carries: the protected routes read it
  through \<open>passportAuthenticate\<close> and \<open>/logout\<close> reads it itself (line 113);
  registration and login carry none.
\<close>

fun request_auth :: "request \<Rightarrow> string option" where
  "request_auth (Register _ _) = None"
| "request_auth (Login _ _) = None"
| "request_auth (Logout h) = h"
| "request_auth (Current h) = h"
| "request_auth (UpdateSubscription h _) = h"
| "request_auth (UpdateAvatar h _) = h"

section \<open>Lemmas\<close>

lemma step_no_docs: "docs (db sy) = [] \<Longrightarrow> snd (step x sy r) = sy"
  by (cases r) (simp_all add: on_db_def register_keeps_store login_keeps_store logout_keeps_store
      current_keeps_store update_subscription_no_docs update_avatar_no_docs Let_def)

lemma step_inv: "store_inv (db sy) \<Longrightarrow> store_inv (db (snd (step x sy r)))"
  by (cases r) (simp_all add: on_db_def register_keeps_store login_keeps_store logout_keeps_store
      current_keeps_store update_subscription_inv update_avatar_inv Let_def)

lemma step_size: "store_size (db (snd (step x sy r))) = store_size (db sy)"
  by (cases r) (simp_all add: on_db_def register_keeps_store login_keeps_store logout_keeps_store
      current_keeps_store update_subscription_size update_avatar_size Let_def)

lemma step_status_no_docs:
  "docs (db sy) = [] \<Longrightarrow> response_status (fst (step x sy r)) \<in> {400, 401, 500}"
proof (cases r)
  case (Login e p)
  moreover assume "docs (db sy) = []"
  ultimately show ?thesis using login_status_no_docs [of "db sy" x e p]
    by (auto simp: on_db_def respond_def error_response_def split: sum.splits)
next
  case (Register e p)
  moreover assume "docs (db sy) = []"
  ultimately show ?thesis using register_status_no_docs [of "db sy" x e p] by (auto simp: on_db_def)
next
  case (Logout h)
  moreover assume "docs (db sy) = []"
  ultimately show ?thesis using logout_status_no_docs [of "db sy" x h] by (auto simp: on_db_def)
qed (simp_all add: on_db_def respond_def error_response_def current_def update_subscription_no_docs
       update_avatar_no_docs passport_authenticate_no_docs Let_def)

lemma step_ids: "map doc_id (docs (db (snd (step x sy r)))) = map doc_id (docs (db sy))"
  by (cases r) (simp_all add: on_db_def register_keeps_store login_keeps_store logout_keeps_store
      current_keeps_store update_subscription_ids update_avatar_ids Let_def)

lemma step_keys: "keys_ok (fst (step x sy r))"
  by (cases r) (auto simp: on_db_def Let_def intro!: respond_keys dest: register_keys login_keys
      logout_keys current_keys update_subscription_keys update_avatar_keys)

section \<open>Properties of the service\<close>

subsection \<open>Tokens and logout\<close>

text \<open>
  C15. On every route behind the middleware, a missing, malformed or unverifiable
  bearer token is answered with 401 and the system state is left unchanged.
\<close>

theorem bad_token_rejected:
  assumes "bearer_token h = None \<or> (\<exists>t. bearer_token h = Some t \<and> verify_token x t = None)"
  shows "step x sy (Current h) = (error_response unauthorized, sy)
    \<and> step x sy (UpdateSubscription h v) = (error_response unauthorized, sy)
    \<and> step x sy (UpdateAvatar h up) = (error_response unauthorized, sy)"
  using passport_bad_token [OF assms]
  by (simp add: on_db_def respond_def current_def update_subscription_def update_avatar_defs)

theorem bad_token_rejected_witness:
  "step demo_ext demo_sys (Current (Some ''Bearer zzz'')) = (error_response unauthorized, demo_sys)
   \<and> step demo_ext demo_sys (UpdateSubscription (Some ''Bearer zzz'') (Str ''pro'')) =
       (error_response unauthorized, demo_sys)
   \<and> step demo_ext demo_sys (UpdateAvatar (Some ''Bearer zzz'') None) = (error_response unauthorized, demo_sys)"
proof -
  have h: "bearer_token (Some ''Bearer zzz'') = None \<or>
      (\<exists>t. bearer_token (Some ''Bearer zzz'') = Some t \<and> verify_token demo_ext t = None)"
    by (simp add: bearer_token_def js_split_def demo_ext_def demo_verify_def)
  show ?thesis using bad_token_rejected [OF h] by blast
qed

text \<open>
  C16. \<open>/logout\<close> is not behind the middleware and reads
  \<open>req.headers.authorization.split(" ")\<close> directly: without an \<open>Authorization\<close> header
  it throws a \<open>TypeError\<close> and answers 500, where \<open>/current\<close> answers 401.
\<close>

theorem logout_missing_header:
  "step x sy (Logout None) =
     (Response 500 (Some (JObj [(''message'', JStr ''Cannot read properties of undefined (reading 'split')'')])), sy)
   \<and> response_status (fst (step x sy (Current None))) = 401"
  by (simp add: on_db_def respond_def error_response_def logout_def header_token_def current_def
      passport_authenticate_def bearer_token_def unauthorized_def)

text \<open>
  C17. Logout revokes nothing: with a token issued for a stored user it answers 204
  and leaves the state as it was, so the same token still opens \<open>/current\<close>.
\<close>

theorem logout_no_revocation:
  assumes x: "ext_ok x" and d: "find_by_id (db sy) u = Some d"
  shows "step x sy (Logout (bearer (sign_token x u))) = (Response 204 None, sy)
    \<and> step x (snd (step x sy (Logout (bearer (sign_token x u))))) (Current (bearer (sign_token x u))) =
        (Response 200 (Some (JObj [(''token'', JStr (sign_token x u)), (''user'', user_view d)])), sy)"
proof -
  have "logout x (db sy) (bearer (sign_token x u)) = (Inr (Response 204 None), db sy)"
    by (rule logout_signed [OF x d])
  moreover have "current x (db sy) (bearer (sign_token x u)) =
      (Inr (Response 200 (Some (JObj [(''token'', JStr (sign_token x u)), (''user'', user_view d)]))), db sy)"
    using current_signed [OF x] d by (simp add: find_by_id_user_map)
  ultimately show ?thesis by (simp add: on_db_def respond_def)
qed

theorem logout_no_revocation_witness:
  "step demo_ext demo_sys (Logout (bearer ''t'')) = (Response 204 None, demo_sys)
   \<and> step demo_ext (snd (step demo_ext demo_sys (Logout (bearer ''t'')))) (Current (bearer ''t'')) =
       (Response 200 (Some (JObj [(''token'', JStr ''t''), (''user'', user_view demo_doc)])), demo_sys)"
proof -
  have d: "find_by_id (db demo_sys) 0 = Some demo_doc"
    by (simp add: find_by_id_def demo_sys_def demo_store_def demo_doc_def)
  have t: "sign_token demo_ext 0 = ''t''" by (simp add: demo_ext_def)
  show ?thesis using logout_no_revocation [OF demo_ext_ok d] unfolding t .
qed

text \<open>
  C20. Every response of a route has one of the statuses of that route's row of
  \<open>route_statuses\<close>: registration answers only 400, 409 or 500, never 201; \<open>/logout\<close>
  answers 500 when the header is missing; and the two PATCH routes never answer 404,
  since the user the middleware loaded is found again by \<open>findByIdAndUpdate\<close>.
\<close>

theorem step_status:
  "response_status (fst (step x sy r)) \<in> set (route_statuses r)"
proof (cases r)
  case (Register e p)
  then show ?thesis using register_status [of x "db sy" e p] by (simp add: on_db_def)
next
  case (Login e p)
  then show ?thesis using login_status [of x "db sy" e p] by (simp add: on_db_def)
next
  case (Logout h)
  then show ?thesis using logout_status [of x "db sy" h] by (simp add: on_db_def)
next
  case (Current h)
  then show ?thesis using current_status [of x "db sy" h] by (simp add: on_db_def)
next
  case (UpdateSubscription h v)
  then show ?thesis using update_subscription_status [of x "db sy" h v] by (simp add: on_db_def)
next
  case (UpdateAvatar h up)
  then show ?thesis using update_avatar_status [of x sy h up] by (simp add: Let_def)
qed

text \<open>
  C32. A request changes the stored users only on behalf of the user its bearer token
  names: if the map from ids to documents changes, the request's
  \<open>Authorization\<close> header holds a bearer token that verifies to the id of a stored
  user, only that user's document changes, and only in its \<open>subscription\<close> and
  \<open>avatarURL\<close>. No request changes another user's document, an address, a password
  or a verification token.
\<close>

theorem step_writes_only_caller:
  assumes "user_map (db (snd (step x sy r))) \<noteq> user_map (db sy)"
  shows "\<exists>t u d sub url. bearer_token (request_auth r) = Some t \<and> verify_token x t = Some u
    \<and> user_map (db sy) u = Some d
    \<and> user_map (db (snd (step x sy r))) =
        (user_map (db sy))(u \<mapsto> d\<lparr>doc_subscription := sub, doc_avatarURL := url\<rparr>)"
proof (cases r)
  case (UpdateSubscription h v)
  then obtain t d sub where "bearer_token h = Some t" "verify_token x t = Some (doc_id d)"
      "user_map (db sy) (doc_id d) = Some d"
      "user_map (db (snd (step x sy r))) = (user_map (db sy))(doc_id d \<mapsto> d\<lparr>doc_subscription := sub\<rparr>)"
    using update_subscription_user_map [of x "db sy" h v] assms by (auto simp: on_db_def)
  moreover have "d\<lparr>doc_subscription := sub\<rparr> = d\<lparr>doc_subscription := sub, doc_avatarURL := doc_avatarURL d\<rparr>"
    by simp
  ultimately show ?thesis using UpdateSubscription by (metis request_auth.simps(5))
next
  case (UpdateAvatar h up)
  then obtain t d url where "bearer_token h = Some t" "verify_token x t = Some (doc_id d)"
      "user_map (db sy) (doc_id d) = Some d"
      "user_map (db (snd (step x sy r))) = (user_map (db sy))(doc_id d \<mapsto> d\<lparr>doc_avatarURL := url\<rparr>)"
    using update_avatar_user_map [of x sy h up] assms by (auto simp: Let_def)
  moreover have "d\<lparr>doc_avatarURL := url\<rparr> = d\<lparr>doc_subscription := doc_subscription d, doc_avatarURL := url\<rparr>"
    by simp
  ultimately show ?thesis using UpdateAvatar by (metis request_auth.simps(6))
qed (use assms in \<open>simp_all add: on_db_def register_keeps_store login_keeps_store logout_keeps_store
      current_keeps_store\<close>)

theorem step_writes_only_caller_witness:
  "user_map (db (snd (step demo_ext demo_sys (UpdateSubscription (bearer ''t'') (Str ''business''))))) \<noteq>
     user_map (db demo_sys)
   \<and> (\<exists>sub url. user_map (db (snd (step demo_ext demo_sys (UpdateSubscription (bearer ''t'') (Str ''business''))))) =
        (user_map (db demo_sys))(0 \<mapsto> demo_doc\<lparr>doc_subscription := sub, doc_avatarURL := url\<rparr>))"
proof -
  let ?r = "UpdateSubscription (bearer ''t'') (Str ''business'')"
  have p: "passport_authenticate demo_ext (db demo_sys) (bearer ''t'') = Inr demo_doc"
    by (simp add: demo_sys_def demo_passport)
  have i: "js_includes allowed_subscriptions (Str ''business'')"
    by (simp add: js_includes_def allowed_subscriptions_def)
  have u: "find_by_id_and_update (db demo_sys) 0 (\<lambda>w. w\<lparr>doc_subscription := Some ''business''\<rparr>) =
      (Some (demo_doc\<lparr>doc_subscription := Some ''business''\<rparr>),
       \<lparr>docs = [demo_doc\<lparr>doc_subscription := Some ''business''\<rparr>], next_id = 1\<rparr>)"
    by (simp add: find_by_id_and_update_def demo_sys_def demo_store_def demo_doc_def find_by_id_def)
  have m: "user_map (db (snd (step demo_ext demo_sys ?r))) = [0 \<mapsto> demo_doc\<lparr>doc_subscription := Some ''business''\<rparr>]"
    using p i u by (simp add: on_db_def update_subscription_def demo_doc_def user_map_def)
  have m0: "user_map (db demo_sys) 0 = Some demo_doc"
    by (simp add: user_map_def demo_sys_def demo_store_def demo_doc_def)
  have "user_map (db (snd (step demo_ext demo_sys ?r))) 0 \<noteq> user_map (db demo_sys) 0"
    unfolding m m0 by (simp add: demo_doc_def)
  then have ne: "user_map (db (snd (step demo_ext demo_sys ?r))) \<noteq> user_map (db demo_sys)" by metis
  obtain t u d sub url where w: "verify_token demo_ext t = Some u" "bearer_token (request_auth ?r) = Some t"
      "user_map (db demo_sys) u = Some d"
      "user_map (db (snd (step demo_ext demo_sys ?r))) = (user_map (db demo_sys))(u \<mapsto> d\<lparr>doc_subscription := sub, doc_avatarURL := url\<rparr>)"
    using step_writes_only_caller [OF ne] by blast
  have "t = ''t''" using w(2) by (simp add: demo_bearer)
  then have "u = 0" using w(1) by (simp add: demo_ext_def demo_verify_def)
  then show ?thesis using ne w m0 by auto
qed

end
