(* ===== verification/Concurrency.thy ===== *)
theory Concurrency
  imports Service
begin

text \<open>
  Requests are served concurrently: a handler suspends at each \<open>await\<close>, and other
  requests run in between. This theory models the route where that matters: an
  avatar upload suspends after its middlewares have written the file part to the
  shared temp directory and before the handler body moves it with \<open>fs.rename\<close>. The
  model is a state of the shared data and of the uploads in flight, and an inductive
  step relation that starts or finishes one of them or runs any other request
  atomically in between. (Registration also awaits between its existence check and
  its insert, but since every insert fails validation, no interleaving of
  registrations changes the collection; see \<open>Handlers.register_never_succeeds\<close>.)
\<close>

section \<open>Concurrent avatar uploads\<close>

text \<open>
  An avatar upload in flight: the user the middleware loaded and \<open>req.file\<close>, waiting
  for its handler body (\<open>fs.rename\<close>, then \<open>findByIdAndUpdate\<close>). A step starts an
  upload (both middlewares, the temp file written), finishes one on the state as it
  is then, or runs any other request.
\<close>

record ustate =
  usys :: sys
  uploads :: "(user_doc \<times> (string \<times> string) option) list"

inductive ustep :: "ext \<Rightarrow> ustate \<Rightarrow> ustate \<Rightarrow> bool" for x :: ext where
  start: "avatar_start x (usys u) h up = Inr (d, file, sy') \<Longrightarrow>
     ustep x u \<lparr>usys = sy', uploads = uploads u @ [(d, file)]\<rparr>"
| finish: "(d, file) \<in> set (uploads u) \<Longrightarrow>
     ustep x u \<lparr>usys = snd (avatar_body (usys u) d file), uploads = remove1 (d, file) (uploads u)\<rparr>"
| other: "ustep x u (u\<lparr>usys := snd (step x (usys u) r)\<rparr>)"

text \<open>
  The invariant of the upload model: the collection keeps the store invariant, and
  the user of every upload in flight is still stored.
\<close>

definition upload_inv :: "ustate \<Rightarrow> bool" where
  "upload_inv u = (store_inv (db (usys u))
     \<and> list_all (\<lambda>(d, f). doc_id d \<in> set (map doc_id (docs (db (usys u))))) (uploads u))"

section \<open>Lemmas\<close>

lemma ustep_upload_inv: "ustep x u u' \<Longrightarrow> upload_inv u \<Longrightarrow> upload_inv u'"
proof (induction rule: ustep.induct)
  case (start u h up d fl sy')
  then have "db sy' = db (usys u)" and "find_by_id (db (usys u)) (doc_id d) = Some d"
    using avatar_start_Inr by blast+
  with start.prems show ?case by (auto simp: upload_inv_def dest: find_by_id_Some)
next
  case (finish d fl u)
  have "set (remove1 (d, fl) (uploads u)) \<subseteq> set (uploads u)" by (rule set_remove1_subset)
  with finish.prems show ?case
    by (auto simp: upload_inv_def avatar_body_inv avatar_body_ids list_all_iff)
next
  case (other u r)
  then show ?case by (simp add: upload_inv_def step_inv step_ids)
qed

lemma ustep_star_upload_inv: "(ustep x)\<^sup>*\<^sup>* u u' \<Longrightarrow> upload_inv u \<Longrightarrow> upload_inv u'"
  by (induction rule: rtranclp_induct) (auto intro: ustep_upload_inv)

section \<open>Properties\<close>

text \<open>
  C28. Two users upload files that busboy reports under the same name at once. Both middlewares write
  \<open>temp/<name>\<close>, the second overwriting the first; the first handler body then moves
  the second user's bytes into \<open>avatars/<name>\<close> and records that path for the first
  user, and the second handler body's \<open>fs.rename\<close> finds no temp file and fails with
  \<open>ENOENT\<close> (answered 500), leaving the second user's record as it was.
\<close>

theorem concurrent_upload_race:
  fixes up1 up2 :: upload
  assumes x: "ext_ok x" and d1: "find_by_id (db sy) u1 = Some d1" and d2: "find_by_id (db sy) u2 = Some d2"
    and f1: "up_field up1 = ''avatar''" and f2: "up_field up2 = ''avatar''" and n: "up_originalname up2 = up_originalname up1"
    and n1: "up_originalname up1 \<noteq> []"
    and ne: "u1 \<noteq> u2"
    and tmp: "tmp = path_join [temp_dir (dirname sy), up_originalname up1]"
    and dst: "dst = path_join [avatrs_dir (dirname sy), up_originalname up1]" and td: "tmp \<noteq> dst"
    and sy3: "sy3 = sy\<lparr>db := snd (find_by_id_and_update (db sy) u1 (set_avatar up1)),
                        fs := ((fs sy)(tmp := None))(dst \<mapsto> up_content up2)\<rparr>"
  shows "(ustep x)\<^sup>*\<^sup>* \<lparr>usys = sy, uploads = []\<rparr> \<lparr>usys = sy3, uploads = [(d2, Some (tmp, up_originalname up1))]\<rparr>
    \<and> avatar_body sy3 d2 (Some (tmp, up_originalname up1)) =
        (Inl (FsError ''ENOENT: no such file or directory, rename''), sy3)
    \<and> user_map (db sy3) u1 = Some (set_avatar up1 d1) \<and> user_map (db sy3) u2 = Some d2
    \<and> fs sy3 dst = Some (up_content up2) \<and> fs sy3 tmp = None"
proof -
  have i1: "doc_id d1 = u1" and i2: "doc_id d2 = u2" using find_by_id_Some d1 d2 by blast+
  define sy1 where "sy1 = sy\<lparr>fs := (fs sy)(tmp \<mapsto> up_content up1)\<rparr>"
  define sy2 where "sy2 = sy\<lparr>fs := (fs sy)(tmp \<mapsto> up_content up2)\<rparr>"
  let ?f1 = "(d1, Some (tmp, up_originalname up1))" and ?f2 = "(d2, Some (tmp, up_originalname up1))"
  have s1: "ustep x \<lparr>usys = sy, uploads = []\<rparr> \<lparr>usys = sy1, uploads = [?f1]\<rparr>"
    using ustep.start [of x "\<lparr>usys = sy, uploads = []\<rparr>"] avatar_start_signed [OF x d1 f1 n1] tmp
    unfolding sy1_def by simp
  have d2': "find_by_id (db sy1) u2 = Some d2" using d2 by (simp add: sy1_def)
  have n2: "up_originalname up2 \<noteq> []" using n n1 by simp
  have s2: "ustep x \<lparr>usys = sy1, uploads = [?f1]\<rparr> \<lparr>usys = sy2, uploads = [?f1, ?f2]\<rparr>"
    using ustep.start [of x "\<lparr>usys = sy1, uploads = [?f1]\<rparr>"] avatar_start_signed [OF x d2' f2 n2] tmp n
    unfolding sy1_def sy2_def by simp
  have m1: "user_map (db sy3) = (user_map (db sy))(u1 \<mapsto> set_avatar up1 d1)"
    using user_map_find_by_id_and_update(2) [OF d1, of "set_avatar up1"] sy3 by (simp add: set_avatar_def)
  have b1: "avatar_body sy2 d1 (Some (tmp, up_originalname up1)) =
      (Inr (Response 200 (Some (status_envelope (set_avatar up1 d1)))), sy3)"
    using avatar_body_moved [of sy2 tmp "up_content up2" d1 "up_originalname up1"] d1 i1 sy3 tmp dst
    unfolding sy2_def by (simp add: set_avatar_fun)
  have s3: "ustep x \<lparr>usys = sy2, uploads = [?f1, ?f2]\<rparr> \<lparr>usys = sy3, uploads = [?f2]\<rparr>"
    using ustep.finish [of d1 "Some (tmp, up_originalname up1)" "\<lparr>usys = sy2, uploads = [?f1, ?f2]\<rparr>" x] b1 ne i1 i2
    by auto
  have b2: "avatar_body sy3 d2 (Some (tmp, up_originalname up1)) =
      (Inl (FsError ''ENOENT: no such file or directory, rename''), sy3)"
    using sy3 td by (simp add: avatar_body_def fs_rename_def)
  have "(ustep x)\<^sup>*\<^sup>* \<lparr>usys = sy, uploads = []\<rparr> \<lparr>usys = sy3, uploads = [?f2]\<rparr>"
    using s1 s2 s3 by (meson rtranclp.rtrancl_into_rtrancl rtranclp.rtrancl_refl)
  with b2 m1 ne d2 sy3 td show ?thesis by (simp add: find_by_id_user_map)
qed

theorem concurrent_upload_race_witness:
  "\<exists>sy3. (ustep demo_ext)\<^sup>*\<^sup>* \<lparr>usys = demo_sys2, uploads = []\<rparr>
        \<lparr>usys = sy3, uploads = [(demo_doc2, Some (''/srv/app/temp/me.png'', ''me.png''))]\<rparr>
     \<and> fst (avatar_body sy3 demo_doc2 (Some (''/srv/app/temp/me.png'', ''me.png''))) =
         Inl (FsError ''ENOENT: no such file or directory, rename'')
     \<and> fs sy3 ''/srv/app/public/avatars/me.png'' = Some ''BOB''
     \<and> user_map (db sy3) 1 = Some demo_doc2"
proof -
  let ?up1 = "\<lparr>up_field = ''avatar'', up_name = ''me.png'', up_content = ''ANN''\<rparr>"
  let ?up2 = "\<lparr>up_field = ''avatar'', up_name = ''me.png'', up_content = ''BOB''\<rparr>"
  have d1: "find_by_id (db demo_sys2) 0 = Some demo_doc"
    by (simp add: find_by_id_def demo_sys2_def demo_doc_def)
  have d2: "find_by_id (db demo_sys2) 1 = Some demo_doc2"
    by (simp add: find_by_id_def demo_sys2_def demo_doc_def demo_doc2_def)
  have dn: "dirname demo_sys2 = ''/srv/app/routes/api''" by (simp add: demo_sys2_def demo_sys_def)
  have tmp: "''/srv/app/temp/me.png'' = path_join [temp_dir (dirname demo_sys2), up_originalname ?up1]"
    unfolding dn by (simp add: temp_dir_def) code_simp
  have dst: "''/srv/app/public/avatars/me.png'' = path_join [avatrs_dir (dirname demo_sys2), up_originalname ?up1]"
    unfolding dn by (simp add: avatrs_dir_def) code_simp
  have td: "''/srv/app/temp/me.png'' \<noteq> ''/srv/app/public/avatars/me.png''" by simp
  have f1: "up_field ?up1 = ''avatar''" and f2: "up_field ?up2 = ''avatar''" and n: "up_originalname ?up2 = up_originalname ?up1"
    and n1: "up_originalname ?up1 \<noteq> []"
    and ne: "(0::nat) \<noteq> 1" by simp_all
  note r = concurrent_upload_race [OF demo_ext_ok d1 d2 f1 f2 n n1 ne tmp dst td refl]
  show ?thesis using r by auto
qed

text \<open>
  C29. Under any interleaving of avatar uploads with each other and with any other
  requests, from a collection with the store invariant and no upload in flight, the
  invariant holds and the user of every upload in flight is still stored: the
  not-found branch of the handler body (line 208) stays dead under concurrency too.
\<close>

theorem concurrent_upload_inv:
  assumes "(ustep x)\<^sup>*\<^sup>* u u'" and "store_inv (db (usys u))" and "uploads u = []"
  shows "store_inv (db (usys u'))
    \<and> list_all (\<lambda>(d, f). find_by_id (db (usys u')) (doc_id d) \<noteq> None) (uploads u')"
proof -
  have "upload_inv u" using assms(2,3) by (simp add: upload_inv_def)
  with assms(1) have "upload_inv u'" by (rule ustep_star_upload_inv)
  then show ?thesis by (auto simp: upload_inv_def find_by_id_None_iff list_all_iff)
qed

theorem concurrent_upload_inv_witness:
  "\<exists>u'. (ustep demo_ext)\<^sup>*\<^sup>* \<lparr>usys = demo_sys, uploads = []\<rparr> u'
     \<and> uploads u' = [(demo_doc, Some (path_join [temp_dir (dirname demo_sys), ''me.png''], ''me.png''))]
     \<and> store_inv (db (usys u'))
     \<and> list_all (\<lambda>(d, f). find_by_id (db (usys u')) (doc_id d) \<noteq> None) (uploads u')"
proof -
  let ?up = "\<lparr>up_field = ''avatar'', up_name = ''me.png'', up_content = ''PNG''\<rparr>"
  let ?u0 = "\<lparr>usys = demo_sys, uploads = []\<rparr>"
  have d: "find_by_id (db demo_sys) 0 = Some demo_doc"
    by (simp add: find_by_id_def demo_sys_def demo_store_def demo_doc_def)
  have t: "sign_token demo_ext 0 = ''t''" by (simp add: demo_ext_def)
  let ?u1 = "\<lparr>usys = demo_sys\<lparr>fs := (fs demo_sys)(path_join [temp_dir (dirname demo_sys), ''me.png''] \<mapsto> ''PNG'')\<rparr>,
              uploads = [(demo_doc, Some (path_join [temp_dir (dirname demo_sys), ''me.png''], ''me.png''))]\<rparr>"
  have s: "ustep demo_ext ?u0 ?u1"
    using ustep.start [of demo_ext ?u0] avatar_start_signed [OF demo_ext_ok d, of ?up] by simp
  then have run: "(ustep demo_ext)\<^sup>*\<^sup>* ?u0 ?u1" by simp
  have i: "store_inv (db (usys ?u0))" by (simp add: demo_sys_def demo_store_inv)
  show ?thesis using concurrent_upload_inv [OF run i] run by auto
qed

end
