(* ===== verification/Email.thy ===== *)
theory Email
  imports Prelim
begin

text \<open>
  The verification-email sender \<open>sendVerificationEmail\<close> of
  \<open>src/routes/midleware/sendEmail.js\<close>: a fixed SMTP transport configuration, a
  verification link built from the token, a fixed mail template, and one call of the
  transport's \<open>sendMail\<close>, whose callback rejects the returned promise with the
  transport's error or resolves it with the server's response. The transport is a
  parameter (\<open>send\<close>): its outcome is \<open>Inl\<close> of an error or \<open>Inr\<close> of the response.
  No route of the repository calls this function.
\<close>

record smtp_config =
  smtp_host :: string
  smtp_port :: nat
  smtp_user :: string
  smtp_pass :: string

record mail_options =
  mail_from :: string
  mail_to :: string
  mail_subject :: string
  mail_text :: string

text \<open>\<open>nodemailer.createTransport({...})\<close> (lines 4--11).\<close>

definition transport_config :: smtp_config where
  "transport_config = \<lparr>smtp_host = ''smtp.ethereal.email'', smtp_port = 587,
     smtp_user = ''lulu.wiegand@ethereal.email'', smtp_pass = ''53nDtHFA6QYPcJSh3K''\<rparr>"

definition verify_link_prefix :: string where
  "verify_link_prefix = ''http://localhost:3000/auth/verify/''"

text \<open>The template literal of line 12.\<close>

definition verification_link :: "string \<Rightarrow> string" where
  "verification_link tok = verify_link_prefix @ tok"

definition mail_text_prefix :: string where
  "mail_text_prefix = ''Click the following link to verify your email: ''"

text \<open>\<open>mailOptions\<close> (lines 14--19).\<close>

definition mail_options_of :: "string \<Rightarrow> string \<Rightarrow> mail_options" where
  "mail_options_of email tok = \<lparr>mail_from = ''your_email@gmail.com'', mail_to = email,
     mail_subject = ''Email Verification'', mail_text = mail_text_prefix @ verification_link tok\<rparr>"

text \<open>
  The whole function (lines 3--30): one \<open>sendMail\<close> with the fixed configuration;
  \<open>reject(error)\<close> is \<open>Inl\<close>, \<open>resolve(info.response)\<close> is \<open>Inr\<close>.
\<close>

definition send_verification_email ::
  "(smtp_config \<Rightarrow> mail_options \<Rightarrow> string + string) \<Rightarrow> string \<Rightarrow> string \<Rightarrow> string + string" where
  "send_verification_email send email tok =
     (case send transport_config (mail_options_of email tok) of
        Inl err \<Rightarrow> Inl err
      | Inr info_response \<Rightarrow> Inr info_response)"

end
