(* ===== verification/Spec2Isabelle.thy ===== *)
theory Spec2Isabelle
  imports Prelim Validation Store Auth Paths Handlers Avatar Service Concurrency Email
begin

text \<open>
  \<^bold>\<open>A model of the users service of nodejs-homework-REST-API.\<close>

  The program is an Express router, \<open>src/routes/api/users.js\<close>, over a Mongoose model
  of a \<open>users\<close> collection, \<open>src/db/usersSchema.js\<close>, with a mail helper,
  \<open>src/routes/midleware/sendEmail.js\<close>. The router validates request bodies with Joi
  (\<open>validateUser\<close>), reads and writes the collection, hashes and compares passwords
  with bcrypt, signs and verifies tokens with the \<open>./auth\<close> module, authenticates the
  protected routes with the \<open>passportAuthenticate\<close> middleware, and stores avatars
  uploaded with multer under \<open>public/avatars\<close>. Every handler ends with \<open>res.json\<close>
  or passes its error to the central error responder.

  \<^bold>\<open>Theories.\<close>
  \<^item> \<open>Prelim\<close>: the JavaScript values the handlers see (\<open>body_value\<close> for a field of
    \<open>req.body\<close>, \<open>json\<close> for a response), the error type \<open>app_error\<close> (every
    throw and rejected promise of the handlers is a value \<open>Inl e\<close> of
    \<open>app_error + _\<close>), and the string primitives \<open>String.prototype.split\<close>
    (\<open>js_split\<close>), \<open>join\<close> and the array read \<open>xs[i]\<close> (\<open>js_index\<close>); and the
    ECMA-262 algorithm of \<open>split\<close> (\<open>ecma_split\<close>: the \<open>StringIndexOf\<close> scan
    \<open>index_of\<close> and the outer loop \<open>split_loop\<close>), which \<open>js_split\<close> is proved to
    compute (\<open>ecma_split_eq\<close>), so that the handlers' reading of the header rests on
    the language's own definition.
  \<^item> \<open>Validation\<close>: \<open>validateUser\<close> (users.js lines 27--38) as \<open>validate_user\<close>,
    which returns the first Joi error in Joi's order, and \<open>joi_message\<close>, the
    message the handlers send with 400.
  \<^item> \<open>Store\<close>: the schema (usersSchema.js) as the record \<open>user_doc\<close> and
    \<open>schema_errors\<close> (required fields, where \<open>""\<close> counts as missing, the
    subscription enum, and the defaults of \<open>new_doc\<close>); the collection as the record
    \<open>store\<close> (a list of documents and the next id) with \<open>User.findOne\<close>
    (\<open>find_by_email\<close>), \<open>findById\<close> (\<open>find_by_id\<close>), \<open>User.create\<close>
    (\<open>user_create\<close>: validation, then the unique index on \<open>email\<close>, then the insert)
    and \<open>findByIdAndUpdate\<close> with \<open>new: true\<close> and no validators
    (\<open>find_by_id_and_update\<close>). \<open>store_inv\<close> is the invariant (distinct ids below the
    counter, distinct addresses, valid documents) and \<open>user_map\<close> the abstraction to a
    map from ids to documents.
  \<^item> \<open>Auth\<close>: bcrypt, the token functions and gravatar, which the repository calls but
    does not contain, as the record \<open>ext\<close> of functions with the contract
    \<open>ext_ok\<close>; the handler theorems hold for every \<open>x\<close> with \<open>ext_ok x\<close>, and
    \<open>demo_ext\<close> is a concrete instance used by the examples. It also holds the two
    readings of the \<open>Authorization\<close> header and \<open>passport_authenticate\<close>.
  \<^item> \<open>Paths\<close>: POSIX \<open>path.join\<close> and \<open>path.normalize\<close> (\<open>path_join\<close>,
    \<open>path_normalize\<close>), used for the temp and avatar directories and the stored
    \<open>avatarURL\<close>.
  \<^item> \<open>Email\<close>: \<open>sendEmail\<close> (sendEmail.js lines 3--30): the transport options, the
    message, and the call of the transport as a parameter. No route calls it, so no
    property of the service involves it.
  \<^item> \<open>Handlers\<close>: one definition per JSON route of users.js, taking the collection
    and returning the outcome and the new collection: \<open>register\<close> (lines 41--76,
    split at its awaits into \<open>register_check\<close> and \<open>register_finish\<close>), \<open>login\<close>
    (79--108), \<open>logout\<close> (111--126), \<open>current\<close> (129--149) and
    \<open>update_subscription\<close> (152--184). \<open>respond\<close> and \<open>error_response\<close> model the
    error responder.
  \<^item> \<open>Avatar\<close>: the route \<open>update_avatar\<close> (187--224) over the record \<open>sys\<close> (the
    collection, the file system and \<open>__dirname\<close>), with the multer disk storage
    \<open>multer_single\<close> (16--25), \<open>fs_rename\<close> and the handler body \<open>avatar_body\<close>;
    \<open>avatar_start\<close> is the part before the handler body (the two middlewares). The
    client's file name reaches the handler as multer's \<open>originalname\<close>, which busboy
    has cut to its last segment (\<open>busboy_basename\<close>, \<open>up_originalname\<close>); multer drops
    a file part whose name is then empty.
  \<^item> \<open>Service\<close>: the \<open>request\<close> datatype and \<open>step\<close>, which dispatches a request to its
    route on the system state, with the status table \<open>route_statuses\<close>.
  \<^item> \<open>Concurrency\<close>: avatar uploads interleaved at their \<open>await\<close>: \<open>ustep\<close> over
    \<open>ustate\<close>, uploads that suspend between \<open>avatar_start\<close> (the temp file written)
    and \<open>avatar_body\<close>, interleaved with each other and with any other request.
    Registrations are not interleaved: every insert fails validation (C1), so no
    interleaving of them changes the collection.
  \<^item> This theory: \<open>run\<close>, a sequence of requests served one after another from a
    state, and \<open>reachable\<close>, the states a fresh deployment (\<open>init_sys\<close>, an empty
    collection) reaches.

  \<^bold>\<open>What is proved.\<close>
  \<^item> Registration: it never succeeds, because \<open>User.create\<close> is called without the
    required \<open>verificationToken\<close> (C1), with the outcome of every branch (C2).
    Consequently a fresh deployment never holds a user or changes a file (C3), and
    login, \<open>/current\<close> and the PATCH routes always fail there (C4); from a fresh
    deployment every answer to any sequence of requests is 400, 401 or 500 (C26).
  \<^item> Login: success on a stored user with the right password (C5), one 401 for an
    unknown address and for a wrong password (C6), the literal \<open>starter\<close> in the
    answer (C7); a login token opens \<open>/current\<close> for the same user (C21); on a
    collection with the invariant login never reaches its 500 branch (C27).
  \<^item> Whole service: no response has a \<open>password\<close> member (C8), but a password that
    fails the pattern is quoted back in the 400 message of \<open>/register\<close> and
    \<open>/login\<close> (C31); every sequence of requests keeps \<open>store_inv\<close> (C9) and fixes the
    size of the collection and its id counter (C23); each route answers only the
    statuses of its row of \<open>route_statuses\<close>, so registration never answers 201 and
    the 404 branches of the PATCH routes are dead (C20).
  \<^item> Subscription: the new value persists (C10), other values are refused (C11).
  \<^item> Avatar: an uploaded avatar is stored and reported (C12); whatever name the client
    sends, the route changes only \<open>temp/<name>\<close> and \<open>public/avatars/<name>\<close> for a
    single segment \<open><name>\<close> (C13), and a plain name lands directly in the avatars
    directory (C24); two users uploading the same name share one file (C14); the
    missing-file and wrong-field errors change nothing (C22), and neither does a file
    whose name busboy empties, which is answered like a missing file (C30).
  \<^item> Authorization: a request changes the stored users only on behalf of the user
    its bearer token names, and only that user's subscription and \<open>avatarURL\<close>
    (C32).
  \<^item> Authentication: a bad token gets 401 with no change (C15); \<open>/logout\<close> without a
    header answers 500 (C16), does not revoke the token (C17), and accepts a token
    under any scheme, where the middleware accepts only \<open>Bearer\<close> (C25).
  \<^item> Validation: the accepted inputs (C18) and the order of the password errors (C19).
  \<^item> Concurrent uploads: two uploads of the same name at once give the first user the
    second user's bytes and answer the second with 500 (C28); under any interleaving
    the store invariant holds and every upload in flight belongs to a stored user
    (C29).
  \<^item> Library lemmas the properties rest on: the collection refines a map
    (\<open>Store.store_refinement\<close>); \<open>split\<close> and \<open>join\<close> are inverse
    (\<open>Prelim.js_split_roundtrip\<close>) and the model of \<open>split\<close> computes the ECMA-262
    algorithm (\<open>Prelim.ecma_split_eq\<close>, \<open>Prelim.split_loop_terminates\<close>); the POSIX
    join of an absolute directory with relative arguments (\<open>Paths.path_join_abs\<close>).

  \<^bold>\<open>Bounds and termination.\<close> The source has no loop of its own: its iterations are
  inside the libraries it calls (the string split, \<open>path.join\<close>, the collection
  scans). The model writes them as structural recursion over a list or a string,
  except the ECMA-262 split, whose scan \<open>index_of\<close> is a \<open>function\<close> with a measure
  and whose outer loop \<open>split_loop\<close> is a \<open>partial_function (option)\<close> shown to
  return on every input (\<open>split_loop_terminates\<close>). No fuel is used. Machine integers do not occur: ids are
  natural numbers, since ObjectIds are compared only for equality.

  \<^bold>\<open>Not modelled.\<close> Token expiry and the JWT format (abstracted by \<open>ext_ok\<close>);
  the hashing cost and timing of bcrypt; the network side of sending mail (the
  transport is a parameter); directory creation and file permissions; Express routing
  beyond the dispatch of \<open>step\<close>; the body parser (a field arrives as
  \<open>body_value\<close>); of multer and busboy, only what reaches the handler (the base
  name, the skipped empty name, the field check, the temp file) is modelled, not
  limits, MIME types or several file parts; non-ASCII addresses in the Joi email rule, which the model rejects.
  In the concurrency model an upload's handler body runs as one step: the await
  between \<open>fs.rename\<close> and \<open>findByIdAndUpdate\<close> is not split; what that leaves out is another request
  updating a different field of the same document in between, which
  \<open>findByIdAndUpdate\<close> would apply field by field.
  The \<open>./auth\<close> module (\<open>generateToken\<close>, \<open>verifyToken\<close>,
  \<open>passportAuthenticate\<close>) and the application module with the error middleware and
  \<open>HttpError\<close> are imported by the router but are not in the repository: they are
  modelled from the specification (the contract \<open>ext_ok\<close>, the bearer extraction, and
  a responder answering the error's status or 500 with \<open>{ message }\<close>), and no
  property depends on more of them than that.
\<close>

section \<open>Runs of the service\<close>

text \<open>
  The states the service reaches from an empty collection, any file system and any
  module directory, by any sequence of requests handled one after the other.
\<close>

definition init_sys :: "(string \<Rightarrow> string option) \<Rightarrow> string \<Rightarrow> sys" where
  "init_sys files dn = \<lparr>db = empty_store, fs = files, dirname = dn\<rparr>"

inductive reachable :: "ext \<Rightarrow> sys \<Rightarrow> bool" for x :: ext where
  init: "reachable x (init_sys files dn)"
| step: "reachable x sy \<Longrightarrow> reachable x (snd (step x sy r))"

text \<open>A sequence of requests handled one after the other, with the responses in order.\<close>

fun run :: "ext \<Rightarrow> sys \<Rightarrow> request list \<Rightarrow> response list \<times> sys" where
  "run x sy [] = ([], sy)"
| "run x sy (r # rs) =
     (let (resp, sy') = step x sy r; (resps, sy'') = run x sy' rs in (resp # resps, sy''))"

section \<open>Lemmas on runs\<close>

lemma reachable_init_state: "reachable x sy \<Longrightarrow> sy = init_sys (fs sy) (dirname sy)"
proof (induction rule: reachable.induct)
  case (init files dn)
  show ?case by (simp add: init_sys_def)
next
  case (step sy r)
  have "docs (db sy) = []" using step.IH by (metis init_sys_def empty_store_def sys.select_convs(1) store.select_convs(1))
  then have "snd (step x sy r) = sy" by (rule step_no_docs)
  with step.IH show ?case by simp
qed

lemma snd_run_Cons: "snd (run x sy (r # rs)) = snd (run x (snd (step x sy r)) rs)"
  by (simp add: split_def Let_def)

lemma fst_run_Cons:
  "fst (run x sy (r # rs)) = fst (step x sy r) # fst (run x (snd (step x sy r)) rs)"
  by (simp add: split_def Let_def)

lemma run_statuses_no_docs:
  "docs (db sy) = [] \<Longrightarrow> list_all (\<lambda>resp. response_status resp \<in> {400, 401, 500}) (fst (run x sy rs))"
proof (induction rs)
  case (Cons r rs)
  have "response_status (fst (step x sy r)) \<in> {400, 401, 500}" by (rule step_status_no_docs [OF Cons.prems])
  with Cons show ?case by (simp del: run.simps add: fst_run_Cons step_no_docs)
qed simp

lemma run_no_docs: "docs (db sy) = [] \<Longrightarrow> snd (run x sy rs) = sy"
  by (induction rs) (simp, simp del: run.simps add: snd_run_Cons step_no_docs)

lemma run_size: "store_size (db (snd (run x sy rs))) = store_size (db sy)"
  by (induction rs arbitrary: sy) (simp, simp del: run.simps add: snd_run_Cons step_size)

section \<open>Properties of whole runs\<close>

text \<open>
  C3. From an empty collection no sequence of requests ever stores a user or
  changes a file: the state after any sequence is the initial one. Registration, the
  only route that inserts, always fails, and every other route that writes, the
  upload middleware included, runs behind the authentication of a stored user.
\<close>

theorem run_no_users:
  "snd (run x (init_sys files dn) rs) = init_sys files dn"
proof -
  have "docs (db (init_sys files dn)) = []" by (simp add: init_sys_def empty_store_def)
  then show ?thesis by (rule run_no_docs)
qed

text \<open>
  C4. Consequently, in every state reached from an empty collection, login fails
  with 400 or 401, and \<open>/current\<close> and both PATCH routes answer 401.
\<close>

theorem reachable_login_fails:
  assumes "reachable x sy"
  shows "response_status (fst (step x sy (Login email password))) \<in> {400, 401}
    \<and> response_status (fst (step x sy (Current h))) = 401
    \<and> response_status (fst (step x sy (UpdateSubscription h v))) = 401
    \<and> response_status (fst (step x sy (UpdateAvatar h up))) = 401"
proof -
  have "docs (db sy) = []"
    using reachable_init_state [OF assms] by (metis init_sys_def empty_store_def sys.select_convs(1) store.select_convs(1))
  then show ?thesis
    using login_status_no_docs [of "db sy" x email password]
    by (auto simp: on_db_def respond_def error_response_def current_def passport_authenticate_no_docs
        update_subscription_no_docs update_avatar_no_docs unauthorized_def split: sum.splits)
qed

theorem reachable_login_fails_witness:
  "response_status (fst (step demo_ext (init_sys Map.empty ''/srv/app/routes/api'')
      (Login (Str ''ann@mail.com'') (Str ''secret12'')))) \<in> {400, 401}"
  using reachable_login_fails [OF reachable.init, of demo_ext Map.empty "''/srv/app/routes/api''"]
  by blast

text \<open>
  C8. No response of any route, error responses included, carries a \<open>password\<close>
  member: the handlers answer with fixed projections of the stored document.
\<close>

theorem step_no_password_key:
  assumes "response_body (fst (step x sy r)) = Some b"
  shows "''password'' \<notin> set (json_keys b)"
proof -
  have "list_all (\<lambda>k. k \<in> set response_keys) (json_keys b)"
    using step_keys [of x sy r] assms by (simp add: keys_ok_def)
  then have "''password'' \<in> set (json_keys b) \<Longrightarrow> ''password'' \<in> set response_keys"
    by (simp add: list_all_iff)
  moreover have "''password'' \<notin> set response_keys" by (simp add: response_keys_def)
  ultimately show ?thesis by blast
qed

theorem step_no_password_key_witness:
  "response_body (fst (step demo_ext demo_sys (Current (bearer ''t'')))) =
     Some (JObj [(''token'', JStr ''t''), (''user'', user_view demo_doc)])
   \<and> ''password'' \<notin> set (json_keys (JObj [(''token'', JStr ''t''), (''user'', user_view demo_doc)]))"
proof -
  have r: "response_body (fst (step demo_ext demo_sys (Current (bearer ''t'')))) =
     Some (JObj [(''token'', JStr ''t''), (''user'', user_view demo_doc)])"
    by (simp add: on_db_def respond_def current_def demo_passport demo_bearer demo_sys_def opt_member_def)
  show ?thesis using step_no_password_key [OF r] r by blast
qed

text \<open>
  C9. Every sequence of requests keeps the store invariant: distinct ids below the id
  counter, distinct addresses, and every document valid for the schema. The
  subscription route keeps the \<open>enum\<close> only because of its own \<open>includes\<close> check,
  since \<open>findByIdAndUpdate\<close> runs no validators.
\<close>

theorem run_store_inv:
  assumes "store_inv (db sy)"
  shows "store_inv (db (snd (run x sy rs)))"
  using assms by (induction rs arbitrary: sy) (simp, simp del: run.simps add: snd_run_Cons step_inv)

theorem run_store_inv_witness:
  "store_inv (db demo_sys)
   \<and> store_inv (db (snd (run demo_ext demo_sys
       [UpdateSubscription (bearer ''t'') (Str ''business''),
        UpdateAvatar (bearer ''t'') (Some \<lparr>up_field = ''avatar'', up_name = ''me.png'', up_content = ''PNG''\<rparr>),
        Current (bearer ''t'')])))"
proof -
  have i: "store_inv (db demo_sys)" by (simp add: demo_sys_def demo_store_inv)
  show ?thesis using i run_store_inv [OF i] by blast
qed

text \<open>
  C23. The size of the collection is fixed: after any sequence of requests the
  collection holds as many documents as before and its id counter is unchanged. No
  route deletes a document, the updates replace one in place, and the only insert,
  in registration, never happens.
\<close>

theorem run_keeps_size:
  "length (docs (db (snd (run x sy rs)))) = length (docs (db sy))
   \<and> next_id (db (snd (run x sy rs))) = next_id (db sy)"
  using run_size [of x sy rs] by (simp add: store_size_def)

text \<open>
  C26. What a client of a fresh deployment observes: whatever sequence of requests it
  sends, every answer is 400, 401 or 500; no request ever succeeds, and the conflict
  409 never occurs either, since no address is ever stored.
\<close>

theorem fresh_run_statuses:
  "list_all (\<lambda>resp. response_status resp \<in> {400, 401, 500}) (fst (run x (init_sys files dn) rs))"
  using run_statuses_no_docs [of "init_sys files dn" x rs] by (simp add: init_sys_def empty_store_def)

theorem fresh_run_statuses_witness:
  "map response_status (fst (run demo_ext (init_sys Map.empty ''/srv/app/routes/api'')
      [Register (Str ''ann@mail.com'') (Str ''secret12''), Register (Str ''ann@mail.com'') (Str ''secret12''),
       Login (Str ''ann@mail.com'') (Str ''secret12'')])) = [500, 500, 401]
   \<and> list_all (\<lambda>resp. response_status resp \<in> {400, 401, 500}) (fst (run demo_ext (init_sys Map.empty ''/srv/app/routes/api'')
      [Register (Str ''ann@mail.com'') (Str ''secret12''), Register (Str ''ann@mail.com'') (Str ''secret12''),
       Login (Str ''ann@mail.com'') (Str ''secret12'')]))"
proof -
  let ?s0 = "init_sys Map.empty ''/srv/app/routes/api''"
  have v: "validate_user (Str ''ann@mail.com'') (Str ''secret12'') = None" by code_simp
  have reg: "step demo_ext ?s0 (Register (Str ''ann@mail.com'') (Str ''secret12'')) =
      (error_response (ValidationError ''User validation failed: verificationToken: Verify token is required''), ?s0)"
    by (simp add: on_db_def respond_def register_defs v init_sys_def empty_store_def find_by_email_def
        user_create_def new_doc_def schema_errors_def required_error_def enum_error_def
        subscription_enum_def validation_message_def demo_ext_def Let_def)
  have log: "step demo_ext ?s0 (Login (Str ''ann@mail.com'') (Str ''secret12'')) =
      (error_response invalid_credentials, ?s0)"
    by (simp add: on_db_def respond_def login_def v init_sys_def empty_store_def find_by_email_def Let_def)
  have m: "map response_status (fst (run demo_ext ?s0
      [Register (Str ''ann@mail.com'') (Str ''secret12''), Register (Str ''ann@mail.com'') (Str ''secret12''),
       Login (Str ''ann@mail.com'') (Str ''secret12'')])) = [500, 500, 401]"
    by (simp only: fst_run_Cons reg log snd_conv fst_conv run.simps(1))
       (simp add: error_response_def invalid_credentials_def)
  show ?thesis by (rule conjI [OF m fresh_run_statuses])
qed


text \<open>
  C31. A rejected password is sent back in the clear: for a valid address and a
  non-empty password that fails the pattern, both \<open>POST /register\<close> and
  \<open>POST /login\<close> answer 400 with Joi's pattern message, which quotes the submitted
  password, and change nothing. The responses carry no \<open>password\<close> member (C8), but
  their \<open>message\<close> holds the password's value.
\<close>

theorem rejected_password_echoed:
  assumes "email_ok e" and "p \<noteq> []" and "\<not> password_pattern p"
  shows "step x sy (Register (Str e) (Str p)) =
      (Response 400 (Some (JObj [(''message'', JStr (CHR 0x22 # ''password'' @ CHR 0x22 # '' with value '' @
         CHR 0x22 # p @ CHR 0x22 # '' fails to match the required pattern: /^[a-zA-Z0-9]{3,30}$/''))])), sy)
    \<and> step x sy (Login (Str e) (Str p)) =
      (Response 400 (Some (JObj [(''message'', JStr (CHR 0x22 # ''password'' @ CHR 0x22 # '' with value '' @
         CHR 0x22 # p @ CHR 0x22 # '' fails to match the required pattern: /^[a-zA-Z0-9]{3,30}$/''))])), sy)"
proof -
  have v: "validate_user (Str e) (Str p) = Some (StringPattern ''password'' p)"
    using assms email_ok_nonempty [OF assms(1)] by (simp add: validate_user_Str password_rules_def)
  show ?thesis
    by (simp add: on_db_def respond_def error_response_def register_defs login_def v quoted_def)
qed

theorem rejected_password_echoed_witness:
  "step demo_ext demo_sys (Login (Str ''ann@mail.com'') (Str ''my secret!'')) =
     (Response 400 (Some (JObj [(''message'', JStr (CHR 0x22 # ''password'' @ CHR 0x22 # '' with value '' @
        CHR 0x22 # ''my secret!'' @ CHR 0x22 # '' fails to match the required pattern: /^[a-zA-Z0-9]{3,30}$/''))])),
      demo_sys)"
proof -
  have e: "email_ok ''ann@mail.com''" by code_simp
  have p: "\<not> password_pattern ''my secret!''" by code_simp
  show ?thesis using rejected_password_echoed [OF e _ p, of demo_ext demo_sys] by simp
qed

end
